theory Spec2Isabelle
  imports Main "HOL-Library.Word"
begin

unbundle bit_operations_syntax

section \<open>Values, exceptions and log records\<close>

text \<open>
  The decoder of \<^verbatim>\<open>tblob.py\<close> is written with the combinators of the Python
  library \<^verbatim>\<open>construct\<close>.  Python values are dynamically typed, so the decoded
  values are one datatype: \<^verbatim>\<open>None\<close>, integers (unbounded), booleans, text (a
  sequence of Unicode code points), byte strings, the library's \<^verbatim>\<open>Container\<close>
  (a dictionary that keeps insertion order) and its \<^verbatim>\<open>ListContainer\<close>.
\<close>

type_synonym byte = "8 word"

datatype val =
    VNone
  | VInt int
  | VBool bool
  | VStr "nat list"
  | VBytes "byte list"
  | VCont "(string \<times> val) list"
  | VList "val list"

definition pystr :: "string \<Rightarrow> val" where
  "pystr s = VStr (map of_char s)"

text \<open>Every exception class that the modelled code can raise.\<close>

datatype exc =
    StreamError
  | ConstError
  | RangeError
  | PaddingError
  | TypeError
  | KeyError
  | AttributeError
  | ValueError
  | AssertionError
  | ZeroDivisionError

text \<open>
  \<^verbatim>\<open>construct\<close>'s own exceptions derive from \<^verbatim>\<open>ConstructError\<close>;
  \<^verbatim>\<open>Peek\<close> swallows exactly those.
\<close>

fun is_ConstructError :: "exc \<Rightarrow> bool" where
  "is_ConstructError StreamError = True"
| "is_ConstructError ConstError = True"
| "is_ConstructError RangeError = True"
| "is_ConstructError PaddingError = True"
| "is_ConstructError _ = False"

text \<open>
  The calls of \<^verbatim>\<open>logger.py\<close> made by \<^verbatim>\<open>tblob.py\<close>, one constructor per
  call site, holding the arguments of the format string.
\<close>

datatype log_entry =
    Error_unable_to_decode_string "byte list"
  | Error_unknown_signature int
  | Warning_blob_not_supported string int
  | Warning_contains_unparsed_data string int nat
  | Error_not_all_data_parsed string int nat nat "byte list"
  | Debug_building_callbacks
  | Debug_adding_callback int string
  | Debug_building_callbacks_ended

section \<open>Python operators on values\<close>

fun py_int :: "val \<Rightarrow> int option" where
  "py_int (VInt n) = Some n"
| "py_int (VBool b) = Some (if b then 1 else 0)"
| "py_int _ = None"

text \<open>Truth value of an object, as \<^verbatim>\<open>if obj:\<close> tests it.\<close>

fun py_truth :: "val \<Rightarrow> bool" where
  "py_truth VNone = False"
| "py_truth (VInt n) = (n \<noteq> 0)"
| "py_truth (VBool b) = b"
| "py_truth (VStr s) = (s \<noteq> [])"
| "py_truth (VBytes b) = (b \<noteq> [])"
| "py_truth (VCont kv) = (kv \<noteq> [])"
| "py_truth (VList vs) = (vs \<noteq> [])"

definition py_arith :: "(int \<Rightarrow> int \<Rightarrow> val) \<Rightarrow> val \<Rightarrow> val \<Rightarrow> exc + val" where
  "py_arith f a b =
     (case py_int a of
        None \<Rightarrow> Inl TypeError
      | Some x \<Rightarrow> (case py_int b of None \<Rightarrow> Inl TypeError | Some y \<Rightarrow> Inr (f x y)))"

definition py_ge :: "val \<Rightarrow> val \<Rightarrow> exc + val" where
  "py_ge = py_arith (\<lambda>x y. VBool (x \<ge> y))"

definition py_rshift :: "val \<Rightarrow> val \<Rightarrow> exc + val" where
  "py_rshift a b =
     (case py_int b of
        None \<Rightarrow> Inl TypeError
      | Some y \<Rightarrow> if y < 0 then (case py_int a of None \<Rightarrow> Inl TypeError | Some _ \<Rightarrow> Inl ValueError)
                 else py_arith (\<lambda>x y. VInt (drop_bit (nat y) x)) a b)"

definition py_mod :: "val \<Rightarrow> val \<Rightarrow> exc + val" where
  "py_mod a b =
     (case py_int b of
        None \<Rightarrow> Inl TypeError
      | Some y \<Rightarrow> if y = 0 then (case py_int a of None \<Rightarrow> Inl TypeError | Some _ \<Rightarrow> Inl ZeroDivisionError)
                 else py_arith (\<lambda>x y. VInt (x mod y)) a b)"

definition py_add :: "val \<Rightarrow> val \<Rightarrow> exc + val" where
  "py_add = py_arith (\<lambda>x y. VInt (x + y))"

definition py_sub :: "val \<Rightarrow> val \<Rightarrow> exc + val" where
  "py_sub = py_arith (\<lambda>x y. VInt (x - y))"

definition py_mul :: "val \<Rightarrow> val \<Rightarrow> exc + val" where
  "py_mul = py_arith (\<lambda>x y. VInt (x * y))"

text \<open>
  \<^verbatim>\<open>==\<close> never raises: numbers compare by value (\<^verbatim>\<open>True == 1\<close>), anything
  else structurally, and \<^verbatim>\<open>None == 0\<close> is false.
\<close>

definition py_eq_bool :: "val \<Rightarrow> val \<Rightarrow> bool" where
  "py_eq_bool a b =
     (case (py_int a, py_int b) of
        (Some x, Some y) \<Rightarrow> x = y
      | _ \<Rightarrow> a = b)"

definition py_eq :: "val \<Rightarrow> val \<Rightarrow> exc + val" where
  "py_eq a b = Inr (VBool (py_eq_bool a b))"

definition py_ne :: "val \<Rightarrow> val \<Rightarrow> exc + val" where
  "py_ne a b = Inr (VBool (\<not> py_eq_bool a b))"

text \<open>
  \<^verbatim>\<open>obj[key]\<close> on a Container raises \<^verbatim>\<open>KeyError\<close> for a missing key, and
  \<^verbatim>\<open>TypeError\<close> on a value that is not subscriptable by a name;
  \<^verbatim>\<open>obj.key\<close> on a Container raises \<^verbatim>\<open>AttributeError\<close> instead.
\<close>

fun py_getitem :: "val \<Rightarrow> string \<Rightarrow> exc + val" where
  "py_getitem (VCont kv) k = (case map_of kv k of None \<Rightarrow> Inl KeyError | Some v \<Rightarrow> Inr v)"
| "py_getitem _ k = Inl TypeError"

fun py_getattr :: "val \<Rightarrow> string \<Rightarrow> exc + val" where
  "py_getattr (VCont kv) k = (case map_of kv k of None \<Rightarrow> Inl AttributeError | Some v \<Rightarrow> Inr v)"
| "py_getattr _ k = Inl AttributeError"

text \<open>\<^verbatim>\<open>obj[name] = value\<close> on a Container: replace in place, or append.\<close>

fun container_set :: "(string \<times> val) list \<Rightarrow> string \<Rightarrow> val \<Rightarrow> (string \<times> val) list" where
  "container_set [] k v = [(k, v)]"
| "container_set ((k', v') # kv) k v =
     (if k' = k then (k, v) # kv else (k', v') # container_set kv k v)"

section \<open>Expressions of \<^verbatim>\<open>construct.expr\<close>\<close>

text \<open>
  \<^verbatim>\<open>this.a\<close> and \<^verbatim>\<open>this.a.b\<close> are evaluated against the context by item
  access; an operator applied to them builds a \<^verbatim>\<open>BinExpr\<close>, which evaluates its
  left operand, then its right operand, then applies the operator.
\<close>

type_synonym expr = "val \<Rightarrow> exc + val"

definition this1 :: "string \<Rightarrow> expr" where
  "this1 a ctx = py_getitem ctx a"

definition this2 :: "string \<Rightarrow> string \<Rightarrow> expr" where
  "this2 a b ctx = (case py_getitem ctx a of Inl e \<Rightarrow> Inl e | Inr v \<Rightarrow> py_getitem v b)"

definition lit :: "val \<Rightarrow> expr" where
  "lit v ctx = Inr v"

definition BinExpr :: "(val \<Rightarrow> val \<Rightarrow> exc + val) \<Rightarrow> expr \<Rightarrow> expr \<Rightarrow> expr" where
  "BinExpr f l r ctx =
     (case l ctx of
        Inl e \<Rightarrow> Inl e
      | Inr a \<Rightarrow> (case r ctx of Inl e \<Rightarrow> Inl e | Inr b \<Rightarrow> f a b))"

section \<open>The combinators of \<^verbatim>\<open>construct\<close>\<close>

text \<open>
  A construct parses from a byte buffer at an offset, in a context (the fields of the
  enclosing \<^verbatim>\<open>Struct\<close> parsed so far; the source never reads the links
  \<^verbatim>\<open>_\<close>, \<^verbatim>\<open>_root\<close>, \<^verbatim>\<open>_params\<close> or \<^verbatim>\<open>_index\<close> of the library's
  context, which are left out).  It either raises or returns a value and the offset
  after it, and in both cases the log records it emitted.
\<close>

type_synonym 'a outcome = "(exc + 'a) \<times> log_entry list"

type_synonym construct = "val \<Rightarrow> byte list \<Rightarrow> nat \<Rightarrow> (val \<times> nat) outcome"

definition and_then :: "('a \<times> nat) outcome \<Rightarrow> ('a \<Rightarrow> nat \<Rightarrow> ('b \<times> nat) outcome) \<Rightarrow> ('b \<times> nat) outcome" where
  "and_then r f =
     (case r of
        (Inl e, l) \<Rightarrow> (Inl e, l)
      | (Inr (v, p), l) \<Rightarrow> (case f v p of (r', l') \<Rightarrow> (r', l @ l')))"

definition eval_then :: "(exc + val) \<Rightarrow> (val \<Rightarrow> ('b \<times> nat) outcome) \<Rightarrow> ('b \<times> nat) outcome" where
  "eval_then r f = (case r of Inl e \<Rightarrow> (Inl e, []) | Inr v \<Rightarrow> f v)"

text \<open>
  \<^verbatim>\<open>stream_read(stream, n)\<close>: \<^verbatim>\<open>n\<close> bytes, or \<^verbatim>\<open>StreamError\<close> when the
  stream holds fewer.
\<close>

definition stream_read :: "byte list \<Rightarrow> nat \<Rightarrow> nat \<Rightarrow> exc + (byte list \<times> nat)" where
  "stream_read d p n =
     (if p + n \<le> length d then Inr (take n (drop p d), p + n) else Inl StreamError)"

text \<open>\<^verbatim>\<open>int.from_bytes(bs, 'little')\<close>.\<close>

fun from_bytes_little :: "byte list \<Rightarrow> int" where
  "from_bytes_little [] = 0"
| "from_bytes_little (b # bs) = uint b + 256 * from_bytes_little bs"

definition FormatField :: "nat \<Rightarrow> construct" where
  "FormatField n ctx d p =
     (case stream_read d p n of
        Inl e \<Rightarrow> (Inl e, [])
      | Inr (bs, p') \<Rightarrow> (Inr (VInt (from_bytes_little bs), p'), []))"

definition Byte :: construct where
  "Byte = FormatField 1"

definition Int32ul :: construct where
  "Int32ul = FormatField 4"

definition Int64ul :: construct where
  "Int64ul = FormatField 8"

definition Pass :: construct where
  "Pass ctx d p = (Inr (VNone, p), [])"

text \<open>
  \<^verbatim>\<open>Computed(f)\<close> consumes nothing; \<^verbatim>\<open>f\<close> is a constant or a callable of the
  context.  A callable may log (\<^verbatim>\<open>decode_tstring\<close> does).
\<close>

definition Computed :: "(val \<Rightarrow> val outcome) \<Rightarrow> construct" where
  "Computed f ctx d p =
     (case f ctx of (Inl e, l) \<Rightarrow> (Inl e, l) | (Inr v, l) \<Rightarrow> (Inr (v, p), l))"

definition const_value :: "val \<Rightarrow> val \<Rightarrow> val outcome" where
  "const_value v ctx = (Inr v, [])"

definition Const :: "int \<Rightarrow> construct \<Rightarrow> construct" where
  "Const c sc ctx d p =
     and_then (sc ctx d p) (\<lambda>v p'. if py_eq_bool v (VInt c) then (Inr (v, p'), []) else (Inl ConstError, []))"

text \<open>\<^verbatim>\<open>Hex\<close> only changes how the integer prints.\<close>

definition Hex :: "construct \<Rightarrow> construct" where
  "Hex sc = sc"

text \<open>
  \<^verbatim>\<open>Peek\<close> parses the subconstruct and seeks back; a \<^verbatim>\<open>ConstructError\<close>
  of the subconstruct is swallowed and the value is \<^verbatim>\<open>None\<close>.
\<close>

definition Peek :: "construct \<Rightarrow> construct" where
  "Peek sc ctx d p =
     (case sc ctx d p of
        (Inr (v, p'), l) \<Rightarrow> (Inr (v, p), l)
      | (Inl e, l) \<Rightarrow> if is_ConstructError e then (Inr (VNone, p), l) else (Inl e, l))"

definition IfThenElse :: "expr \<Rightarrow> construct \<Rightarrow> construct \<Rightarrow> construct" where
  "IfThenElse cond thensubcon elsesubcon ctx d p =
     eval_then (cond ctx) (\<lambda>c. if py_truth c then thensubcon ctx d p else elsesubcon ctx d p)"

definition If :: "expr \<Rightarrow> construct \<Rightarrow> construct" where
  "If cond sc = IfThenElse cond sc Pass"

text \<open>
  \<^verbatim>\<open>Bytes(n)\<close>: a negative \<^verbatim>\<open>n\<close> makes the stream return everything left,
  whose length never equals \<^verbatim>\<open>n\<close>.
\<close>

definition Bytes :: "expr \<Rightarrow> construct" where
  "Bytes len ctx d p =
     eval_then (len ctx) (\<lambda>n.
       case py_int n of
         None \<Rightarrow> (Inl TypeError, [])
       | Some k \<Rightarrow>
           if k < 0 then (Inl StreamError, [])
           else (case stream_read d p (nat k) of
                   Inl e \<Rightarrow> (Inl e, [])
                 | Inr (bs, p') \<Rightarrow> (Inr (VBytes bs, p'), [])))"

text \<open>\<^verbatim>\<open>Padding(n)\<close> is \<^verbatim>\<open>Padded(n, Pass)\<close>: it reads \<^verbatim>\<open>n\<close> bytes and drops them.\<close>

definition Padding :: "expr \<Rightarrow> construct" where
  "Padding len ctx d p =
     eval_then (len ctx) (\<lambda>n.
       case py_int n of
         None \<Rightarrow> (Inl TypeError, [])
       | Some k \<Rightarrow>
           if k < 0 then (Inl PaddingError, [])
           else (case stream_read d p (nat k) of
                   Inl e \<Rightarrow> (Inl e, [])
                 | Inr (bs, p') \<Rightarrow> (Inr (VNone, p'), [])))"

text \<open>
  \<^verbatim>\<open>Struct\<close> parses its subconstructs in order; a named one (\<^verbatim>\<open>'name' / sc\<close>)
  stores its value in the result and in the context of the later ones.
\<close>

type_synonym field = "string option \<times> construct"

definition named :: "string \<Rightarrow> construct \<Rightarrow> field" where
  "named n sc = (Some n, sc)"

definition unnamed :: "construct \<Rightarrow> field" where
  "unnamed sc = (None, sc)"

fun Struct_fields :: "field list \<Rightarrow> (string \<times> val) list \<Rightarrow> byte list \<Rightarrow> nat \<Rightarrow> (val \<times> nat) outcome" where
  "Struct_fields [] obj d p = (Inr (VCont obj, p), [])"
| "Struct_fields ((nm, sc) # rest) obj d p =
     and_then (sc (VCont obj) d p) (\<lambda>v p'.
       Struct_fields rest (case nm of None \<Rightarrow> obj | Some n \<Rightarrow> container_set obj n v) d p')"

definition Struct :: "field list \<Rightarrow> construct" where
  "Struct fields ctx d p = Struct_fields fields [] d p"

text \<open>
  \<^verbatim>\<open>FlagsEnum(Int32ul, name=value, ...)\<close>: a Container with one boolean per
  name, true when \<^verbatim>\<open>obj & value == value\<close>.
\<close>

definition FlagsEnum :: "construct \<Rightarrow> (string \<times> int) list \<Rightarrow> construct" where
  "FlagsEnum sc flags ctx d p =
     and_then (sc ctx d p) (\<lambda>v p'.
       case py_int v of
         None \<Rightarrow> (Inl TypeError, [])
       | Some n \<Rightarrow>
           (Inr (VCont ((''_flagsenum'', VBool True) #
                        map (\<lambda>(name, value). (name, VBool (n AND value = value))) flags), p'), []))"

text \<open>
  \<^verbatim>\<open>Switch(key, cases)\<close>: the case of the key, or \<^verbatim>\<open>Pass\<close> when the key has
  none.  \<^verbatim>\<open>LazyBound(lambda: sc)\<close> parses as \<^verbatim>\<open>sc\<close>.
\<close>

definition Switch :: "expr \<Rightarrow> (int \<times> construct) list \<Rightarrow> construct" where
  "Switch keyfunc cases ctx d p =
     eval_then (keyfunc ctx) (\<lambda>k.
       case py_int k of
         None \<Rightarrow> Pass ctx d p
       | Some n \<Rightarrow> (case map_of cases n of None \<Rightarrow> Pass ctx d p | Some sc \<Rightarrow> sc ctx d p))"

definition LazyBound :: "construct \<Rightarrow> construct" where
  "LazyBound sc = sc"

text \<open>\<^verbatim>\<open>Array(count, sc)\<close>: \<^verbatim>\<open>count\<close> elements, in a ListContainer.\<close>

fun Array_elems :: "nat \<Rightarrow> construct \<Rightarrow> val \<Rightarrow> byte list \<Rightarrow> nat \<Rightarrow> (val list \<times> nat) outcome" where
  "Array_elems 0 sc ctx d p = (Inr ([], p), [])"
| "Array_elems (Suc n) sc ctx d p =
     and_then (sc ctx d p) (\<lambda>v p'.
       and_then (Array_elems n sc ctx d p') (\<lambda>vs p''. (Inr (v # vs, p''), [])))"

definition Array :: "expr \<Rightarrow> construct \<Rightarrow> construct" where
  "Array count sc ctx d p =
     eval_then (count ctx) (\<lambda>c.
       case py_int c of
         None \<Rightarrow> (Inl TypeError, [])
       | Some k \<Rightarrow>
           if k < 0 then (Inl RangeError, [])
           else and_then (Array_elems (nat k) sc ctx d p) (\<lambda>vs p'. (Inr (VList vs, p'), [])))"

text \<open>\<^verbatim>\<open>sc.parse(data)\<close>: parse from offset 0 in an empty context.\<close>

definition parse :: "construct \<Rightarrow> byte list \<Rightarrow> (val \<times> nat) outcome" where
  "parse sc data = sc (VCont []) data 0"

section \<open>Primitive codecs of \<^verbatim>\<open>tblob.py\<close>\<close>

text \<open>
  Python's \<^verbatim>\<open>bytes.decode('utf-8')\<close> (strict): the code points of a well-formed
  UTF-8 sequence, or \<^verbatim>\<open>UnicodeDecodeError\<close> (here \<open>None\<close>) on a stray or
  missing continuation byte, an overlong form, a surrogate or a value above U+10FFFF.
\<close>

definition continuation :: "byte \<Rightarrow> bool" where
  "continuation b = (0x80 \<le> b \<and> b \<le> 0xBF)"

definition low6 :: "byte \<Rightarrow> nat" where
  "low6 b = unat b mod 64"

fun utf8_decode :: "byte list \<Rightarrow> nat list option" where
  "utf8_decode [] = Some []"
| "utf8_decode (b # bs) =
     (if b < 0x80 then map_option ((#) (unat b)) (utf8_decode bs)
      else if 0xC2 \<le> b \<and> b \<le> 0xDF then
        (case bs of
           c1 # r \<Rightarrow>
             if continuation c1
             then map_option ((#) ((unat b mod 32) * 64 + low6 c1)) (utf8_decode r)
             else None
         | _ \<Rightarrow> None)
      else if 0xE0 \<le> b \<and> b \<le> 0xEF then
        (case bs of
           c1 # c2 # r \<Rightarrow>
             if continuation c1 \<and> continuation c2
                \<and> (if b = 0xE0 then 0xA0 \<le> c1 else True) \<and> (if b = 0xED then c1 \<le> 0x9F else True)
             then map_option ((#) ((unat b mod 16) * 4096 + low6 c1 * 64 + low6 c2)) (utf8_decode r)
             else None
         | _ \<Rightarrow> None)
      else if 0xF0 \<le> b \<and> b \<le> 0xF4 then
        (case bs of
           c1 # c2 # c3 # r \<Rightarrow>
             if continuation c1 \<and> continuation c2 \<and> continuation c3
                \<and> (if b = 0xF0 then 0x90 \<le> c1 else True) \<and> (if b = 0xF4 then c1 \<le> 0x8F else True)
             then map_option ((#) ((unat b mod 8) * 262144 + low6 c1 * 4096 + low6 c2 * 64 + low6 c3))
                    (utf8_decode r)
             else None
         | _ \<Rightarrow> None)
      else None)"

text \<open>
  \<^verbatim>\<open>decode_tstring\<close> (tblob.py, lines 38 to 44): the text, or on
  \<^verbatim>\<open>UnicodeDecodeError\<close> an error record and the bytes themselves.
\<close>

definition decode_tstring :: "byte list \<Rightarrow> val outcome" where
  "decode_tstring binarray =
     (case utf8_decode binarray of
        Some str_utf \<Rightarrow> (Inr (VStr str_utf), [])
      | None \<Rightarrow> (Inr (VBytes binarray), [Error_unable_to_decode_string binarray]))"

text \<open>A \<^verbatim>\<open>Computed\<close> whose argument is an expression evaluates it in the context.\<close>

definition of_expr :: "expr \<Rightarrow> val \<Rightarrow> val outcome" where
  "of_expr e ctx = (e ctx, [])"

text \<open>
  The callable \<^verbatim>\<open>lambda x: decode_tstring(x._value)\<close> of \<^verbatim>\<open>tstring_struct\<close>.
  \<^verbatim>\<open>bytes.decode\<close> exists on bytes only.
\<close>

definition decode_value :: "val \<Rightarrow> val outcome" where
  "decode_value x =
     (case py_getattr x ''_value'' of
        Inl e \<Rightarrow> (Inl e, [])
      | Inr (VBytes bs) \<Rightarrow> decode_tstring bs
      | Inr _ \<Rightarrow> (Inl AttributeError, []))"

text \<open>tblob.py, lines 52 to 64.\<close>

definition tstring_struct :: construct where
  "tstring_struct = Struct [
     named ''_sname'' (Computed (const_value (pystr ''tstring''))),
     named ''_check'' (Peek Byte),
     named ''_pl'' (IfThenElse (BinExpr py_ge (this1 ''_check'') (lit (VInt 254))) Int32ul Byte),
     named ''_len'' (IfThenElse (BinExpr py_ge (this1 ''_check'') (lit (VInt 254)))
                      (Computed (of_expr (BinExpr py_rshift (this1 ''_pl'') (lit (VInt 8)))))
                      (Computed (of_expr (this1 ''_pl'')))),
     named ''_value'' (Bytes (this1 ''_len'')),
     named ''string'' (Computed decode_value),
     unnamed (IfThenElse (BinExpr py_ge (this1 ''_check'') (lit (VInt 254)))
                (If (BinExpr py_mod (this1 ''_len'') (lit (VInt 4)))
                    (Padding (BinExpr py_sub (lit (VInt 4))
                                (BinExpr py_mod (this1 ''_len'') (lit (VInt 4))))))
                (If (BinExpr py_mod (BinExpr py_add (this1 ''_len'') (lit (VInt 1))) (lit (VInt 4)))
                    (Padding (BinExpr py_sub (lit (VInt 4))
                                (BinExpr py_mod (BinExpr py_add (this1 ''_len'') (lit (VInt 1)))
                                   (lit (VInt 4)))))))]"

text \<open>tblob.py, lines 66 to 77.\<close>

definition tbytes_struct :: construct where
  "tbytes_struct = Struct [
     named ''_sname'' (Computed (const_value (pystr ''tbytes''))),
     named ''_check'' (Peek Byte),
     named ''_pl'' (IfThenElse (BinExpr py_ge (this1 ''_check'') (lit (VInt 254))) Int32ul Byte),
     named ''len'' (IfThenElse (BinExpr py_ge (this1 ''_check'') (lit (VInt 254)))
                     (Computed (of_expr (BinExpr py_rshift (this1 ''_pl'') (lit (VInt 8)))))
                     (Computed (of_expr (this1 ''_pl'')))),
     named ''bytes'' (Hex (Bytes (this1 ''len''))),
     unnamed (IfThenElse (BinExpr py_ge (this1 ''_check'') (lit (VInt 254)))
                (If (BinExpr py_mod (this1 ''len'') (lit (VInt 4)))
                    (Padding (BinExpr py_sub (lit (VInt 4))
                                (BinExpr py_mod (this1 ''len'') (lit (VInt 4))))))
                (If (BinExpr py_mod (BinExpr py_add (this1 ''len'') (lit (VInt 1))) (lit (VInt 4)))
                    (Padding (BinExpr py_sub (lit (VInt 4))
                                (BinExpr py_mod (BinExpr py_add (this1 ''len'') (lit (VInt 1)))
                                   (lit (VInt 4)))))))]"

text \<open>tblob.py, lines 79 to 86.\<close>

definition tbool_struct :: construct where
  "tbool_struct = Struct [
     named ''sname'' (Computed (const_value (pystr ''boolean''))),
     named ''_signature'' Int32ul,
     named ''value'' (IfThenElse (BinExpr py_eq (this1 ''_signature'') (lit (VInt 0xbc799737)))
                       (Computed (const_value (pystr ''false'')))
                       (IfThenElse (BinExpr py_eq (this1 ''_signature'') (lit (VInt 0x997275b5)))
                          (Computed (const_value (pystr ''true'')))
                          (Computed (const_value (pystr ''ERROR'')))))]"


section \<open>The registry \<^verbatim>\<open>tdss_callbacks\<close>\<close>

text \<open>
  tblob.py, lines 5664 to 7305.  An entry of the dictionary is a Python tuple written
  by hand: most have three components (the decoder method or \<^verbatim>\<open>None\<close>, the name,
  \<^verbatim>\<open>None\<close>), some have only the first two.  A decoder is named by its method.
  The literal repeats no key, so the dictionary is the list of its items, kept in
  source order and cut into parts of one hundred entries.
\<close>

datatype blob_tuple =
    Tuple3 "string option" string val
  | Tuple2 "string option" string

text \<open>tblob.py, lines 5666 to 5765.\<close>

definition tdss_callbacks_01 :: "(int \<times> blob_tuple) list" where
  "tdss_callbacks_01 = [
     (0xb8d0afdf, Tuple3 None ''account_days_ttl'' VNone),
     (0xe7027c94, Tuple3 None ''account_accept_authorization'' VNone),
     (0xad2e1cd8, Tuple3 None ''account_authorization_form'' VNone),
     (0x1250abde, Tuple3 None ''account_authorizations'' VNone),
     (0x63cacf26, Tuple3 None ''account_auto_download_settings'' VNone),
     (0xc1cbd5b6, Tuple3 None ''account_cancel_password_email'' VNone),
     (0x70c32edb, Tuple3 None ''account_change_phone'' VNone),
     (0x2714d86c, Tuple3 None ''account_check_username'' VNone),
     (0x8fdf1920, Tuple3 None ''account_confirm_password_email'' VNone),
     (0x5f2178c3, Tuple3 None ''account_confirm_phone'' VNone),
     (0x8432c21f, Tuple3 None ''account_create_theme'' VNone),
     (0x418d4e0b, Tuple3 None ''account_delete_account'' VNone),
     (0xb880bc4b, Tuple3 None ''account_delete_secure_value'' VNone),
     (0x08fc711d, Tuple3 None ''account_get_account_ttl'' VNone),
     (0xb288bc7d, Tuple3 None ''account_get_all_secure_values'' VNone),
     (0xb86ba8e1, Tuple3 None ''account_get_authorization_form'' VNone),
     (0xe320c158, Tuple3 None ''account_get_authorizations'' VNone),
     (0x56da0b3f, Tuple3 None ''account_get_auto_download_settings'' VNone),
     (0x9f07c728, Tuple3 None ''account_get_contact_sign_up_notification'' VNone),
     (0xeb2b4cf6, Tuple3 None ''account_get_global_privacy_settings'' VNone),
     (0x65ad71dc, Tuple3 None ''account_get_multi_wall_papers'' VNone),
     (0x53577479, Tuple3 None ''account_get_notify_exceptions'' VNone),
     (0x12b3ad31, Tuple3 None ''account_get_notify_settings'' VNone),
     (0x548a30f5, Tuple3 None ''account_get_password'' VNone),
     (0x9cd4eaf9, Tuple3 None ''account_get_password_settings'' VNone),
     (0xdadbc950, Tuple3 None ''account_get_privacy'' VNone),
     (0x73665bc2, Tuple3 None ''account_get_secure_value'' VNone),
     (0x8d9d742b, Tuple3 None ''account_get_theme'' VNone),
     (0x285946f8, Tuple3 None ''account_get_themes'' VNone),
     (0x449e0b51, Tuple3 None ''account_get_tmp_password'' VNone),
     (0xfc8ddbea, Tuple3 None ''account_get_wall_paper'' VNone),
     (0xaabb1763, Tuple3 None ''account_get_wall_papers'' VNone),
     (0xc04cfac2, Tuple2 None ''account_get_wall_papers_v_0_1_317''),
     (0x182e6d6f, Tuple3 None ''account_get_web_authorizations'' VNone),
     (0x7ae43737, Tuple3 None ''account_install_theme'' VNone),
     (0xfeed5769, Tuple3 None ''account_install_wall_paper'' VNone),
     (0xad2641f8, Tuple3 None ''account_password'' VNone),
     (0xc23727c9, Tuple3 None ''account_password_input_settings'' VNone),
     (0x9a5c33e5, Tuple3 None ''account_password_settings'' VNone),
     (0x50a04e45, Tuple3 None ''account_privacy_rules'' VNone),
     (0x68976c6f, Tuple3 None ''account_register_device'' VNone),
     (0x554abb6f, Tuple3 None ''account_privacy_rules_v_5_6_2'' VNone),
     (0x446c712c, Tuple3 None ''account_register_device_v_0_1_317'' VNone),
     (0x5cbea590, Tuple3 None ''account_register_device_v_5_6_2'' VNone),
     (0xae189d5f, Tuple3 None ''account_report_peer'' VNone),
     (0x7a7f2a15, Tuple3 None ''account_resend_password_email'' VNone),
     (0xdf77f3bc, Tuple3 None ''account_reset_authorization'' VNone),
     (0xdb7e1747, Tuple3 None ''account_reset_notify_settings'' VNone),
     (0xbb3b9804, Tuple3 None ''account_reset_wall_papers'' VNone),
     (0x2d01b9ef, Tuple3 None ''account_reset_web_authorization'' VNone),
     (0x682d2594, Tuple3 None ''account_reset_web_authorizations'' VNone),
     (0x76f36233, Tuple3 None ''account_save_auto_download_settings'' VNone),
     (0x899fe31d, Tuple3 None ''account_save_secure_value'' VNone),
     (0xf257106c, Tuple3 None ''account_save_theme'' VNone),
     (0x6c5a5b37, Tuple3 None ''account_save_wall_paper'' VNone),
     (0x82574ae5, Tuple3 None ''account_send_change_phone_code'' VNone),
     (0x1b3faa88, Tuple3 None ''account_send_confirm_phone_code'' VNone),
     (0x7011509f, Tuple3 None ''account_send_verify_email_code'' VNone),
     (0xa5a356f9, Tuple3 None ''account_send_verify_phone_code'' VNone),
     (0x811f854f, Tuple3 None ''account_sent_email_code'' VNone),
     (0x2442485e, Tuple3 None ''account_set_account_ttl'' VNone),
     (0xcff43f61, Tuple3 None ''account_set_contact_sign_up_notification'' VNone),
     (0x1edaaac2, Tuple3 None ''account_set_global_privacy_settings'' VNone),
     (0xc9f81ce8, Tuple3 None ''account_set_privacy'' VNone),
     (0x7f676421, Tuple3 None ''account_themes'' VNone),
     (0xf41eb622, Tuple3 None ''account_themes_not_modified'' VNone),
     (0xdb64fd34, Tuple3 None ''account_tmp_password'' VNone),
     (0x3076c4bf, Tuple3 None ''account_unregister_device'' VNone),
     (0x65c55b40, Tuple2 None ''account_unregister_device_v_0_1_317''),
     (0x38df3532, Tuple3 None ''account_update_device_locked'' VNone),
     (0x84be5b93, Tuple3 None ''account_update_notify_settings'' VNone),
     (0xa59b102f, Tuple3 None ''account_update_password_settings'' VNone),
     (0x78515775, Tuple3 None ''account_update_profile'' VNone),
     (0xf0888d68, Tuple2 None ''account_update_profile_v_0_1_317''),
     (0x6628562c, Tuple3 None ''account_update_status'' VNone),
     (0x5cb367d5, Tuple3 None ''account_update_theme'' VNone),
     (0x3e0bdd7c, Tuple3 None ''account_update_username'' VNone),
     (0x1c3db333, Tuple3 None ''account_upload_theme'' VNone),
     (0xdd853661, Tuple3 None ''account_upload_wall_paper'' VNone),
     (0xecba39db, Tuple3 None ''account_verify_email'' VNone),
     (0x4dd3a7f6, Tuple3 None ''account_verify_phone'' VNone),
     (0x702b65a9, Tuple3 None ''account_wall_papers'' VNone),
     (0x1c199183, Tuple3 None ''account_wall_papers_not_modified'' VNone),
     (0xed56c9fc, Tuple3 None ''account_web_authorizations'' VNone),
     (0x586988d8, Tuple3 (Some ''audio_empty_layer45_struct'') ''audio_empty_layer45'' VNone),
     (0x555555f6, Tuple3 (Some ''audio_encrypted_struct'') ''audio_encrypted'' VNone),
     (0xf9e35055, Tuple3 (Some ''audio_layer45_struct'') ''audio_layer45'' VNone),
     (0x427425e7, Tuple3 (Some ''audio_old_struct'') ''audio_old'' VNone),
     (0xc7ac6496, Tuple3 (Some ''audio_old2_struct'') ''audio_old2'' VNone),
     (0xe894ad4d, Tuple3 None ''auth_accept_login_token'' VNone),
     (0xcd050916, Tuple3 None ''auth_authorization'' VNone),
     (0x44747e9a, Tuple3 None ''auth_authorization_sign_up_required'' VNone),
     (0xf6b673a4, Tuple2 None ''auth_authorization_v_0_1_317''),
     (0x1f040578, Tuple3 None ''auth_cancel_code'' VNone),
     (0xd18b4d16, Tuple3 None ''auth_check_password'' VNone),
     (0x6fe51dfb, Tuple3 None ''auth_check_phone_v_5_6_2'' VNone),
     (0x811ea28e, Tuple3 None ''auth_checked_phone_v_5_6_2'' VNone),
     (0xe300cc3b, Tuple2 None ''auth_checked_phone_v_0_1_317''),
     (0x741cd3e3, Tuple3 None ''auth_code_type_call'' VNone),
     (0x226ccefb, Tuple3 None ''auth_code_type_flash_call'' VNone)]"

text \<open>tblob.py, lines 5766 to 5865.\<close>

definition tdss_callbacks_02 :: "(int \<times> blob_tuple) list" where
  "tdss_callbacks_02 = [
     (0x72a3158c, Tuple3 None ''auth_code_type_sms'' VNone),
     (0xe5bfffcd, Tuple3 None ''auth_export_authorization'' VNone),
     (0xdf969c2d, Tuple3 None ''auth_exported_authorization'' VNone),
     (0xb1b41517, Tuple3 None ''auth_export_login_token'' VNone),
     (0xe3ef9613, Tuple3 None ''auth_import_authorization'' VNone),
     (0x95ac5ce4, Tuple3 None ''auth_import_login_token'' VNone),
     (0x5717da40, Tuple3 None ''auth_log_out'' VNone),
     (0x629f1980, Tuple3 None ''auth_login_token'' VNone),
     (0x068e9916, Tuple3 None ''auth_login_token_migrate_to'' VNone),
     (0x390d5c5e, Tuple3 None ''auth_login_token_success'' VNone),
     (0x137948a5, Tuple3 None ''auth_password_recovery'' VNone),
     (0x4ea56e92, Tuple3 None ''auth_recover_password'' VNone),
     (0xd897bc66, Tuple3 None ''auth_request_password_recovery'' VNone),
     (0x3ef1a9bf, Tuple3 None ''auth_resend_code'' VNone),
     (0x9fab0d1a, Tuple3 None ''auth_reset_authorizations'' VNone),
     (0x03c51564, Tuple2 None ''auth_send_call_v_0_1_317''),
     (0xa677244f, Tuple3 None ''auth_send_code'' VNone),
     (0x768d5f4d, Tuple2 None ''auth_send_code_v_0_1_317''),
     (0x771c1d97, Tuple2 None ''auth_send_invites_v_0_1_317''),
     (0x5e002502, Tuple3 None ''auth_sent_code'' VNone),
     (0x38faab5f, Tuple3 None ''auth_sent_code_v_5_6_2'' VNone),
     (0x2215bcbd, Tuple2 None ''auth_sent_code_v_0_1_317''),
     (0x3dbb5986, Tuple3 None ''auth_sent_code_type_app'' VNone),
     (0x5353e5a7, Tuple3 None ''auth_sent_code_type_call'' VNone),
     (0xab03c6d9, Tuple3 None ''auth_sent_code_type_flash_call'' VNone),
     (0xc000bba2, Tuple3 None ''auth_sent_code_type_sms'' VNone),
     (0xbcd51581, Tuple3 None ''auth_sign_in'' VNone),
     (0x80eee427, Tuple3 None ''auth_sign_up'' VNone),
     (0x1b067634, Tuple3 None ''auth_sign_up_v_5_6_2'' VNone),
     (0xad01d61d, Tuple3 None ''authorization'' VNone),
     (0xe04232f3, Tuple3 None ''auto_download_settings'' VNone),
     (0xd246fd47, Tuple3 None ''auto_download_settings_v_5_6_2'' VNone),
     (0xa7eff811, Tuple2 None ''bad_msg_notification_v_0_1_317''),
     (0xedab447b, Tuple2 None ''bad_server_salt_v_0_1_317''),
     (0xf568028a, Tuple3 None ''bank_card_open_url'' VNone),
     (0x5b11125a, Tuple3 (Some ''base_theme_arctic_struct'') ''base_theme_arctic'' VNone),
     (0xc3a12462, Tuple3 (Some ''base_theme_classic_struct'') ''base_theme_classic'' VNone),
     (0xfbd81688, Tuple3 (Some ''base_theme_day_struct'') ''base_theme_day'' VNone),
     (0xb7b31ea8, Tuple3 (Some ''base_theme_night_struct'') ''base_theme_night'' VNone),
     (0x6d5f77ee, Tuple3 (Some ''base_theme_tinted_struct'') ''base_theme_tinted'' VNone),
     (0xbc799737, Tuple3 None ''bool_false'' VNone),
     (0x997275b5, Tuple3 None ''bool_true'' VNone),
     (0xc27ac8c7, Tuple3 (Some ''bot_command_struct'') ''bot_command'' VNone),
     (0x98e81d3a, Tuple3 (Some ''bot_info_struct'') ''bot_info'' VNone),
     (0xbb2e37ce, Tuple3 (Some ''bot_info_empty_layer48_struct'') ''bot_info_empty_layer48'' VNone),
     (0x09cf585d, Tuple3 (Some ''bot_info_layer48_struct'') ''bot_info_layer48'' VNone),
     (0x17db940b, Tuple3 None ''bot_inline_media_result'' VNone),
     (0x764cf810, Tuple3 None ''bot_inline_message_media_auto'' VNone),
     (0x0a74b15b, Tuple3 None ''bot_inline_message_media_auto_layer74'' VNone),
     (0x18d1cdc2, Tuple3 None ''bot_inline_message_media_contact'' VNone),
     (0x35edb4d4, Tuple3 None ''bot_inline_message_media_contact_layer81'' VNone),
     (0xb722de65, Tuple3 None ''bot_inline_message_media_geo'' VNone),
     (0x3a8fd8b8, Tuple3 None ''bot_inline_message_media_geo_layer71'' VNone),
     (0x8a86659c, Tuple3 None ''bot_inline_message_media_venue'' VNone),
     (0x4366232e, Tuple3 None ''bot_inline_message_media_venue_layer77'' VNone),
     (0x8c7f65e2, Tuple3 None ''bot_inline_message_text'' VNone),
     (0x11965f3a, Tuple3 None ''bot_inline_result'' VNone),
     (0xd31a961e, Tuple3 (Some ''channel_struct'') ''channel'' VNone),
     (0x3b5a3e40, Tuple3 None ''channel_admin_log_event'' VNone),
     (0x55188a2e, Tuple3 None ''channel_admin_log_event_action_change_about'' VNone),
     (0xa26f881b, Tuple3 None ''channel_admin_log_event_action_change_linked_chat'' VNone),
     (0x0e6b76ae, Tuple3 None ''channel_admin_log_event_action_change_location'' VNone),
     (0x434bd2af, Tuple2 None ''channel_admin_log_event_action_change_photo''),
     (0xb82f55c3, Tuple3 None ''channel_admin_log_event_action_change_photo_v_5_5_0'' VNone),
     (0xb1c3caa7, Tuple3 None ''channel_admin_log_event_action_change_sticker_set'' VNone),
     (0xe6dfb825, Tuple3 None ''channel_admin_log_event_action_change_title'' VNone),
     (0x6a4afc38, Tuple3 None ''channel_admin_log_event_action_change_username'' VNone),
     (0x2df5fc0a, Tuple3 None ''channel_admin_log_event_action_default_banned_rights'' VNone),
     (0x42e047bb, Tuple3 None ''channel_admin_log_event_action_delete_message'' VNone),
     (0x709b2405, Tuple3 None ''channel_admin_log_event_action_edit_message'' VNone),
     (0xe31c34d8, Tuple3 None ''channel_admin_log_event_action_participant_invite'' VNone),
     (0x183040d3, Tuple3 None ''channel_admin_log_event_action_participant_join'' VNone),
     (0xf89777f2, Tuple3 None ''channel_admin_log_event_action_participant_leave'' VNone),
     (0xd5676710, Tuple3 None ''channel_admin_log_event_action_participant_toggle_admin'' VNone),
     (0xe6d83d7e, Tuple3 None ''channel_admin_log_event_action_participant_toggle_ban'' VNone),
     (0x8f079643, Tuple3 None ''channel_admin_log_event_action_stop_poll'' VNone),
     (0x1b7907ae, Tuple3 None ''channel_admin_log_event_action_toggle_invites'' VNone),
     (0x5f5c95f1, Tuple3 None ''channel_admin_log_event_action_toggle_pre_history_hidden'' VNone),
     (0x26ae0971, Tuple3 None ''channel_admin_log_event_action_toggle_signatures'' VNone),
     (0x53909779, Tuple3 None ''channel_admin_log_event_action_toggle_slow_mode'' VNone),
     (0xe9e82c18, Tuple3 None ''channel_admin_log_event_action_update_pinned'' VNone),
     (0xea107ae4, Tuple3 None ''channel_admin_log_events_filter'' VNone),
     (0x5d7ceba5, Tuple3 (Some ''channel_admin_rights_layer92_struct'') ''channel_admin_rights_layer92'' VNone),
     (0x58cf4249, Tuple3 (Some ''channel_banned_rights_layer92_struct'') ''channel_banned_rights_layer92'' VNone),
     (0x289da732, Tuple3 (Some ''channel_forbidden_struct'') ''channel_forbidden'' VNone),
     (0x2d85832c, Tuple3 (Some ''channel_forbidden_layer52_struct'') ''channel_forbidden_layer52'' VNone),
     (0x8537784f, Tuple3 (Some ''channel_forbidden_layer67_struct'') ''channel_forbidden_layer67'' VNone),
     (0xf0e6672a, Tuple3 None ''channel_full'' VNone),
     (0x9e341ddf, Tuple3 None ''channel_full_layer48'' VNone),
     (0x97bee562, Tuple3 None ''channel_full_layer52'' VNone),
     (0xc3d5512f, Tuple3 None ''channel_full_layer67'' VNone),
     (0x95cb5f57, Tuple3 None ''channel_full_layer70'' VNone),
     (0x17f45fcf, Tuple3 None ''channel_full_layer71'' VNone),
     (0x76af5481, Tuple3 None ''channel_full_layer72'' VNone),
     (0xcbb62890, Tuple3 None ''channel_full_layer89'' VNone),
     (0x1c87a71a, Tuple3 None ''channel_full_layer98'' VNone),
     (0x03648977, Tuple3 None ''channel_full_layer99'' VNone),
     (0x9882e516, Tuple3 None ''channel_full_layer101'' VNone),
     (0x10916653, Tuple3 None ''channel_full_layer103'' VNone),
     (0x2d895c74, Tuple3 None ''channel_full_layer110'' VNone)]"

text \<open>tblob.py, lines 5866 to 5967.\<close>

definition tdss_callbacks_03 :: "(int \<times> blob_tuple) list" where
  "tdss_callbacks_03 = [
     (0xfab31aa3, Tuple3 None ''channel_full_old'' VNone),
     (0x209b82db, Tuple3 None ''channel_location'' VNone),
     (0xbfb5ad8b, Tuple3 None ''channel_location_empty'' VNone),
     (0x630e61be, Tuple2 None ''chat_full_v_0_1_317''),
     (0xcd77d957, Tuple3 None ''channel_messages_filter'' VNone),
     (0x94d42ee7, Tuple3 None ''channel_messages_filter_empty'' VNone),
     (0x15ebac1d, Tuple3 None ''channel_participant'' VNone),
     (0xccbebbaf, Tuple3 None ''channel_participant_admin'' VNone),
     (0x5daa6e23, Tuple3 None ''channel_participant_admin_layer103'' VNone),
     (0xa82fa898, Tuple3 None ''channel_participant_admin_layer92'' VNone),
     (0x1c0facaf, Tuple3 None ''channel_participant_banned'' VNone),
     (0x222c1886, Tuple3 None ''channel_participant_banned_layer92'' VNone),
     (0x808d15a4, Tuple3 None ''channel_participant_creator'' VNone),
     (0xe3e2e1f9, Tuple3 None ''channel_participant_creator_layer103'' VNone),
     (0x98192d61, Tuple3 None ''channel_participant_editor_layer67'' VNone),
     (0x8cc5e69a, Tuple3 None ''channel_participant_kicked_layer67'' VNone),
     (0x91057fef, Tuple3 None ''channel_participant_moderator_layer67'' VNone),
     (0xa3289a6d, Tuple3 None ''channel_participant_self'' VNone),
     (0xb4608969, Tuple3 None ''channel_participants_admins'' VNone),
     (0x1427a5e1, Tuple3 None ''channel_participants_banned'' VNone),
     (0xb0d1865b, Tuple3 None ''channel_participants_bots'' VNone),
     (0xbb6ae88d, Tuple3 None ''channel_participants_contacts'' VNone),
     (0xa3b54985, Tuple3 None ''channel_participants_kicked'' VNone),
     (0xde3f3c79, Tuple3 None ''channel_participants_recent'' VNone),
     (0x0656ac4b, Tuple3 None ''channel_participants_search'' VNone),
     (0x4df30834, Tuple3 (Some ''channel_layer104_struct'') ''channel_layer104'' VNone),
     (0x4b1b7506, Tuple3 (Some ''channel_layer48_struct'') ''channel_layer48'' VNone),
     (0xa14dca52, Tuple3 (Some ''channel_layer67_struct'') ''channel_layer67'' VNone),
     (0x0cb44b1c, Tuple3 (Some ''channel_layer72_struct'') ''channel_layer72'' VNone),
     (0x450b7115, Tuple3 (Some ''channel_layer77_struct'') ''channel_layer77'' VNone),
     (0xc88974ac, Tuple3 (Some ''channel_layer92_struct'') ''channel_layer92'' VNone),
     (0x678e9587, Tuple3 (Some ''channel_old_struct'') ''channel_old'' VNone),
     (0xed8af74d, Tuple3 None ''channels_admin_log_results'' VNone),
     (0xd0d9b163, Tuple3 None ''channels_channel_participant'' VNone),
     (0xf56ee2a8, Tuple3 None ''channels_channel_participants'' VNone),
     (0xf0173fe9, Tuple3 None ''channels_channel_participants_not_modified'' VNone),
     (0x10e6bd2c, Tuple3 None ''channels_check_username'' VNone),
     (0x3d5fb10f, Tuple3 None ''channels_create_channel'' VNone),
     (0xf4893d7f, Tuple3 None ''channels_create_channel_v_5_6_2'' VNone),
     (0xc0111fe3, Tuple3 None ''channels_delete_channel'' VNone),
     (0xaf369d42, Tuple3 None ''channels_delete_history'' VNone),
     (0x84c1fd4e, Tuple3 None ''channels_delete_messages'' VNone),
     (0xd10dd71b, Tuple3 None ''channels_delete_user_history'' VNone),
     (0xd33c8902, Tuple3 None ''channels_edit_admin'' VNone),
     (0x70f893ba, Tuple3 None ''channels_edit_admin_v_5_6_2'' VNone),
     (0x72796912, Tuple3 None ''channels_edit_banned'' VNone),
     (0x8f38cd1f, Tuple3 None ''channels_edit_creator'' VNone),
     (0x58e63f6d, Tuple3 None ''channels_edit_location'' VNone),
     (0xf12e57c9, Tuple3 None ''channels_edit_photo'' VNone),
     (0x566decd0, Tuple3 None ''channels_edit_title'' VNone),
     (0xc846d22d, Tuple3 None ''channels_export_message_link'' VNone),
     (0x33ddf480, Tuple3 None ''channels_get_admin_log'' VNone),
     (0xf8b036af, Tuple3 None ''channels_get_admined_public_channels'' VNone),
     (0x8d8d82d7, Tuple3 None ''channels_get_admined_public_channels_v_5_6_2'' VNone),
     (0x0a7f6bbb, Tuple3 None ''channels_get_channels'' VNone),
     (0x08736a09, Tuple3 None ''channels_get_full_channel'' VNone),
     (0xf5dad378, Tuple3 None ''channels_get_groups_for_discussion'' VNone),
     (0x11e831ee, Tuple3 None ''channels_get_inactive_channels'' VNone),
     (0x93d7b347, Tuple3 None ''channels_get_messages'' VNone),
     (0x546dd7a6, Tuple3 None ''channels_get_participant'' VNone),
     (0x123e05e9, Tuple3 None ''channels_get_participants'' VNone),
     (0x199f3a6c, Tuple3 None ''channels_invite_to_channel'' VNone),
     (0x24b524c5, Tuple3 None ''channels_join_channel'' VNone),
     (0xf836aa95, Tuple3 None ''channels_leave_channel'' VNone),
     (0xcc104937, Tuple3 None ''channels_read_history'' VNone),
     (0xeab5dc38, Tuple3 None ''channels_read_message_contents'' VNone),
     (0xfe087810, Tuple3 None ''channels_report_spam'' VNone),
     (0x43a0a7e2, Tuple3 None ''channels_search_posts'' VNone),
     (0x40582bb2, Tuple3 None ''channels_set_discussion_group'' VNone),
     (0xea8ca4f9, Tuple3 None ''channels_set_stickers'' VNone),
     (0xeabbb94c, Tuple3 None ''channels_toggle_pre_history_hidden'' VNone),
     (0x1f69b606, Tuple3 None ''channels_toggle_signatures'' VNone),
     (0xedd49ef0, Tuple3 None ''channels_toggle_slow_mode'' VNone),
     (0x3514b3de, Tuple3 None ''channels_update_username'' VNone),
     (0x3bda1bde, Tuple3 (Some ''chat_struct'') ''chat'' VNone),
     (0x5fb224d5, Tuple3 (Some ''chat_admin_rights_struct'') ''chat_admin_rights'' VNone),
     (0x9f120418, Tuple3 (Some ''chat_banned_rights_struct'') ''chat_banned_rights'' VNone),
     (0x9ba2d800, Tuple3 (Some ''chat_empty_struct'') ''chat_empty'' VNone),
     (0x07328bdb, Tuple3 (Some ''chat_forbidden_struct'') ''chat_forbidden'' VNone),
     (0xfb0ccc41, Tuple3 (Some ''chat_forbidden_old_struct'') ''chat_forbidden_old'' VNone),
     (0x1b7c9db3, Tuple3 None ''chat_full'' VNone),
     (0x2e02a614, Tuple3 None ''chat_full_layer87'' VNone),
     (0xedd2a791, Tuple3 None ''chat_full_layer92'' VNone),
     (0x22a235da, Tuple3 None ''chat_full_layer98'' VNone),
     (0xdfc2f58e, Tuple3 None ''chat_invite'' VNone),
     (0x5a686d7c, Tuple3 None ''chat_invite_already'' VNone),
     (0x69df3769, Tuple3 None ''chat_invite_empty'' VNone),
     (0xfc2e05bc, Tuple3 None ''chat_invite_exported'' VNone),
     (0x61695cb0, Tuple3 None ''chat_invite_peek'' VNone),
     (0xdb74f558, Tuple3 None ''chat_invite_v_5_5_0'' VNone),
     (0xd91cdd54, Tuple3 (Some ''chat_layer92_struct'') ''chat_layer92'' VNone),
     (0x3631cf4c, Tuple3 None ''chat_located'' VNone),
     (0xf041e250, Tuple3 None ''chat_onlines'' VNone),
     (0xc8d7493e, Tuple3 None ''chat_participant'' VNone),
     (0xe2d6e436, Tuple3 None ''chat_participant_admin'' VNone),
     (0xda13538a, Tuple3 None ''chat_participant_creator'' VNone),
     (0x3f460fed, Tuple3 None ''chat_participants'' VNone),
     (0xfc900c2b, Tuple3 None ''chat_participants_forbidden'' VNone),
     (0x0fd2bb8a, Tuple3 None ''chat_participants_forbidden_old'' VNone),
     (0x7841b415, Tuple3 None ''chat_participants_old'' VNone)]"

text \<open>tblob.py, lines 5968 to 6067.\<close>

definition tdss_callbacks_04 :: "(int \<times> blob_tuple) list" where
  "tdss_callbacks_04 = [
     (0xd20b9f3c, Tuple3 (Some ''chat_photo_struct'') ''chat_photo'' VNone),
     (0x475cdbd5, Tuple2 (Some ''chat_photo_layer115_struct'') ''chat_photo_layer115''),
     (0x6153276a, Tuple3 (Some ''chat_photo_layer97_struct'') ''chat_photo_layer97'' VNone),
     (0x37c1011c, Tuple3 (Some ''chat_photo_empty_struct'') ''chat_photo_empty'' VNone),
     (0x6e9c9bc7, Tuple3 (Some ''chat_old_struct'') ''chat_old'' VNone),
     (0x7312bc48, Tuple3 (Some ''chat_old2_struct'') ''chat_old2'' VNone),
     (0x6643b654, Tuple2 None ''client_dh_inner_data_v_0_1_317''),
     (0xdebebe83, Tuple3 None ''code_settings'' VNone),
     (0x302f59f3, Tuple3 None ''code_settings_v_5_6_2'' VNone),
     (0x330b4067, Tuple3 None ''config'' VNone),
     (0x232d5905, Tuple2 None ''config_v_0_1_317''),
     (0xe6ca25f6, Tuple3 None ''config_v_5_5_0'' VNone),
     (0xf911c994, Tuple3 None ''contact'' VNone),
     (0x561bc879, Tuple3 None ''contact_blocked'' VNone),
     (0xea879f95, Tuple3 None ''contact_found'' VNone),
     (0xd502c2d0, Tuple3 (Some ''contact_link_contact_struct'') ''contact_link_contact'' VNone),
     (0x268f3f59, Tuple3 (Some ''contact_link_has_phone_struct'') ''contact_link_has_phone'' VNone),
     (0xfeedd3ad, Tuple3 (Some ''contact_link_none_struct'') ''contact_link_none'' VNone),
     (0x5f4f9247, Tuple3 (Some ''contact_link_unknown_struct'') ''contact_link_unknown'' VNone),
     (0xd3680c61, Tuple3 None ''contact_status'' VNone),
     (0xaa77b873, Tuple2 None ''contact_status_v_0_1_317''),
     (0x3de191a1, Tuple2 None ''contact_suggested_v_0_1_317''),
     (0xf831a20f, Tuple3 None ''contacts_accept_contact'' VNone),
     (0xe8f463d0, Tuple3 None ''contacts_add_contact'' VNone),
     (0x332b49fc, Tuple3 None ''contacts_block'' VNone),
     (0x1c138d15, Tuple3 None ''contacts_blocked'' VNone),
     (0x900802a1, Tuple3 None ''contacts_blocked_slice'' VNone),
     (0xeae87e42, Tuple3 None ''contacts_contacts'' VNone),
     (0x6f8b8cb2, Tuple2 None ''contacts_contacts_v_0_1_317''),
     (0xb74ba9d2, Tuple3 None ''contacts_contacts_not_modified'' VNone),
     (0x1013fd9e, Tuple3 None ''contacts_delete_by_phones'' VNone),
     (0x8e953744, Tuple3 None ''contacts_delete_contact'' VNone),
     (0x096a0e00, Tuple3 None ''contacts_delete_contacts'' VNone),
     (0x59ab389e, Tuple3 None ''contacts_delete_contacts_v_5_6_2'' VNone),
     (0x84e53737, Tuple3 None ''contacts_export_card'' VNone),
     (0x1bea8ce1, Tuple2 None ''contacts_foreign_link_mutual_v_0_1_317''),
     (0xa7801f47, Tuple2 None ''contacts_foreign_link_requested_v_0_1_317''),
     (0x133421f8, Tuple2 None ''contacts_foreign_link_unknown_v_0_1_317''),
     (0xb3134d9d, Tuple3 None ''contacts_found'' VNone),
     (0x0566000e, Tuple2 None ''contacts_found_v_0_1_317''),
     (0xf57c350f, Tuple3 None ''contacts_get_blocked'' VNone),
     (0xc023849f, Tuple3 None ''contacts_get_contacts'' VNone),
     (0x22c6aa08, Tuple2 None ''contacts_get_contacts_v_0_1_317''),
     (0xd348bc44, Tuple3 None ''contacts_get_located'' VNone),
     (0xc4a353ee, Tuple3 None ''contacts_get_statuses'' VNone),
     (0xcd773428, Tuple2 None ''contacts_get_suggested_v_0_1_317''),
     (0xd4982db5, Tuple3 None ''contacts_get_top_peers'' VNone),
     (0x4fe196fe, Tuple3 None ''contacts_import_card'' VNone),
     (0x2c800be5, Tuple3 None ''contacts_import_contacts'' VNone),
     (0xda30b32d, Tuple2 None ''contacts_import_contacts_v_0_1_317''),
     (0x77d01c3b, Tuple3 None ''contacts_imported_contacts'' VNone),
     (0xd1cd0a4c, Tuple2 None ''contacts_imported_contacts_v_0_1_317''),
     (0x3ace484c, Tuple3 (Some ''contacts_link_layer101_struct'') ''contacts_link_layer101'' VNone),
     (0xeccea3f5, Tuple2 None ''contacts_link_v_0_317''),
     (0xc240ebd9, Tuple2 None ''contacts_my_link_contact_v_0_1_317''),
     (0xd22a1c60, Tuple2 None ''contacts_my_link_empty_v_0_1_317''),
     (0x6c69efee, Tuple2 None ''contacts_my_link_requested_v_0_1_317''),
     (0x879537f1, Tuple3 None ''contacts_reset_saved'' VNone),
     (0x1ae373ac, Tuple3 None ''contacts_reset_top_peer_rating'' VNone),
     (0xf93ccba3, Tuple3 None ''contacts_resolve_username'' VNone),
     (0x7f077ad9, Tuple3 None ''contacts_resolved_peer'' VNone),
     (0x11f812d8, Tuple3 None ''contacts_search'' VNone),
     (0x5649dcc5, Tuple2 None ''contacts_suggested_v_0_1_317''),
     (0x8514bdda, Tuple3 None ''contacts_toggle_top_peers'' VNone),
     (0x70b772a8, Tuple3 None ''contacts_top_peers'' VNone),
     (0xb52c939d, Tuple3 None ''contacts_top_peers_disabled'' VNone),
     (0xde266ef5, Tuple3 None ''contacts_top_peers_not_modified'' VNone),
     (0xe54100bd, Tuple3 None ''contacts_unblock'' VNone),
     (0x7d748d04, Tuple3 None ''data_json'' VNone),
     (0x18b7a10d, Tuple3 None ''dc_option'' VNone),
     (0x2ec2a43c, Tuple2 None ''dc_option_v_0_1_317''),
     (0x91cc4674, Tuple3 None ''decrypted_message'' VNone),
     (0xdd05ec6b, Tuple3 (Some ''decrypted_message_action_abort_key_struct'') ''decrypted_message_action_abort_key'' VNone),
     (0x6fe1735b, Tuple3 (Some ''decrypted_message_action_accept_key_struct'') ''decrypted_message_action_accept_key'' VNone),
     (0xec2e0b9b, Tuple3 (Some ''decrypted_message_action_commit_key_struct'') ''decrypted_message_action_commit_key'' VNone),
     (0x65614304, Tuple3 (Some ''decrypted_message_action_delete_messages_struct'') ''decrypted_message_action_delete_messages'' VNone),
     (0x6719e45c, Tuple3 (Some ''decrypted_message_action_flush_history_struct'') ''decrypted_message_action_flush_history'' VNone),
     (0xa82fdd63, Tuple3 (Some ''decrypted_message_action_noop_struct'') ''decrypted_message_action_noop'' VNone),
     (0xf3048883, Tuple3 (Some ''decrypted_message_action_notify_layer_struct'') ''decrypted_message_action_notify_layer'' VNone),
     (0x0c4f40be, Tuple3 (Some ''decrypted_message_action_read_messages_struct'') ''decrypted_message_action_read_messages'' VNone),
     (0xf3c9611b, Tuple3 (Some ''decrypted_message_action_request_key_struct'') ''decrypted_message_action_request_key'' VNone),
     (0x511110b0, Tuple3 (Some ''decrypted_message_action_resend_struct'') ''decrypted_message_action_resend'' VNone),
     (0x8ac1f475, Tuple3 (Some ''decrypted_message_action_screenshot_messages_struct'') ''decrypted_message_action_screenshot_messages'' VNone),
     (0xa1733aec, Tuple3 (Some ''decrypted_message_action_set_message_ttl_struct'') ''decrypted_message_action_set_message_ttl'' VNone),
     (0xccb27641, Tuple3 (Some ''decrypted_message_action_typing_struct'') ''decrypted_message_action_typing'' VNone),
     (0x1be31789, Tuple3 None ''decrypted_message_layer'' VNone),
     (0x99a438cf, Tuple2 None ''decrypted_message_layer_v_0_1_317''),
     (0x57e0a9cb, Tuple3 None ''decrypted_message_media_audio'' VNone),
     (0x6080758f, Tuple3 None ''decrypted_message_media_audio_layer8'' VNone),
     (0x588a0a97, Tuple3 None ''decrypted_message_media_contact'' VNone),
     (0x7afe8ae2, Tuple3 None ''decrypted_message_media_document'' VNone),
     (0xb095434b, Tuple3 None ''decrypted_message_media_document_layer8'' VNone),
     (0x089f5c4a, Tuple3 None ''decrypted_message_media_empty'' VNone),
     (0xfa95b0dd, Tuple3 None ''decrypted_message_media_external_document'' VNone),
     (0x35480a59, Tuple3 None ''decrypted_message_media_geo_point'' VNone),
     (0xf1fa8d78, Tuple3 None ''decrypted_message_media_photo'' VNone),
     (0x32798a8c, Tuple3 None ''decrypted_message_media_photo_layer8'' VNone),
     (0x8a0df56f, Tuple3 None ''decrypted_message_media_venue'' VNone),
     (0x970c8c0e, Tuple3 None ''decrypted_message_media_video'' VNone),
     (0x524a415d, Tuple3 None ''decrypted_message_media_video_layer17'' VNone)]"

text \<open>tblob.py, lines 6068 to 6167.\<close>

definition tdss_callbacks_05 :: "(int \<times> blob_tuple) list" where
  "tdss_callbacks_05 = [
     (0x4cee6ef3, Tuple3 None ''decrypted_message_media_video_layer8'' VNone),
     (0xe50511d8, Tuple3 None ''decrypted_message_media_web_page'' VNone),
     (0x73164160, Tuple3 None ''decrypted_message_service'' VNone),
     (0xaa48327d, Tuple3 None ''decrypted_message_service_layer8'' VNone),
     (0x204d3878, Tuple3 None ''decrypted_message_layer17'' VNone),
     (0x36b091de, Tuple3 None ''decrypted_message_layer45'' VNone),
     (0x1f814f1f, Tuple3 None ''decrypted_message_layer8'' VNone),
     (0xe7512126, Tuple2 None ''destroy_session_v_0_1_317''),
     (0xa13dc52f, Tuple2 None ''destroy_sessions_v_0_1_317''),
     (0x62d350c9, Tuple2 None ''destroy_session_none_v_0_1_317''),
     (0xe22045fc, Tuple2 None ''destroy_session_ok_v_0_1_317''),
     (0xfb95abcd, Tuple2 None ''destroy_sessions_res_v_0_1_317''),
     (0xa69dae02, Tuple2 None ''dh_gen_fail_v_0_1_317''),
     (0x3bcbf734, Tuple2 None ''dh_gen_ok_v_0_1_317''),
     (0x46dc1fb9, Tuple2 None ''dh_gen_retry_v_0_1_317''),
     (0x2c171f72, Tuple3 None ''dialog'' VNone),
     (0x7438f7e8, Tuple3 None ''dialog_filter'' VNone),
     (0x77744d4a, Tuple3 None ''dialog_filter_suggested'' VNone),
     (0x14f9162c, Tuple3 None ''dialog_filter_v_5_15_0'' VNone),
     (0x71bd134c, Tuple3 None ''dialog_folder'' VNone),
     (0x214a8cdf, Tuple2 None ''dialog_v_0_1_317''),
     (0xe4def5db, Tuple3 None ''dialog_v_5_5_0'' VNone),
     (0xe56dbf05, Tuple3 None ''dialog_peer'' VNone),
     (0xda429411, Tuple3 None ''dialog_peer_feed_v_5_5_0'' VNone),
     (0x514519e2, Tuple3 None ''dialog_peer_folder'' VNone),
     (0x1e87342b, Tuple3 (Some ''document_struct'') ''document'' VNone),
     (0x11b58939, Tuple3 (Some ''document_attribute_animated_struct'') ''document_attribute_animated'' VNone),
     (0x9852f9c6, Tuple3 (Some ''document_attribute_audio_struct'') ''document_attribute_audio'' VNone),
     (0xded218e0, Tuple3 (Some ''document_attribute_audio_layer45_struct'') ''document_attribute_audio_layer45'' VNone),
     (0x051448e5, Tuple3 (Some ''document_attribute_audio_old_struct'') ''document_attribute_audio_old'' VNone),
     (0x15590068, Tuple3 (Some ''document_attribute_filename_struct'') ''document_attribute_filename'' VNone),
     (0x9801d2f7, Tuple3 (Some ''document_attribute_has_stickers_struct'') ''document_attribute_has_stickers'' VNone),
     (0x6c37c15c, Tuple3 (Some ''document_attribute_image_size_struct'') ''document_attribute_image_size'' VNone),
     (0x6319d612, Tuple3 (Some ''document_attribute_sticker_struct'') ''document_attribute_sticker'' VNone),
     (0x3a556302, Tuple3 (Some ''document_attribute_sticker_layer55_struct'') ''document_attribute_sticker_layer55'' VNone),
     (0xfb0a5727, Tuple3 (Some ''document_attribute_sticker_old_struct'') ''document_attribute_sticker_old'' VNone),
     (0x994c9882, Tuple3 (Some ''document_attribute_sticker_old2_struct'') ''document_attribute_sticker_old2'' VNone),
     (0x0ef02ce6, Tuple3 (Some ''document_attribute_video_struct'') ''document_attribute_video'' VNone),
     (0x5910cccb, Tuple3 (Some ''document_attribute_video_layer65_struct'') ''document_attribute_video_layer65'' VNone),
     (0x36f8c871, Tuple3 (Some ''document_empty_struct'') ''document_empty'' VNone),
     (0x55555558, Tuple3 (Some ''document_encrypted_struct'') ''document_encrypted'' VNone),
     (0x55555556, Tuple3 (Some ''document_encrypted_old_struct'') ''document_encrypted_old'' VNone),
     (0x9ba29cc1, Tuple3 (Some ''document_layer113_struct'') ''document_layer113'' VNone),
     (0xf9a39f4f, Tuple3 (Some ''document_layer53_struct'') ''document_layer53'' VNone),
     (0x87232bc7, Tuple3 (Some ''document_layer82_struct'') ''document_layer82'' VNone),
     (0x59534e4c, Tuple3 (Some ''document_layer92_struct'') ''document_layer92'' VNone),
     (0x9efc6326, Tuple3 (Some ''document_old_struct'') ''document_old'' VNone),
     (0xfd8e711f, Tuple3 None ''draft_message'' VNone),
     (0x1b0c841a, Tuple3 None ''draft_message_empty'' VNone),
     (0xba4baec5, Tuple3 None ''draft_message_empty_layer81'' VNone),
     (0xd5b3b9f9, Tuple3 None ''emoji_keyword'' VNone),
     (0x236df622, Tuple3 None ''emoji_keyword_deleted'' VNone),
     (0x5cc761bd, Tuple3 None ''emoji_keywords_difference'' VNone),
     (0xb3fb5361, Tuple3 None ''emoji_language'' VNone),
     (0xa575739d, Tuple3 None ''emoji_url'' VNone),
     (0xfa56ce36, Tuple3 (Some ''encrypted_chat_struct'') ''encrypted_chat'' VNone),
     (0x13d6dd27, Tuple3 (Some ''encrypted_chat_discarded_struct'') ''encrypted_chat_discarded'' VNone),
     (0xab7ec0a0, Tuple3 (Some ''encrypted_chat_empty_struct'') ''encrypted_chat_empty'' VNone),
     (0x62718a82, Tuple3 (Some ''encrypted_chat_requested_struct'') ''encrypted_chat_requested'' VNone),
     (0xc878527e, Tuple3 (Some ''encrypted_chat_requested_layer115_struct'') ''encrypted_chat_requested_layer115'' VNone),
     (0xfda9a7b7, Tuple3 (Some ''encrypted_chat_requested_old_struct'') ''encrypted_chat_requested_old'' VNone),
     (0x3bf703dc, Tuple3 (Some ''encrypted_chat_waiting_struct'') ''encrypted_chat_waiting'' VNone),
     (0x6601d14f, Tuple3 (Some ''encrypted_chat_old_struct'') ''encrypted_chat_old'' VNone),
     (0x4a70994c, Tuple3 None ''encrypted_file'' VNone),
     (0xc21f497e, Tuple3 None ''encrypted_file_empty'' VNone),
     (0xed18c118, Tuple3 None ''encrypted_message'' VNone),
     (0x23734b06, Tuple3 None ''encrypted_message_service'' VNone),
     (0xc4b9f9bb, Tuple3 None ''error'' VNone),
     (0x5dab1af4, Tuple3 None ''exported_message_link'' VNone),
     (0x55555554, Tuple3 (Some ''file_encrypted_location_struct'') ''file_encrypted_location'' VNone),
     (0x6242c773, Tuple3 None ''file_hash'' VNone),
     (0xbc7fc6cd, Tuple3 (Some ''file_location_to_be_deprecated_struct'') ''file_location_to_be_deprecated'' VNone),
     (0x53d69076, Tuple3 (Some ''file_location_layer82_struct'') ''file_location_layer82'' VNone),
     (0x091d11eb, Tuple3 (Some ''file_location_layer97_struct'') ''file_location_layer97'' VNone),
     (0x7c596b46, Tuple3 (Some ''file_location_unavailable_struct'') ''file_location_unavailable'' VNone),
     (0xff544e65, Tuple3 None ''folder'' VNone),
     (0xe9baa668, Tuple3 None ''folder_peer'' VNone),
     (0x1c295881, Tuple3 None ''folders_delete_folder'' VNone),
     (0x6847d0ab, Tuple3 None ''folders_edit_peer_folders'' VNone),
     (0x162ecc1f, Tuple3 None ''found_gif'' VNone),
     (0x9c750409, Tuple3 None ''found_gif_cached'' VNone),
     (0x0949d9dc, Tuple2 None ''future_salt_v_0_1_317''),
     (0xae500895, Tuple2 None ''futuresalts_v_0_1_317''),
     (0xbdf9653b, Tuple3 (Some ''game_struct'') ''game'' VNone),
     (0x75eaea5a, Tuple2 None ''geo_chat_v_0_1_317''),
     (0x4505f8e1, Tuple2 None ''geo_chat_message_v_0_1_317''),
     (0x60311a9b, Tuple2 None ''geo_chat_message_empty_v_0_1_317''),
     (0xd34fa24e, Tuple2 None ''geo_chat_message_service_v_0_1_317''),
     (0x0296f104, Tuple3 (Some ''geo_point_struct'') ''geo_point'' VNone),
     (0x1117dd5f, Tuple3 (Some ''geo_point_empty_struct'') ''geo_point_empty'' VNone),
     (0x2049d70c, Tuple3 (Some ''geo_point_layer81_struct'') ''geo_point_layer81'' VNone),
     (0x55b3e8fb, Tuple2 None ''geochats_checkin_v_0_1_317''),
     (0x0e092e16, Tuple2 None ''geochats_create_geo_chat_v_0_1_317''),
     (0x35d81a95, Tuple2 None ''geochats_edit_chat_photo_v_0_1_317''),
     (0x4c8e2273, Tuple2 None ''geochats_edit_chat_title_v_0_1_317''),
     (0x6722dd6f, Tuple2 None ''geochats_get_full_chat_v_0_1_317''),
     (0xb53f7a68, Tuple2 None ''geochats_get_history_v_0_1_317''),
     (0x7f192d8f, Tuple2 None ''geochats_get_located_v_0_1_317''),
     (0xe1427e6f, Tuple2 None ''geochats_get_recents_v_0_1_317''),
     (0x48feb267, Tuple2 None ''geochats_located_v_0_1_317'')]"

text \<open>tblob.py, lines 6168 to 6267.\<close>

definition tdss_callbacks_06 :: "(int \<times> blob_tuple) list" where
  "tdss_callbacks_06 = [
     (0xd1526db1, Tuple2 None ''geochats_messages_v_0_1_317''),
     (0xbc5863e8, Tuple2 None ''geochats_messages_slice_v_0_1_317''),
     (0xcfcdc44d, Tuple2 None ''geochats_search_v_0_1_317''),
     (0xb8f0deff, Tuple2 None ''geochats_send_media_v_0_1_317''),
     (0x061b0044, Tuple2 None ''geochats_send_message_v_0_1_317''),
     (0x08b8a729, Tuple2 None ''geochats_set_typing_v_0_1_317''),
     (0x17b1578b, Tuple2 None ''geochats_stated_message_v_0_1_317''),
     (0xb921bd04, Tuple2 None ''get_future_salts_v_0_1_317''),
     (0xbea2f424, Tuple3 None ''global_privacy_settings'' VNone),
     (0x0a8f1624, Tuple3 None ''group_call'' VNone),
     (0x40732163, Tuple3 None ''group_call_connection'' VNone),
     (0x7780bcb4, Tuple3 None ''group_call_discarded'' VNone),
     (0x589db397, Tuple3 None ''group_call_participant'' VNone),
     (0x4f0b39b8, Tuple3 None ''group_call_participant_admin'' VNone),
     (0x377496f0, Tuple3 None ''group_call_participant_invited'' VNone),
     (0x419b0df2, Tuple3 None ''group_call_participant_left'' VNone),
     (0x6d0b1604, Tuple3 None ''group_call_private'' VNone),
     (0x3072cfa1, Tuple2 None ''gzip_packed_v_0_1_317''),
     (0xee72f79a, Tuple3 None ''help_accept_terms_of_service'' VNone),
     (0x1da7158f, Tuple3 None ''help_app_update'' VNone),
     (0x8987f311, Tuple2 None ''help_app_update_v_0_1_317''),
     (0xc812ac7e, Tuple2 None ''help_get_app_update_v_0_1_317''),
     (0x6a4ee832, Tuple3 None ''help_deep_link_info'' VNone),
     (0x66afa166, Tuple3 None ''help_deep_link_info_empty'' VNone),
     (0x077fa99f, Tuple3 None ''help_dismiss_suggestion'' VNone),
     (0x66b91b70, Tuple3 None ''help_edit_user_info'' VNone),
     (0x9010ef6f, Tuple3 None ''help_get_app_changelog'' VNone),
     (0x98914110, Tuple3 None ''help_get_app_config'' VNone),
     (0x522d5a7d, Tuple3 None ''help_get_app_update'' VNone),
     (0xc4f9186b, Tuple3 None ''help_get_config'' VNone),
     (0x3fedc75f, Tuple3 None ''help_get_deep_link_info'' VNone),
     (0x4d392343, Tuple3 None ''help_get_invite_text'' VNone),
     (0xa4a95186, Tuple2 None ''help_get_invite_text_v_0_1_317''),
     (0x1fb33026, Tuple3 None ''help_get_nearest_dc'' VNone),
     (0xc661ad08, Tuple3 None ''help_get_passport_config'' VNone),
     (0xc0977421, Tuple3 None ''help_get_promo_data'' VNone),
     (0x3d7758e1, Tuple3 None ''help_get_proxy_data'' VNone),
     (0x3dc0f114, Tuple3 None ''help_get_recent_me_urls'' VNone),
     (0x9cdf08cd, Tuple3 None ''help_get_support'' VNone),
     (0xd360e72c, Tuple3 None ''help_get_support_name'' VNone),
     (0x2ca51fd1, Tuple3 None ''help_get_terms_of_service_update'' VNone),
     (0x038a08d3, Tuple3 None ''help_get_user_info'' VNone),
     (0x1e251c95, Tuple3 None ''help_hide_promo_data'' VNone),
     (0x18cb9f78, Tuple3 None ''help_invite_text'' VNone),
     (0xc45a6536, Tuple3 None ''help_no_app_update'' VNone),
     (0xa098d6af, Tuple3 None ''help_passport_config'' VNone),
     (0xbfb9f457, Tuple3 None ''help_passport_config_not_modified'' VNone),
     (0x98f6ac75, Tuple3 None ''help_promo_data_empty'' VNone),
     (0x8c39793f, Tuple3 None ''help_promo_data'' VNone),
     (0xe09e1fb8, Tuple3 None ''help_proxy_data_empty'' VNone),
     (0x2bf7ee23, Tuple3 None ''help_proxy_data_promo'' VNone),
     (0x0e0310d7, Tuple3 None ''help_recent_me_urls'' VNone),
     (0x6f02f748, Tuple3 None ''help_save_app_log'' VNone),
     (0xec22cfcd, Tuple3 None ''help_set_bot_updates_status'' VNone),
     (0x17c6b5f6, Tuple3 None ''help_support'' VNone),
     (0x8c05f1c9, Tuple3 None ''help_support_name'' VNone),
     (0x780a0310, Tuple3 None ''help_terms_of_service'' VNone),
     (0x28ecf961, Tuple3 None ''help_terms_of_service_update'' VNone),
     (0xe3309f7f, Tuple3 None ''help_terms_of_service_update_empty'' VNone),
     (0x01eb3758, Tuple3 None ''help_user_info'' VNone),
     (0xf3ae2eed, Tuple3 None ''help_user_info_empty'' VNone),
     (0x58fffcd0, Tuple3 None ''high_score'' VNone),
     (0x9299359f, Tuple2 None ''http_wait_v_0_1_317''),
     (0xd0028438, Tuple3 None ''imported_contact'' VNone),
     (0x69796de9, Tuple2 None ''init_connection_v_0_1_317''),
     (0x3c20629f, Tuple3 None ''inline_bot_switch_p_m'' VNone),
     (0x1d1b1245, Tuple3 None ''input_app_event'' VNone),
     (0x770656a8, Tuple2 None ''input_app_event_v_0_1_317''),
     (0x77d440ff, Tuple2 None ''input_audio_v_0_1_317''),
     (0xd95adc84, Tuple2 None ''input_audio_empty_v_0_1_317''),
     (0x74dc404d, Tuple2 None ''input_audio_file_location_v_0_1_317''),
     (0x890c3d89, Tuple3 None ''input_bot_inline_message_id'' VNone),
     (0xafeb712e, Tuple3 (Some ''input_channel_struct'') ''input_channel'' VNone),
     (0xee8c1e86, Tuple3 (Some ''input_channel_empty_struct'') ''input_channel_empty'' VNone),
     (0x2a286531, Tuple3 None ''input_channel_from_message'' VNone),
     (0x8953ad37, Tuple3 None ''input_chat_photo'' VNone),
     (0xb2e1bf08, Tuple2 None ''input_chat_photo_v_0_1_317''),
     (0x1ca48f57, Tuple3 None ''input_chat_photo_empty'' VNone),
     (0xc642724e, Tuple3 None ''input_chat_uploaded_photo'' VNone),
     (0x927c55b4, Tuple3 None ''input_chat_uploaded_photo_v_5_15_0'' VNone),
     (0x94254732, Tuple2 None ''input_chat_uploaded_photo_v_0_1_317''),
     (0x9880f658, Tuple3 None ''input_check_password_empty'' VNone),
     (0xd27ff082, Tuple3 None ''input_check_password_s_r_p'' VNone),
     (0xfcaafeb7, Tuple3 None ''input_dialog_peer'' VNone),
     (0x2c38b8cf, Tuple3 None ''input_dialog_peer_feed_v_5_5_0'' VNone),
     (0x64600527, Tuple3 None ''input_dialog_peer_folder'' VNone),
     (0x1abfb575, Tuple3 None ''input_document'' VNone),
     (0x72f0eaae, Tuple3 None ''input_document_empty'' VNone),
     (0xbad07584, Tuple3 None ''input_document_file_location'' VNone),
     (0x4e45abe9, Tuple2 None ''input_document_file_location_v_0_1_317''),
     (0x196683d9, Tuple3 None ''input_document_file_location_v_5_5_0'' VNone),
     (0x18798952, Tuple2 None ''input_document_v_0_1_317''),
     (0xf141b5e1, Tuple3 None ''input_encrypted_chat'' VNone),
     (0x5a17b5e5, Tuple3 None ''input_encrypted_file'' VNone),
     (0x2dc173c8, Tuple3 None ''input_encrypted_file_big_uploaded'' VNone),
     (0x1837c364, Tuple3 None ''input_encrypted_file_empty'' VNone),
     (0xf5235d55, Tuple3 None ''input_encrypted_file_location'' VNone),
     (0x64bd0306, Tuple3 None ''input_encrypted_file_uploaded'' VNone),
     (0xf52ff27f, Tuple3 None ''input_file'' VNone),
     (0xfa4f0bb5, Tuple3 None ''input_file_big'' VNone)]"

text \<open>tblob.py, lines 6268 to 6367.\<close>

definition tdss_callbacks_07 :: "(int \<times> blob_tuple) list" where
  "tdss_callbacks_07 = [
     (0xdfdaabe1, Tuple3 None ''input_file_location'' VNone),
     (0x14637196, Tuple2 None ''input_file_location_v_0_1_317''),
     (0xfbd2c296, Tuple3 None ''input_folder_peer'' VNone),
     (0x032c3e77, Tuple3 None ''input_game_id'' VNone),
     (0xc331e80a, Tuple3 None ''input_game_short_name'' VNone),
     (0x74d456fa, Tuple2 None ''input_geo_chat_v_0_1_317''),
     (0xf3b7acc9, Tuple3 None ''input_geo_point'' VNone),
     (0xe4c123d6, Tuple3 None ''input_geo_point_empty'' VNone),
     (0xd8aa840f, Tuple3 (Some ''input_group_call_struct'') ''input_group_call'' VNone),
     (0xd02e7fd4, Tuple3 None ''input_keyboard_button_url_auth'' VNone),
     (0x89938781, Tuple2 None ''input_media_audio_v_0_1_317''),
     (0xf8ab7dfb, Tuple3 None ''input_media_contact'' VNone),
     (0xa6e45987, Tuple2 None ''input_media_contact_v_0_1_317''),
     (0xe66fbf7b, Tuple3 None ''input_media_dice'' VNone),
     (0x23ab23d2, Tuple3 None ''input_media_document'' VNone),
     (0xfb52dc99, Tuple3 None ''input_media_document_external'' VNone),
     (0xd184e841, Tuple2 None ''input_media_document_v_0_1_317''),
     (0x9664f57f, Tuple3 None ''input_media_empty'' VNone),
     (0xd33f43f3, Tuple3 None ''input_media_game'' VNone),
     (0xce4e82fd, Tuple3 None ''input_media_geo_live'' VNone),
     (0xf9c44144, Tuple3 None ''input_media_geo_point'' VNone),
     (0x4843b0fd, Tuple3 None ''input_media_gif_external'' VNone),
     (0xb3ba0635, Tuple3 None ''input_media_photo'' VNone),
     (0xe5bbfe1a, Tuple3 None ''input_media_photo_external'' VNone),
     (0x8f2ab2ec, Tuple2 None ''input_media_photo_v_0_1_317''),
     (0x0f94e5f1, Tuple3 None ''input_media_poll'' VNone),
     (0xabe9ca25, Tuple3 None ''input_media_poll_v_5_15_0'' VNone),
     (0x06b3765b, Tuple3 None ''input_media_poll_v_5_6_2'' VNone),
     (0x61a6d436, Tuple2 None ''input_media_uploaded_audio_v_0_1_317''),
     (0x5b38c6c1, Tuple3 None ''input_media_uploaded_document'' VNone),
     (0x34e794bd, Tuple2 None ''input_media_uploaded_document_v_0_1_317''),
     (0x1e287d04, Tuple3 None ''input_media_uploaded_photo'' VNone),
     (0x2dc53a7d, Tuple2 None ''input_media_uploaded_photo_v_0_1_317''),
     (0x3e46de5d, Tuple2 None ''input_media_uploaded_thumb_document_v_0_1_317''),
     (0xe628a145, Tuple2 None ''input_media_uploaded_thumb_video_v_0_1_317''),
     (0x4847d92a, Tuple2 None ''input_media_uploaded_video_v_0_1_317''),
     (0xc13d1c11, Tuple3 None ''input_media_venue'' VNone),
     (0x7f023ae6, Tuple2 None ''input_media_video_v_0_1_317''),
     (0x208e68c9, Tuple3 (Some ''input_message_entity_mention_name_struct'') ''input_message_entity_mention_name'' VNone),
     (0x3a20ecb8, Tuple3 None ''input_messages_filter_chat_photos'' VNone),
     (0xe062db83, Tuple3 None ''input_messages_filter_contacts'' VNone),
     (0x9eddf188, Tuple3 None ''input_messages_filter_document'' VNone),
     (0x57e2f66c, Tuple3 None ''input_messages_filter_empty'' VNone),
     (0xe7026d0d, Tuple3 None ''input_messages_filter_geo'' VNone),
     (0xffc86587, Tuple3 None ''input_messages_filter_gif'' VNone),
     (0x3751b49e, Tuple3 None ''input_messages_filter_music'' VNone),
     (0xc1f8e69a, Tuple3 None ''input_messages_filter_my_mentions'' VNone),
     (0x80c99768, Tuple3 None ''input_messages_filter_phone_calls'' VNone),
     (0x56e9f0e4, Tuple3 None ''input_messages_filter_photo_video'' VNone),
     (0xd95e73bb, Tuple3 None ''input_messages_filter_photo_video_documents'' VNone),
     (0x9609a51c, Tuple3 None ''input_messages_filter_photos'' VNone),
     (0xb549da53, Tuple3 None ''input_messages_filter_round_video'' VNone),
     (0x7a7c17a4, Tuple3 None ''input_messages_filter_round_voice'' VNone),
     (0x7ef0dd87, Tuple3 None ''input_messages_filter_url'' VNone),
     (0x9fc00e65, Tuple3 None ''input_messages_filter_video'' VNone),
     (0x50f5c392, Tuple3 None ''input_messages_filter_voice'' VNone),
     (0xa429b886, Tuple2 None ''input_notify_all_v_0_1_317''),
     (0xb1db7c7e, Tuple3 None ''input_notify_broadcasts'' VNone),
     (0x4a95e84e, Tuple3 None ''input_notify_chats'' VNone),
     (0x4d8ddec8, Tuple2 None ''input_notify_geo_chat_peer_v_0_1_317''),
     (0xb8bc5b0c, Tuple3 None ''input_notify_peer'' VNone),
     (0x193b4417, Tuple3 None ''input_notify_users'' VNone),
     (0x3417d728, Tuple3 None ''input_payment_credentials'' VNone),
     (0xca05d50e, Tuple3 None ''input_payment_credentials_android_pay'' VNone),
     (0xc10eb2cf, Tuple3 None ''input_payment_credentials_saved'' VNone),
     (0x20adaef8, Tuple3 None ''input_peer_channel'' VNone),
     (0x9c95f7bb, Tuple3 None ''input_peer_channel_from_message'' VNone),
     (0x179be863, Tuple3 None ''input_peer_chat'' VNone),
     (0x1023dbe8, Tuple2 None ''input_peer_contact_v_0_1_317''),
     (0x7f3b18ea, Tuple3 None ''input_peer_empty'' VNone),
     (0x9b447325, Tuple2 None ''input_peer_foreign_v_0_1_317''),
     (0xe86a2c74, Tuple2 None ''input_peer_notify_events_all_v_0_1_317''),
     (0xf03064d8, Tuple2 None ''input_peer_notify_events_empty_v_0_1_317''),
     (0x9c3d198e, Tuple3 None ''input_peer_notify_settings'' VNone),
     (0x46a2ce98, Tuple2 None ''input_peer_notify_settings_v_0_1_317''),
     (0x27d69997, Tuple3 None ''input_peer_photo_file_location'' VNone),
     (0x7da07ec9, Tuple3 None ''input_peer_self'' VNone),
     (0x7b8e7de6, Tuple3 None ''input_peer_user'' VNone),
     (0x17bae2e6, Tuple3 None ''input_peer_user_from_message'' VNone),
     (0x1e36fded, Tuple3 None ''input_phone_call'' VNone),
     (0xf392b7f4, Tuple3 None ''input_phone_contact'' VNone),
     (0x3bb3b94a, Tuple3 None ''input_photo'' VNone),
     (0xd9915325, Tuple2 None ''input_photo_crop_v_0_1_317''),
     (0xade6b004, Tuple2 None ''input_photo_crop_auto_v_0_1_317''),
     (0x1cd7bf0d, Tuple3 None ''input_photo_empty'' VNone),
     (0x40181ffe, Tuple3 None ''input_photo_file_location'' VNone),
     (0xfb95c6c4, Tuple2 None ''input_photo_v_0_1_317''),
     (0xd1219bdd, Tuple3 None ''input_privacy_key_added_by_phone'' VNone),
     (0xbdfb0426, Tuple3 None ''input_privacy_key_chat_invite'' VNone),
     (0xa4dd4c08, Tuple3 None ''input_privacy_key_forwards'' VNone),
     (0xfabadc5f, Tuple3 None ''input_privacy_key_phone_call'' VNone),
     (0x0352dafa, Tuple3 None ''input_privacy_key_phone_number'' VNone),
     (0xdb9e70d2, Tuple3 None ''input_privacy_key_phone_p2_p'' VNone),
     (0x5719bacc, Tuple3 None ''input_privacy_key_profile_photo'' VNone),
     (0x4f96cb18, Tuple3 None ''input_privacy_key_status_timestamp'' VNone),
     (0x184b35ce, Tuple3 None ''input_privacy_value_allow_all'' VNone),
     (0x4c81c1ba, Tuple3 None ''input_privacy_value_allow_chat_participants'' VNone),
     (0x0d09e07b, Tuple3 None ''input_privacy_value_allow_contacts'' VNone),
     (0x131cc67f, Tuple3 None ''input_privacy_value_allow_users'' VNone),
     (0xd66b66c9, Tuple3 None ''input_privacy_value_disallow_all'' VNone)]"

text \<open>tblob.py, lines 6368 to 6467.\<close>

definition tdss_callbacks_08 :: "(int \<times> blob_tuple) list" where
  "tdss_callbacks_08 = [
     (0xd82363af, Tuple3 None ''input_privacy_value_disallow_chat_participants'' VNone),
     (0x0ba52007, Tuple3 None ''input_privacy_value_disallow_contacts'' VNone),
     (0x90110467, Tuple3 None ''input_privacy_value_disallow_users'' VNone),
     (0xadf44ee3, Tuple3 None ''input_report_reason_child_abuse'' VNone),
     (0x9b89f93a, Tuple3 None ''input_report_reason_copyright'' VNone),
     (0xdbd4feed, Tuple3 None ''input_report_reason_geo_irrelevant'' VNone),
     (0xe1746d0a, Tuple3 None ''input_report_reason_other'' VNone),
     (0x2e59d922, Tuple3 None ''input_report_reason_pornography'' VNone),
     (0x58dbcab8, Tuple3 None ''input_report_reason_spam'' VNone),
     (0x1e22c78d, Tuple3 None ''input_report_reason_violence'' VNone),
     (0x5367e5be, Tuple3 None ''input_secure_file'' VNone),
     (0xcbc7ee28, Tuple3 None ''input_secure_file_location'' VNone),
     (0x3334b0f0, Tuple3 None ''input_secure_file_uploaded'' VNone),
     (0xdb21d0a7, Tuple3 None ''input_secure_value'' VNone),
     (0x1cc6e91f, Tuple3 None ''input_single_media'' VNone),
     (0x028703c8, Tuple3 (Some ''input_sticker_set_animated_emoji_struct'') ''input_sticker_set_animated_emoji'' VNone),
     (0xe67f520e, Tuple3 (Some ''input_sticker_set_dice_struct'') ''input_sticker_set_dice'' VNone),
     (0xffb62b95, Tuple3 (Some ''input_sticker_set_empty_struct'') ''input_sticker_set_empty'' VNone),
     (0x9de7a269, Tuple3 (Some ''input_sticker_set_id_struct'') ''input_sticker_set_id'' VNone),
     (0x861cc8a0, Tuple3 (Some ''input_sticker_set_short_name_struct'') ''input_sticker_set_short_name'' VNone),
     (0x0dbaeae9, Tuple3 None ''input_sticker_set_thumb'' VNone),
     (0x0438865b, Tuple3 None ''input_stickered_media_document'' VNone),
     (0x4a992157, Tuple3 None ''input_stickered_media_photo'' VNone),
     (0x3c5693e9, Tuple3 None ''input_theme'' VNone),
     (0xbd507cd1, Tuple3 None ''input_theme_settings'' VNone),
     (0xf5890df1, Tuple3 None ''input_theme_slug'' VNone),
     (0xd8292816, Tuple3 (Some ''input_user_struct'') ''input_user'' VNone),
     (0x86e94f65, Tuple2 None ''input_user_contact_v_0_1_317''),
     (0xb98886cf, Tuple3 (Some ''input_user_empty_struct'') ''input_user_empty'' VNone),
     (0x655e74ff, Tuple2 None ''input_user_foreign_v_0_1_317''),
     (0x2d117597, Tuple3 None ''input_user_from_message'' VNone),
     (0xf7c1b13f, Tuple3 None ''input_user_self'' VNone),
     (0xee579652, Tuple2 None ''input_video_v_0_1_317''),
     (0x5508ec75, Tuple2 None ''input_video_empty_v_0_1_317''),
     (0x3d0364ec, Tuple2 None ''input_video_file_location_v_0_1_317''),
     (0xe630b979, Tuple3 None ''input_wall_paper'' VNone),
     (0x8427bbac, Tuple3 None ''input_wall_paper_no_file'' VNone),
     (0x72091c80, Tuple3 None ''input_wall_paper_slug'' VNone),
     (0x9bed434d, Tuple3 None ''input_web_document'' VNone),
     (0x9f2221c9, Tuple3 None ''input_web_file_geo_point_location'' VNone),
     (0xc239d686, Tuple3 None ''input_web_file_location'' VNone),
     (0xc30aa358, Tuple3 None ''invoice'' VNone),
     (0xcb9f372d, Tuple2 None ''invoke_after_msg_v_0_1_317''),
     (0xa6b88fdf, Tuple2 None ''invoke_with_layer11_v_0_1_317''),
     (0xf7444763, Tuple3 None ''json_array'' VNone),
     (0xc7345e6a, Tuple3 None ''json_bool'' VNone),
     (0x3f6d7b68, Tuple3 None ''json_null'' VNone),
     (0x2be0dfa4, Tuple3 None ''json_number'' VNone),
     (0x99c1d49d, Tuple3 None ''json_object'' VNone),
     (0xc0de1bd9, Tuple3 None ''json_object_value'' VNone),
     (0xb71e767a, Tuple3 None ''json_string'' VNone),
     (0xa2fa4880, Tuple3 (Some ''keyboard_button_struct'') ''keyboard_button'' VNone),
     (0xafd93fbb, Tuple3 (Some ''keyboard_button_buy_struct'') ''keyboard_button_buy'' VNone),
     (0x683a5e46, Tuple3 (Some ''keyboard_button_callback_struct'') ''keyboard_button_callback'' VNone),
     (0x50f41ccf, Tuple3 (Some ''keyboard_button_game_struct'') ''keyboard_button_game'' VNone),
     (0xfc796b3f, Tuple3 (Some ''keyboard_button_request_geo_location_struct'') ''keyboard_button_request_geo_location'' VNone),
     (0xb16a6c29, Tuple3 (Some ''keyboard_button_request_phone_struct'') ''keyboard_button_request_phone'' VNone),
     (0xbbc7515d, Tuple3 (Some ''keyboard_button_request_poll_struct'') ''keyboard_button_request_poll'' VNone),
     (0x77608b83, Tuple3 (Some ''keyboard_button_row_struct'') ''keyboard_button_row'' VNone),
     (0x0568a748, Tuple3 (Some ''keyboard_button_switch_inline_struct'') ''keyboard_button_switch_inline'' VNone),
     (0x258aff05, Tuple3 (Some ''keyboard_button_url_struct'') ''keyboard_button_url'' VNone),
     (0x10b78d29, Tuple3 (Some ''keyboard_button_url_auth_struct'') ''keyboard_button_url_auth'' VNone),
     (0xcb296bf8, Tuple3 None ''labeled_price'' VNone),
     (0xf385c1f6, Tuple3 None ''lang_pack_difference'' VNone),
     (0xeeca5ce3, Tuple3 None ''lang_pack_language'' VNone),
     (0xcad181f6, Tuple3 None ''lang_pack_string'' VNone),
     (0x2979eeb2, Tuple3 None ''lang_pack_string_deleted'' VNone),
     (0x6c47ac9f, Tuple3 None ''lang_pack_string_pluralized'' VNone),
     (0xcd984aa5, Tuple3 None ''langpack_get_difference'' VNone),
     (0x9ab5c58e, Tuple3 None ''langpack_get_lang_pack'' VNone),
     (0x6a596502, Tuple3 None ''langpack_get_language'' VNone),
     (0x800fd57d, Tuple3 None ''langpack_get_languages'' VNone),
     (0x2e1ee318, Tuple3 None ''langpack_get_strings'' VNone),
     (0xaed6dbb2, Tuple3 (Some ''mask_coords_struct'') ''mask_coords'' VNone),
     (0x452c0e65, Tuple3 (Some ''message_struct'') ''message'' VNone),
     (0xabe9affe, Tuple3 (Some ''message_action_bot_allowed_struct'') ''message_action_bot_allowed'' VNone),
     (0x95d2ac92, Tuple3 (Some ''message_action_channel_create_struct'') ''message_action_channel_create'' VNone),
     (0xb055eaee, Tuple3 (Some ''message_action_channel_migrate_from_struct'') ''message_action_channel_migrate_from'' VNone),
     (0x488a7337, Tuple3 (Some ''message_action_chat_add_user_struct'') ''message_action_chat_add_user'' VNone),
     (0x5e3cfc4b, Tuple3 (Some ''message_action_chat_add_user_old_struct'') ''message_action_chat_add_user_old'' VNone),
     (0xa6638b9a, Tuple3 (Some ''message_action_chat_create_struct'') ''message_action_chat_create'' VNone),
     (0xb2ae9b0c, Tuple3 (Some ''message_action_chat_delete_user_struct'') ''message_action_chat_delete_user'' VNone),
     (0x95e3fbef, Tuple3 (Some ''message_action_chat_delete_photo_struct'') ''message_action_chat_delete_photo'' VNone),
     (0x7fcb13a8, Tuple3 (Some ''message_action_chat_edit_photo_struct'') ''message_action_chat_edit_photo'' VNone),
     (0xb5a1ce5a, Tuple3 (Some ''message_action_chat_edit_title_struct'') ''message_action_chat_edit_title'' VNone),
     (0xf89cf5e8, Tuple3 (Some ''message_action_chat_joined_by_link_struct'') ''message_action_chat_joined_by_link'' VNone),
     (0x51bdb021, Tuple3 (Some ''message_action_chat_migrate_to_struct'') ''message_action_chat_migrate_to'' VNone),
     (0xf3f25f76, Tuple3 (Some ''message_action_contact_sign_up_struct'') ''message_action_contact_sign_up'' VNone),
     (0x55555557, Tuple3 (Some ''message_action_created_broadcast_list_struct'') ''message_action_created_broadcast_list'' VNone),
     (0xfae69f56, Tuple3 (Some ''message_action_custom_action_struct'') ''message_action_custom_action'' VNone),
     (0xb6aef7b0, Tuple3 (Some ''message_action_empty_struct'') ''message_action_empty'' VNone),
     (0x92a72876, Tuple3 (Some ''message_action_game_score_struct'') ''message_action_game_score'' VNone),
     (0x0c7d53de, Tuple2 None ''message_action_geo_chat_checkin_v_0_1_317''),
     (0x6f038ebc, Tuple2 None ''message_action_geo_chat_create_v_0_1_317''),
     (0x7a0d7f42, Tuple3 (Some ''message_action_group_call_struct'') ''message_action_group_call'' VNone),
     (0x9fbab604, Tuple3 (Some ''message_action_history_clear_struct'') ''message_action_history_clear'' VNone),
     (0x555555f5, Tuple3 (Some ''message_action_login_unknown_location_struct'') ''message_action_login_unknown_location'' VNone),
     (0x40699cd0, Tuple3 (Some ''message_action_payment_sent_struct'') ''message_action_payment_sent'' VNone),
     (0x80e11a7f, Tuple3 (Some ''message_action_phone_call_struct'') ''message_action_phone_call'' VNone),
     (0x94bd38ed, Tuple3 (Some ''message_action_pin_message_struct'') ''message_action_pin_message'' VNone)]"

text \<open>tblob.py, lines 6468 to 6567.\<close>

definition tdss_callbacks_09 :: "(int \<times> blob_tuple) list" where
  "tdss_callbacks_09 = [
     (0x4792929b, Tuple3 (Some ''message_action_screenshot_taken_struct'') ''message_action_screenshot_taken'' VNone),
     (0xd95c6154, Tuple3 (Some ''message_action_secure_values_sent_struct'') ''message_action_secure_values_sent'' VNone),
     (0x55555552, Tuple3 (Some ''message_action_ttl_change_struct'') ''message_action_ttl_change'' VNone),
     (0x55555550, Tuple3 (Some ''message_action_user_joined_struct'') ''message_action_user_joined'' VNone),
     (0x55555551, Tuple3 (Some ''message_action_user_updated_photo_struct'') ''message_action_user_updated_photo'' VNone),
     (0x83e5de54, Tuple3 (Some ''message_empty_struct'') ''message_empty'' VNone),
     (0x555555f7, Tuple3 (Some ''message_encrypted_action_struct'') ''message_encrypted_action'' VNone),
     (0x761e6af4, Tuple3 (Some ''message_entity_bank_card_struct'') ''message_entity_bank_card'' VNone),
     (0x020df5d0, Tuple3 (Some ''message_entity_blockquote_struct'') ''message_entity_blockquote'' VNone),
     (0xbd610bc9, Tuple3 (Some ''message_entity_bold_struct'') ''message_entity_bold'' VNone),
     (0x6cef8ac7, Tuple3 (Some ''message_entity_bot_command_struct'') ''message_entity_bot_command'' VNone),
     (0x4c4e743f, Tuple3 (Some ''message_entity_cashtag_struct'') ''message_entity_cashtag'' VNone),
     (0x28a20571, Tuple3 (Some ''message_entity_code_struct'') ''message_entity_code'' VNone),
     (0x64e475c2, Tuple3 (Some ''message_entity_email_struct'') ''message_entity_email'' VNone),
     (0x6f635b0d, Tuple3 (Some ''message_entity_hashtag_struct'') ''message_entity_hashtag'' VNone),
     (0x826f8b60, Tuple3 (Some ''message_entity_italic_struct'') ''message_entity_italic'' VNone),
     (0xfa04579d, Tuple3 (Some ''message_entity_mention_struct'') ''message_entity_mention'' VNone),
     (0x352dca58, Tuple3 (Some ''message_entity_mention_name_struct'') ''message_entity_mention_name'' VNone),
     (0x9b69e34b, Tuple3 (Some ''message_entity_phone_struct'') ''message_entity_phone'' VNone),
     (0x73924be0, Tuple3 (Some ''message_entity_pre_struct'') ''message_entity_pre'' VNone),
     (0xbf0693d4, Tuple3 (Some ''message_entity_strike_struct'') ''message_entity_strike'' VNone),
     (0x76a6d327, Tuple3 (Some ''message_entity_text_url_struct'') ''message_entity_text_url'' VNone),
     (0x9c4e7e8b, Tuple3 (Some ''message_entity_underline_struct'') ''message_entity_underline'' VNone),
     (0xbb92ba95, Tuple3 (Some ''message_entity_unknown_struct'') ''message_entity_unknown'' VNone),
     (0x6ed02538, Tuple3 (Some ''message_entity_url_struct'') ''message_entity_url'' VNone),
     (0x05f46804, Tuple3 (Some ''message_forwarded_old_struct'') ''message_forwarded_old'' VNone),
     (0xa367e716, Tuple3 (Some ''message_forwarded_old2_struct'') ''message_forwarded_old2'' VNone),
     (0x353a686b, Tuple3 (Some ''message_fwd_header_struct'') ''message_fwd_header'' VNone),
     (0xec338270, Tuple3 (Some ''message_fwd_header_layer112_struct'') ''message_fwd_header_layer112'' VNone),
     (0xc786ddcb, Tuple3 (Some ''message_fwd_header_layer68_struct'') ''message_fwd_header_layer68'' VNone),
     (0xfadff4ac, Tuple3 (Some ''message_fwd_header_layer72_struct'') ''message_fwd_header_layer72'' VNone),
     (0x559ebe6d, Tuple3 (Some ''message_fwd_header_layer96_struct'') ''message_fwd_header_layer96'' VNone),
     (0xad4fc9bd, Tuple3 None ''message_interaction_counters'' VNone),
     (0xc6b68300, Tuple3 (Some ''message_media_audio_layer45_struct'') ''message_media_audio_layer45'' VNone),
     (0xcbf24940, Tuple3 (Some ''message_media_contact_struct'') ''message_media_contact'' VNone),
     (0x5e7d2f39, Tuple3 (Some ''message_media_contact_layer81_struct'') ''message_media_contact_layer81'' VNone),
     (0x3f7ee58b, Tuple3 (Some ''message_media_dice_struct'') ''message_media_dice'' VNone),
     (0x638fe46b, Tuple3 (Some ''message_media_dice_layer111_struct'') ''message_media_dice_layer111'' VNone),
     (0x9cb070d7, Tuple3 (Some ''message_media_document_struct'') ''message_media_document'' VNone),
     (0xf3e02ea8, Tuple3 (Some ''message_media_document_layer68_struct'') ''message_media_document_layer68'' VNone),
     (0x7c4414d3, Tuple3 (Some ''message_media_document_layer74_struct'') ''message_media_document_layer74'' VNone),
     (0x2fda2204, Tuple3 (Some ''message_media_document_old_struct'') ''message_media_document_old'' VNone),
     (0x3ded6320, Tuple3 (Some ''message_media_empty_struct'') ''message_media_empty'' VNone),
     (0xfdb19008, Tuple3 (Some ''message_media_game_struct'') ''message_media_game'' VNone),
     (0x56e0d474, Tuple3 (Some ''message_media_geo_struct'') ''message_media_geo'' VNone),
     (0x7c3c2609, Tuple3 (Some ''message_media_geo_live_struct'') ''message_media_geo_live'' VNone),
     (0x84551347, Tuple3 (Some ''message_media_invoice_struct'') ''message_media_invoice'' VNone),
     (0x695150d7, Tuple3 (Some ''message_media_photo_struct'') ''message_media_photo'' VNone),
     (0x3d8ce53d, Tuple3 (Some ''message_media_photo_layer68_struct'') ''message_media_photo_layer68'' VNone),
     (0xb5223b0f, Tuple3 (Some ''message_media_photo_layer74_struct'') ''message_media_photo_layer74'' VNone),
     (0xc8c45a2a, Tuple3 (Some ''message_media_photo_old_struct'') ''message_media_photo_old'' VNone),
     (0x4bd6e798, Tuple3 (Some ''message_media_poll_struct'') ''message_media_poll'' VNone),
     (0x9f84f49e, Tuple3 (Some ''message_media_unsupported_struct'') ''message_media_unsupported'' VNone),
     (0x29632a36, Tuple3 (Some ''message_media_unsupported_old_struct'') ''message_media_unsupported_old'' VNone),
     (0x2ec0533f, Tuple3 (Some ''message_media_venue_struct'') ''message_media_venue'' VNone),
     (0x7912b71f, Tuple3 (Some ''message_media_venue_layer71_struct'') ''message_media_venue_layer71'' VNone),
     (0x5bcf1675, Tuple3 (Some ''message_media_video_layer45_struct'') ''message_media_video_layer45'' VNone),
     (0xa2d24290, Tuple3 (Some ''message_media_video_old_struct'') ''message_media_video_old'' VNone),
     (0xa32dd600, Tuple3 (Some ''message_media_web_page_struct'') ''message_media_web_page'' VNone),
     (0x0ae30253, Tuple3 None ''message_range'' VNone),
     (0xb87a24d1, Tuple3 (Some ''message_reactions_struct'') ''message_reactions'' VNone),
     (0xe3ae6108, Tuple3 None ''message_reactions_list'' VNone),
     (0x9e19a1f6, Tuple3 (Some ''message_service_struct'') ''message_service'' VNone),
     (0xc06b9607, Tuple3 (Some ''message_service_layer48_struct'') ''message_service_layer48'' VNone),
     (0x9f8d60bb, Tuple3 (Some ''message_service_old_struct'') ''message_service_old'' VNone),
     (0x1d86f70e, Tuple3 None ''message_service_old2'' VNone),
     (0xd267dcbc, Tuple3 None ''message_user_reaction'' VNone),
     (0xa28e5559, Tuple3 None ''message_user_vote'' VNone),
     (0x36377430, Tuple3 None ''message_user_vote_input_option'' VNone),
     (0x0e8fe0de, Tuple3 None ''message_user_vote_multiple'' VNone),
     (0x44f9b43d, Tuple3 (Some ''message_layer104_struct'') ''message_layer104'' VNone),
     (0x1c9b1027, Tuple3 (Some ''message_layer104_2_struct'') ''message_layer104_2'' VNone),
     (0x9789dac4, Tuple3 (Some ''message_layer104_3_struct'') ''message_layer104_3'' VNone),
     (0xc992e15c, Tuple3 None ''message_layer47'' VNone),
     (0xc09be45f, Tuple3 (Some ''message_layer68_struct'') ''message_layer68'' VNone),
     (0x90dddc11, Tuple3 (Some ''message_layer72_struct'') ''message_layer72'' VNone),
     (0x22eb6aba, Tuple3 None ''message_old'' VNone),
     (0x567699b3, Tuple3 None ''message_old2'' VNone),
     (0xa7ab1991, Tuple3 (Some ''message_old3_struct'') ''message_old3'' VNone),
     (0xc3060325, Tuple3 (Some ''message_old4_struct'') ''message_old4'' VNone),
     (0xf07814c8, Tuple3 (Some ''message_old5_struct'') ''message_old5'' VNone),
     (0x2bebfa86, Tuple3 None ''message_old6'' VNone),
     (0x5ba66c13, Tuple3 None ''message_old7'' VNone),
     (0x555555fa, Tuple3 (Some ''message_secret_struct'') ''message_secret'' VNone),
     (0x555555f9, Tuple3 None ''message_secret_layer72'' VNone),
     (0x555555f8, Tuple3 None ''message_secret_old'' VNone),
     (0x3dbc0415, Tuple3 None ''messages_accept_encryption'' VNone),
     (0xf729ea98, Tuple3 None ''messages_accept_url_auth'' VNone),
     (0xf9a0aa09, Tuple3 None ''messages_add_chat_user'' VNone),
     (0x2ee9ee9e, Tuple2 None ''messages_add_chat_user_v_0_1_317''),
     (0xb45c69d1, Tuple3 None ''messages_affected_history'' VNone),
     (0xb7de36f2, Tuple2 None ''messages_affected_history_v_0_1_317''),
     (0x84d19185, Tuple3 None ''messages_affected_messages'' VNone),
     (0xedfd405f, Tuple3 None ''messages_all_stickers'' VNone),
     (0xe86602c3, Tuple3 None ''messages_all_stickers_not_modified'' VNone),
     (0x4fcba9c8, Tuple3 None ''messages_archived_stickers'' VNone),
     (0x36585ea4, Tuple3 None ''messages_bot_callback_answer'' VNone),
     (0x947ca848, Tuple3 None ''messages_bot_results'' VNone),
     (0xccd3563d, Tuple3 None ''messages_bot_results_layer71'' VNone),
     (0x99262e37, Tuple3 None ''messages_channel_messages'' VNone)]"

text \<open>tblob.py, lines 6568 to 6667.\<close>

definition tdss_callbacks_10 :: "(int \<times> blob_tuple) list" where
  "tdss_callbacks_10 = [
     (0x40e9002a, Tuple2 None ''messages_chat_v_0_1_317''),
     (0xe5d7d19c, Tuple3 None ''messages_chat_full'' VNone),
     (0x64ff9fd5, Tuple3 None ''messages_chats'' VNone),
     (0x8150cbd8, Tuple2 None ''messages_chats_v_0_1_317''),
     (0x9cd81144, Tuple3 None ''messages_chats_slice'' VNone),
     (0x3eadb1bb, Tuple3 None ''messages_check_chat_invite'' VNone),
     (0x7e58ee9c, Tuple3 None ''messages_clear_all_drafts'' VNone),
     (0x8999602d, Tuple3 None ''messages_clear_recent_stickers'' VNone),
     (0x09cb126e, Tuple3 None ''messages_create_chat'' VNone),
     (0x419d9aee, Tuple2 None ''messages_create_chat_v_0_1_317''),
     (0xe0611f16, Tuple3 None ''messages_delete_chat_user'' VNone),
     (0xc3c5cd23, Tuple2 None ''messages_delete_chat_user_v_0_1_317''),
     (0x1c015b09, Tuple3 None ''messages_delete_history'' VNone),
     (0xf4f8fb61, Tuple2 None ''messages_delete_history_v_0_1_317''),
     (0xe58e95d2, Tuple3 None ''messages_delete_messages'' VNone),
     (0x59ae2b16, Tuple3 None ''messages_delete_scheduled_messages'' VNone),
     (0x14f2dd0a, Tuple2 None ''messages_delete_messages_v_0_1_317''),
     (0x2c221edd, Tuple3 None ''messages_dh_config'' VNone),
     (0xc0e24635, Tuple3 None ''messages_dh_config_not_modified'' VNone),
     (0x15ba6c40, Tuple3 None ''messages_dialogs'' VNone),
     (0xf0e3e596, Tuple3 None ''messages_dialogs_not_modified'' VNone),
     (0x71e094f3, Tuple3 None ''messages_dialogs_slice'' VNone),
     (0xedd923c5, Tuple3 None ''messages_discard_encryption'' VNone),
     (0xdef60797, Tuple3 None ''messages_edit_chat_about'' VNone),
     (0xa9e69f2e, Tuple3 None ''messages_edit_chat_admin'' VNone),
     (0xa5866b41, Tuple3 None ''messages_edit_chat_default_banned_rights'' VNone),
     (0xca4c79d8, Tuple3 None ''messages_edit_chat_photo'' VNone),
     (0xd881821d, Tuple2 None ''messages_edit_chat_photo_v_0_1_317''),
     (0xdc452855, Tuple3 None ''messages_edit_chat_title'' VNone),
     (0xb4bc68b5, Tuple2 None ''messages_edit_chat_title_v_0_1_317''),
     (0x48f71778, Tuple3 None ''messages_edit_message'' VNone),
     (0xd116f31e, Tuple3 None ''messages_edit_message_v_5_6_2'' VNone),
     (0x0df7534c, Tuple3 None ''messages_export_chat_invite'' VNone),
     (0xb9ffc55b, Tuple3 None ''messages_fave_sticker'' VNone),
     (0xf37f2f16, Tuple3 None ''messages_faved_stickers'' VNone),
     (0x9e8fa6d3, Tuple3 None ''messages_faved_stickers_not_modified'' VNone),
     (0xb6abc341, Tuple3 None ''messages_featured_stickers'' VNone),
     (0xc6dc0c66, Tuple3 None ''messages_featured_stickers_not_modified'' VNone),
     (0xf89d88e5, Tuple3 None ''messages_featured_stickers_v_5_15_0'' VNone),
     (0x04ede3cf, Tuple3 None ''messages_featured_stickers_not_modified_v_5_15_0'' VNone),
     (0x33963bf9, Tuple3 None ''messages_forward_message'' VNone),
     (0x03f3f4f2, Tuple2 None ''messages_forward_message_v_0_1_317''),
     (0xd9fee60e, Tuple3 None ''messages_forward_messages'' VNone),
     (0x514cd10f, Tuple2 None ''messages_forward_messages_v_0_1_317''),
     (0x708e0195, Tuple3 None ''messages_forward_messages_v_5_6_2'' VNone),
     (0x450a1c0a, Tuple3 None ''messages_found_gifs'' VNone),
     (0x5108d648, Tuple3 None ''messages_found_sticker_sets'' VNone),
     (0x0d54b65d, Tuple3 None ''messages_found_sticker_sets_not_modified'' VNone),
     (0xeba80ff0, Tuple3 None ''messages_get_all_chats'' VNone),
     (0x6a3f8d65, Tuple3 None ''messages_get_all_drafts'' VNone),
     (0x1c9618b1, Tuple3 None ''messages_get_all_stickers'' VNone),
     (0x57f17692, Tuple3 None ''messages_get_archived_stickers'' VNone),
     (0xcc5b67cc, Tuple3 None ''messages_get_attached_stickers'' VNone),
     (0x810a9fec, Tuple3 None ''messages_get_bot_callback_answer'' VNone),
     (0x3c6aa187, Tuple3 None ''messages_get_chats'' VNone),
     (0x0d0a48c4, Tuple3 None ''messages_get_common_chats'' VNone),
     (0x26cf8950, Tuple3 None ''messages_get_dh_config'' VNone),
     (0xf19ed96d, Tuple3 None ''messages_get_dialog_filters'' VNone),
     (0x22e24e22, Tuple3 None ''messages_get_dialog_unread_marks'' VNone),
     (0xa0ee3b73, Tuple3 None ''messages_get_dialogs'' VNone),
     (0xb098aee6, Tuple3 None ''messages_get_dialogs_v_5_5_0'' VNone),
     (0xeccf1df6, Tuple2 None ''messages_get_dialogs_v_0_1_317''),
     (0x338e2464, Tuple3 None ''messages_get_document_by_hash'' VNone),
     (0x35a0e062, Tuple3 None ''messages_get_emoji_keywords'' VNone),
     (0x1508b6af, Tuple3 None ''messages_get_emoji_keywords_difference'' VNone),
     (0x4e9963b2, Tuple3 None ''messages_get_emoji_keywords_languages'' VNone),
     (0xd5b10c26, Tuple3 None ''messages_get_emoji_url'' VNone),
     (0x21ce0b0e, Tuple3 None ''messages_get_faved_stickers'' VNone),
     (0x2dacca4f, Tuple3 None ''messages_get_featured_stickers'' VNone),
     (0x3b831c66, Tuple3 None ''messages_get_full_chat'' VNone),
     (0xe822649d, Tuple3 None ''messages_get_game_high_scores'' VNone),
     (0xafa92846, Tuple3 None ''messages_get_history'' VNone),
     (0x92a1df2f, Tuple2 None ''messages_get_history_v_0_1_317''),
     (0x514e999d, Tuple3 None ''messages_get_inline_bot_results'' VNone),
     (0x0f635e1b, Tuple3 None ''messages_get_inline_game_high_scores'' VNone),
     (0x65b8c79f, Tuple3 None ''messages_get_mask_stickers'' VNone),
     (0xfda68d36, Tuple3 None ''messages_get_message_edit_data'' VNone),
     (0x15b1376a, Tuple3 None ''messages_get_message_reactions_list'' VNone),
     (0x4222fa74, Tuple3 None ''messages_get_messages'' VNone),
     (0x8bba90e6, Tuple3 None ''messages_get_messages_reactions'' VNone),
     (0xc4c8a55d, Tuple3 None ''messages_get_messages_views'' VNone),
     (0x5fe7025b, Tuple3 None ''messages_get_old_featured_stickers'' VNone),
     (0x6e2be050, Tuple3 None ''messages_get_onlines'' VNone),
     (0xe470bcfd, Tuple3 None ''messages_get_peer_dialogs'' VNone),
     (0x3672e09c, Tuple3 None ''messages_get_peer_settings'' VNone),
     (0xd6b94df2, Tuple3 None ''messages_get_pinned_dialogs'' VNone),
     (0xe254d64e, Tuple3 None ''messages_get_pinned_dialogs_v_5_5_0'' VNone),
     (0x73bb643b, Tuple3 None ''messages_get_poll_results'' VNone),
     (0xb86e380e, Tuple3 None ''messages_get_poll_votes'' VNone),
     (0xbbc45b09, Tuple3 None ''messages_get_recent_locations'' VNone),
     (0x5ea192c9, Tuple3 None ''messages_get_recent_stickers'' VNone),
     (0x83bf3d52, Tuple3 None ''messages_get_saved_gifs'' VNone),
     (0xe2c2685b, Tuple3 None ''messages_get_scheduled_history'' VNone),
     (0xbdbb0464, Tuple3 None ''messages_get_scheduled_messages'' VNone),
     (0x732eef00, Tuple3 None ''messages_get_search_counters'' VNone),
     (0x812c2ae6, Tuple3 None ''messages_get_stats_url'' VNone),
     (0x2619a90e, Tuple3 None ''messages_get_sticker_set'' VNone),
     (0x043d4f2c, Tuple3 None ''messages_get_stickers'' VNone),
     (0xa29cd42c, Tuple3 None ''messages_get_suggested_dialog_filters'' VNone),
     (0x46578472, Tuple3 None ''messages_get_unread_mentions'' VNone)]"

text \<open>tblob.py, lines 6668 to 6767.\<close>

definition tdss_callbacks_11 :: "(int \<times> blob_tuple) list" where
  "tdss_callbacks_11 = [
     (0x32ca8f91, Tuple3 None ''messages_get_web_page'' VNone),
     (0x8b68b0cc, Tuple3 None ''messages_get_web_page_preview'' VNone),
     (0x4facb138, Tuple3 None ''messages_hide_peer_settings_bar'' VNone),
     (0xa8f1709b, Tuple3 None ''messages_hide_report_spam_v_5_6_2'' VNone),
     (0x9a3bfd99, Tuple3 None ''messages_high_scores'' VNone),
     (0x6c50051c, Tuple3 None ''messages_import_chat_invite'' VNone),
     (0xa927fec5, Tuple3 None ''messages_inactive_chats'' VNone),
     (0xc78fe460, Tuple3 None ''messages_install_sticker_set'' VNone),
     (0xc286d98f, Tuple3 None ''messages_mark_dialog_unread'' VNone),
     (0x26b5dde6, Tuple3 None ''messages_message_edit_data'' VNone),
     (0x3f4e0648, Tuple3 None ''messages_message_empty'' VNone),
     (0xff90c417, Tuple2 None ''messages_message_v_0_1_317''),
     (0x8c718e87, Tuple3 None ''messages_messages'' VNone),
     (0x74535f21, Tuple3 None ''messages_messages_not_modified'' VNone),
     (0xc8edce1e, Tuple3 None ''messages_messages_slice'' VNone),
     (0x0b446ae3, Tuple2 None ''messages_messages_slice_v_0_1_317''),
     (0xa6c47aaa, Tuple3 None ''messages_messages_slice_v_5_6_2'' VNone),
     (0x15a3b8e3, Tuple3 None ''messages_migrate_chat'' VNone),
     (0x3371c354, Tuple3 None ''messages_peer_dialogs'' VNone),
     (0x7f4b690a, Tuple3 None ''messages_read_encrypted_history'' VNone),
     (0x5b118126, Tuple3 None ''messages_read_featured_stickers'' VNone),
     (0x0e306d3a, Tuple3 None ''messages_read_history'' VNone),
     (0xb04f2510, Tuple2 None ''messages_read_history_v_0_1_317''),
     (0x0f0189d3, Tuple3 None ''messages_read_mentions'' VNone),
     (0x36a73f77, Tuple3 None ''messages_read_message_contents'' VNone),
     (0x05a954c0, Tuple3 None ''messages_received_messages'' VNone),
     (0x28abcb68, Tuple2 None ''messages_received_messages_v_0_1_317''),
     (0x55a5bb66, Tuple3 None ''messages_received_queue'' VNone),
     (0x22f3afb3, Tuple3 None ''messages_recent_stickers'' VNone),
     (0x0b17f890, Tuple3 None ''messages_recent_stickers_not_modified'' VNone),
     (0x3b1adf37, Tuple3 None ''messages_reorder_pinned_dialogs'' VNone),
     (0x5b51d63f, Tuple3 None ''messages_reorder_pinned_dialogs_v_5_5_0'' VNone),
     (0x78337739, Tuple3 None ''messages_reorder_sticker_sets'' VNone),
     (0xbd82b658, Tuple3 None ''messages_report'' VNone),
     (0x4b0c8c0f, Tuple3 None ''messages_report_encrypted_spam'' VNone),
     (0xcf1592db, Tuple3 None ''messages_report_spam'' VNone),
     (0xf64daf43, Tuple3 None ''messages_request_encryption'' VNone),
     (0xe33f5613, Tuple3 None ''messages_request_url_auth'' VNone),
     (0x395f9d7e, Tuple2 None ''messages_restore_messages_v_0_1_317''),
     (0xbc39e14b, Tuple3 None ''messages_save_draft'' VNone),
     (0x327a30cb, Tuple3 None ''messages_save_gif'' VNone),
     (0x392718f8, Tuple3 None ''messages_save_recent_sticker'' VNone),
     (0x2e0709a5, Tuple3 None ''messages_saved_gifs'' VNone),
     (0xe8025ca2, Tuple3 None ''messages_saved_gifs_not_modified'' VNone),
     (0x8614ef68, Tuple3 None ''messages_search'' VNone),
     (0xe844ebff, Tuple3 None ''messages_search_counter'' VNone),
     (0x07e9f2ab, Tuple2 None ''messages_search_v_0_1_317''),
     (0xbf9a776b, Tuple3 None ''messages_search_gifs'' VNone),
     (0xbf7225a4, Tuple3 None ''messages_search_global'' VNone),
     (0x9e3cacb0, Tuple3 None ''messages_search_global_v_5_6_2'' VNone),
     (0xc2b7d08b, Tuple3 None ''messages_search_sticker_sets'' VNone),
     (0xbf73f4da, Tuple3 None ''messages_send_broadcast_v_5_6_2'' VNone),
     (0x41bb0972, Tuple2 None ''messages_send_broadcast_v_0_1_317''),
     (0xa9776773, Tuple3 None ''messages_send_encrypted'' VNone),
     (0x9a901b66, Tuple3 None ''messages_send_encrypted_file'' VNone),
     (0xcacacaca, Tuple3 None ''messages_send_encrypted_multi_media'' VNone),
     (0x32d439a4, Tuple3 None ''messages_send_encrypted_service'' VNone),
     (0x220815b0, Tuple3 None ''messages_send_inline_bot_result'' VNone),
     (0xb16e06fe, Tuple3 None ''messages_send_inline_bot_result_v_5_6_2'' VNone),
     (0x3491eba9, Tuple3 None ''messages_send_media'' VNone),
     (0xa3c85d76, Tuple2 None ''messages_send_media_v_0_1_317''),
     (0xb8d1262b, Tuple3 None ''messages_send_media_v_5_6_2'' VNone),
     (0x520c3870, Tuple3 None ''messages_send_message'' VNone),
     (0x4cde0aab, Tuple2 None ''messages_send_message_v_0_1_317''),
     (0xfa88427a, Tuple3 None ''messages_send_message_v_5_6_2'' VNone),
     (0x2095512f, Tuple3 None ''messages_send_multi_media_v_5_6_2'' VNone),
     (0x25690ce4, Tuple3 None ''messages_send_reaction'' VNone),
     (0xbd38850a, Tuple3 None ''messages_send_scheduled_messages'' VNone),
     (0xc97df020, Tuple3 None ''messages_send_screenshot_notification'' VNone),
     (0x10ea6184, Tuple3 None ''messages_send_vote'' VNone),
     (0xd1f4d35c, Tuple2 None ''messages_sent_message_v_0_1_317''),
     (0xe9db4a3f, Tuple2 None ''messages_sent_message_link_v_0_1_317''),
     (0x9493ff32, Tuple3 None ''messages_sent_encrypted_file'' VNone),
     (0x560f8935, Tuple3 None ''messages_sent_encrypted_message'' VNone),
     (0xd58f130a, Tuple3 None ''messages_set_bot_callback_answer'' VNone),
     (0x791451ed, Tuple3 None ''messages_set_encrypted_typing'' VNone),
     (0x8ef8ecc0, Tuple3 None ''messages_set_game_score'' VNone),
     (0x15ad9f64, Tuple3 None ''messages_set_inline_game_score'' VNone),
     (0xa3825e50, Tuple3 None ''messages_set_typing'' VNone),
     (0x719839e9, Tuple2 None ''messages_set_typing_v_0_1_317''),
     (0xe6df7378, Tuple3 None ''messages_start_bot'' VNone),
     (0xd07ae726, Tuple2 None ''messages_stated_message_v_0_1_317''),
     (0xa9af2881, Tuple2 None ''messages_stated_message_link_v_0_1_317''),
     (0x969478bb, Tuple2 None ''messages_stated_messages_v_0_1_317''),
     (0x3e74f5c6, Tuple2 None ''messages_stated_messages_links_v_0_1_317''),
     (0xb60a24a6, Tuple3 None ''messages_sticker_set'' VNone),
     (0x35e410a8, Tuple3 None ''messages_sticker_set_install_result_archive'' VNone),
     (0x38641628, Tuple3 None ''messages_sticker_set_install_result_success'' VNone),
     (0xe4599bbd, Tuple3 None ''messages_stickers'' VNone),
     (0xf1749a22, Tuple3 None ''messages_stickers_not_modified'' VNone),
     (0xa731e257, Tuple3 None ''messages_toggle_dialog_pin'' VNone),
     (0xb5052fea, Tuple3 None ''messages_toggle_sticker_sets'' VNone),
     (0xf96e55de, Tuple3 None ''messages_uninstall_sticker_set'' VNone),
     (0x1ad4a04a, Tuple3 None ''messages_update_dialog_filter'' VNone),
     (0xc563c1e4, Tuple3 None ''messages_update_dialog_filters_order'' VNone),
     (0xd2aaf7ec, Tuple3 None ''messages_update_pinned_message'' VNone),
     (0x5057c497, Tuple3 None ''messages_upload_encrypted_file'' VNone),
     (0x519bc2b1, Tuple3 None ''messages_upload_media'' VNone),
     (0x0823f649, Tuple3 None ''messages_votes_list'' VNone),
     (0x73f1f8dc, Tuple2 None ''msg_container_v_0_1_317'')]"

text \<open>tblob.py, lines 6768 to 6867.\<close>

definition tdss_callbacks_12 :: "(int \<times> blob_tuple) list" where
  "tdss_callbacks_12 = [
     (0xe06046b2, Tuple2 None ''msg_copy_v_0_1_317''),
     (0x276d3ec6, Tuple2 None ''msg_detailed_info_v_0_1_317''),
     (0x809db6df, Tuple2 None ''msg_new_detailed_info_v_0_1_317''),
     (0x7d861a08, Tuple2 None ''msg_resend_req_v_0_1_317''),
     (0x62d6b459, Tuple2 None ''msgs_ack_v_0_1_317''),
     (0x8cc0d131, Tuple2 None ''msgs_all_info_v_0_1_317''),
     (0x04deb57d, Tuple2 None ''msgs_state_info_v_0_1_317''),
     (0xda69fb52, Tuple2 None ''msgs_state_req_v_0_1_317''),
     (0x8e1a1775, Tuple3 None ''nearest_dc'' VNone),
     (0x9ec20908, Tuple2 None ''new_session_created_v_0_1_317''),
     (0xd612e8ef, Tuple3 None ''notify_broadcasts'' VNone),
     (0xc007cec3, Tuple3 None ''notify_chats'' VNone),
     (0x9fd40bd8, Tuple3 None ''notify_peer'' VNone),
     (0xb4c83b4c, Tuple3 None ''notify_users'' VNone),
     (0x56730bcc, Tuple3 None ''null'' VNone),
     (0x83c95aec, Tuple2 None ''p_q_inner_data_v_0_1_317''),
     (0x98657f0d, Tuple3 (Some ''page_struct'') ''page'' VNone),
     (0xce0d37b0, Tuple3 (Some ''page_block_anchor_struct'') ''page_block_anchor'' VNone),
     (0x804361ea, Tuple3 (Some ''page_block_audio_struct'') ''page_block_audio'' VNone),
     (0x31b81a7f, Tuple3 (Some ''page_block_audio_layer82_struct'') ''page_block_audio_layer82'' VNone),
     (0xbaafe5e0, Tuple3 (Some ''page_block_author_date_struct'') ''page_block_author_date'' VNone),
     (0x3d5b64f2, Tuple3 (Some ''page_block_author_date_layer60_struct'') ''page_block_author_date_layer60'' VNone),
     (0x263d7c26, Tuple3 (Some ''page_block_blockquote_struct'') ''page_block_blockquote'' VNone),
     (0xef1751b5, Tuple3 (Some ''page_block_channel_struct'') ''page_block_channel'' VNone),
     (0x65a0fa4d, Tuple3 (Some ''page_block_collage_struct'') ''page_block_collage'' VNone),
     (0x08b31c4f, Tuple3 (Some ''page_block_collage_layer82_struct'') ''page_block_collage_layer82'' VNone),
     (0x39f23300, Tuple3 (Some ''page_block_cover_struct'') ''page_block_cover'' VNone),
     (0x76768bed, Tuple3 (Some ''page_block_details_struct'') ''page_block_details'' VNone),
     (0xdb20b188, Tuple3 (Some ''page_block_divider_struct'') ''page_block_divider'' VNone),
     (0xa8718dc5, Tuple3 (Some ''page_block_embed_struct'') ''page_block_embed'' VNone),
     (0xf259a80b, Tuple3 (Some ''page_block_embed_post_struct'') ''page_block_embed_post'' VNone),
     (0x292c7be9, Tuple3 (Some ''page_block_embed_post_layer82_struct'') ''page_block_embed_post_layer82'' VNone),
     (0xd935d8fb, Tuple3 (Some ''page_block_embed_layer60_struct'') ''page_block_embed_layer60'' VNone),
     (0xcde200d1, Tuple3 (Some ''page_block_embed_layer82_struct'') ''page_block_embed_layer82'' VNone),
     (0x48870999, Tuple3 (Some ''page_block_footer_struct'') ''page_block_footer'' VNone),
     (0xbfd064ec, Tuple3 (Some ''page_block_header_struct'') ''page_block_header'' VNone),
     (0x1e148390, Tuple3 (Some ''page_block_kicker_struct'') ''page_block_kicker'' VNone),
     (0xe4e88011, Tuple3 (Some ''page_block_list_struct'') ''page_block_list'' VNone),
     (0x3a58c7f4, Tuple3 (Some ''page_block_list_layer82_struct'') ''page_block_list_layer82'' VNone),
     (0xa44f3ef6, Tuple3 (Some ''page_block_map_struct'') ''page_block_map'' VNone),
     (0x9a8ae1e1, Tuple3 (Some ''page_block_ordered_list_struct'') ''page_block_ordered_list'' VNone),
     (0x467a0766, Tuple3 (Some ''page_block_paragraph_struct'') ''page_block_paragraph'' VNone),
     (0x1759c560, Tuple3 (Some ''page_block_photo_struct'') ''page_block_photo'' VNone),
     (0xe9c69982, Tuple3 (Some ''page_block_photo_layer82_struct'') ''page_block_photo_layer82'' VNone),
     (0xc070d93e, Tuple3 (Some ''page_block_preformatted_struct'') ''page_block_preformatted'' VNone),
     (0x4f4456d3, Tuple3 (Some ''page_block_pullquote_struct'') ''page_block_pullquote'' VNone),
     (0x16115a96, Tuple3 (Some ''page_block_related_articles_struct'') ''page_block_related_articles'' VNone),
     (0x031f9590, Tuple3 (Some ''page_block_slideshow_struct'') ''page_block_slideshow'' VNone),
     (0x130c8963, Tuple3 (Some ''page_block_slideshow_layer82_struct'') ''page_block_slideshow_layer82'' VNone),
     (0xf12bb6e1, Tuple3 (Some ''page_block_subheader_struct'') ''page_block_subheader'' VNone),
     (0x8ffa9a1f, Tuple3 (Some ''page_block_subtitle_struct'') ''page_block_subtitle'' VNone),
     (0xbf4dea82, Tuple3 (Some ''page_block_table_struct'') ''page_block_table'' VNone),
     (0x70abc3fd, Tuple3 (Some ''page_block_title_struct'') ''page_block_title'' VNone),
     (0x13567e8a, Tuple3 (Some ''page_block_unsupported_struct'') ''page_block_unsupported'' VNone),
     (0x7c8fe7b6, Tuple3 (Some ''page_block_video_struct'') ''page_block_video'' VNone),
     (0xd9d71866, Tuple3 (Some ''page_block_video_layer82_struct'') ''page_block_video_layer82'' VNone),
     (0x6f747657, Tuple3 (Some ''page_caption_struct'') ''page_caption'' VNone),
     (0xd7a19d69, Tuple3 (Some ''page_full_layer67_struct'') ''page_full_layer67'' VNone),
     (0x556ec7aa, Tuple3 (Some ''page_full_layer82_struct'') ''page_full_layer82'' VNone),
     (0xae891bec, Tuple3 (Some ''page_layer110_struct'') ''page_layer110'' VNone),
     (0x25e073fc, Tuple3 (Some ''page_list_item_blocks_struct'') ''page_list_item_blocks'' VNone),
     (0xb92fb6cd, Tuple3 (Some ''page_list_item_text_struct'') ''page_list_item_text'' VNone),
     (0x98dd8936, Tuple3 (Some ''page_list_ordered_item_blocks_struct'') ''page_list_ordered_item_blocks'' VNone),
     (0x5e068047, Tuple3 (Some ''page_list_ordered_item_text_struct'') ''page_list_ordered_item_text'' VNone),
     (0x8dee6c44, Tuple3 (Some ''page_part_layer67_struct'') ''page_part_layer67'' VNone),
     (0x8e3f9ebe, Tuple3 (Some ''page_part_layer82_struct'') ''page_part_layer82'' VNone),
     (0xb390dc08, Tuple3 (Some ''page_related_article_struct'') ''page_related_article'' VNone),
     (0x34566b6a, Tuple3 (Some ''page_table_cell_struct'') ''page_table_cell'' VNone),
     (0xe0c0c5e5, Tuple3 (Some ''page_table_row_struct'') ''page_table_row'' VNone),
     (0x3a912d4a, Tuple3 None ''password_kdf_algo_sha256_sha256_pbkdf2_hmac_sha512iter100000_sha256_mod_pow'' VNone),
     (0xd45ab096, Tuple3 None ''password_kdf_algo_unknown'' VNone),
     (0x909c3f94, Tuple3 None ''payment_requested_info'' VNone),
     (0xcdc27a1f, Tuple3 None ''payment_saved_credentials_card'' VNone),
     (0x3e24e573, Tuple3 None ''payments_bank_card_data'' VNone),
     (0xd83d70c1, Tuple3 None ''payments_clear_saved_info'' VNone),
     (0x2e79d779, Tuple3 None ''payments_get_bank_card_data'' VNone),
     (0x99f09745, Tuple3 None ''payments_get_payment_form'' VNone),
     (0xa092a980, Tuple3 None ''payments_get_payment_receipt'' VNone),
     (0x227d824b, Tuple3 None ''payments_get_saved_info'' VNone),
     (0x3f56aea3, Tuple3 None ''payments_payment_form'' VNone),
     (0x500911e1, Tuple3 None ''payments_payment_receipt'' VNone),
     (0x4e5f810d, Tuple3 None ''payments_payment_result'' VNone),
     (0xd8411139, Tuple3 None ''payments_payment_verification_needed'' VNone),
     (0x6b56b921, Tuple3 None ''payments_payment_verfication_needed_v_5_6_2'' VNone),
     (0xfb8fe43c, Tuple3 None ''payments_saved_info'' VNone),
     (0x2b8879b3, Tuple3 None ''payments_send_payment_form'' VNone),
     (0x770a8e74, Tuple3 None ''payments_validate_requested_info'' VNone),
     (0xd1451883, Tuple3 None ''payments_validated_requested_info'' VNone),
     (0xbddde532, Tuple3 (Some ''peer_channel_struct'') ''peer_channel'' VNone),
     (0xbad0e5bb, Tuple3 (Some ''peer_chat_struct'') ''peer_chat'' VNone),
     (0xca461b5d, Tuple3 None ''peer_located'' VNone),
     (0x6d1ded88, Tuple2 None ''peer_notify_events_all_v_0_1_317''),
     (0xadd53cb3, Tuple2 None ''peer_notify_events_empty_v_0_1_317''),
     (0xaf509d20, Tuple3 (Some ''peer_notify_settings_struct'') ''peer_notify_settings'' VNone),
     (0x70a68512, Tuple3 (Some ''peer_notify_settings_empty_layer77_struct'') ''peer_notify_settings_empty_layer77'' VNone),
     (0x8d5e11ee, Tuple3 (Some ''peer_notify_settings_layer47_struct'') ''peer_notify_settings_layer47'' VNone),
     (0x9acda4c0, Tuple3 (Some ''peer_notify_settings_layer77_struct'') ''peer_notify_settings_layer77'' VNone),
     (0xf8ec284b, Tuple3 None ''peer_self_located'' VNone),
     (0x733f2961, Tuple3 (Some ''peer_settings_struct'') ''peer_settings'' VNone),
     (0x818426cd, Tuple3 (Some ''peer_settings_v_5_15_0_struct'') ''peer_settings_v_5_15_0'' VNone)]"

text \<open>tblob.py, lines 6868 to 6967.\<close>

definition tdss_callbacks_13 :: "(int \<times> blob_tuple) list" where
  "tdss_callbacks_13 = [
     (0x9db1bc6d, Tuple3 (Some ''peer_user_struct'') ''peer_user'' VNone),
     (0x8742ae7f, Tuple3 None ''phone_call'' VNone),
     (0xe6f9ddf3, Tuple3 None ''phone_call_v_5_5_0'' VNone),
     (0x997c454a, Tuple3 None ''phone_call_accepted'' VNone),
     (0x6d003d3f, Tuple3 None ''phone_call_accepted_v_5_5_0'' VNone),
     (0xafe2b839, Tuple3 (Some ''phone_call_discard_reason_allow_group_call_struct'') ''phone_call_discard_reason_allow_group_call'' VNone),
     (0xfaf7e8c9, Tuple3 (Some ''phone_call_discard_reason_busy_struct'') ''phone_call_discard_reason_busy'' VNone),
     (0xe095c1a0, Tuple3 (Some ''phone_call_discard_reason_disconnect_struct'') ''phone_call_discard_reason_disconnect'' VNone),
     (0x57adc690, Tuple3 (Some ''phone_call_discard_reason_hangup_struct'') ''phone_call_discard_reason_hangup'' VNone),
     (0x85e42301, Tuple3 (Some ''phone_call_discard_reason_missed_struct'') ''phone_call_discard_reason_missed'' VNone),
     (0x50ca4de1, Tuple3 (Some ''phone_call_discarded_struct'') ''phone_call_discarded'' VNone),
     (0x5366c915, Tuple3 None ''phone_call_empty'' VNone),
     (0xfc878fc8, Tuple3 None ''phone_call_protocol'' VNone),
     (0xa2bb35cb, Tuple3 None ''phone_call_protocol_layer110'' VNone),
     (0x87eabb53, Tuple3 None ''phone_call_requested'' VNone),
     (0x83761ce4, Tuple3 None ''phone_call_requested_v_5_5_0'' VNone),
     (0x1b8f4ad1, Tuple3 None ''phone_call_waiting'' VNone),
     (0xffe6ab67, Tuple3 None ''phone_call_layer86_v_5_5_0'' VNone),
     (0x9d4c17c0, Tuple3 None ''phone_connection'' VNone),
     (0x3bd2b4a0, Tuple3 None ''phone_accept_call'' VNone),
     (0x2efe1722, Tuple3 None ''phone_confirm_call'' VNone),
     (0x8504e5b6, Tuple3 None ''phone_create_group_call'' VNone),
     (0xb2cbc1c0, Tuple3 None ''phone_discard_call'' VNone),
     (0x78d413a6, Tuple3 None ''phone_discard_call_v_5_5_0'' VNone),
     (0x7a777135, Tuple3 None ''phone_discard_group_call'' VNone),
     (0x46659be4, Tuple3 None ''phone_edit_group_call_member'' VNone),
     (0x8adb4f79, Tuple3 None ''phone_get_call'' VNone),
     (0x55451fa9, Tuple3 None ''phone_get_call_config'' VNone),
     (0x0c7cb017, Tuple3 None ''phone_get_group_call'' VNone),
     (0x6737ffb7, Tuple3 None ''phone_group_call'' VNone),
     (0xcc92a6dc, Tuple3 None ''phone_invite_group_call_members'' VNone),
     (0x09db32d7, Tuple3 None ''phone_join_group_call'' VNone),
     (0x60e98e5f, Tuple3 None ''phone_leave_group_call'' VNone),
     (0xec82e140, Tuple3 None ''phone_phone_call'' VNone),
     (0x17d54f61, Tuple3 None ''phone_received_call'' VNone),
     (0x42ff96ed, Tuple3 None ''phone_request_call'' VNone),
     (0x5b95b3d4, Tuple3 None ''phone_request_call_v_5_5_0'' VNone),
     (0x277add7e, Tuple3 None ''phone_save_call_debug'' VNone),
     (0x59ead627, Tuple3 None ''phone_set_call_rating'' VNone),
     (0x1c536a34, Tuple3 None ''phone_set_call_rating_v_5_5_0'' VNone),
     (0x98e3cdba, Tuple3 None ''phone_upgrade_phone_call'' VNone),
     (0xfb197a65, Tuple3 (Some ''photo_struct'') ''photo'' VNone),
     (0xe9a734fa, Tuple3 (Some ''photo_cached_size_struct'') ''photo_cached_size'' VNone),
     (0x2331b22d, Tuple3 (Some ''photo_empty_struct'') ''photo_empty'' VNone),
     (0xd07504a5, Tuple3 (Some ''photo_layer115_struct'') ''photo_layer115'' VNone),
     (0x77bfb61b, Tuple3 (Some ''photo_size_struct'') ''photo_size'' VNone),
     (0x0e17e23c, Tuple3 (Some ''photo_size_empty_struct'') ''photo_size_empty'' VNone),
     (0xcded42fe, Tuple3 (Some ''photo_layer55_struct'') ''photo_layer55'' VNone),
     (0x9288dd29, Tuple3 (Some ''photo_layer82_struct'') ''photo_layer82'' VNone),
     (0x9c477dd8, Tuple3 (Some ''photo_layer97_struct'') ''photo_layer97'' VNone),
     (0x22b56751, Tuple3 (Some ''photo_old_struct'') ''photo_old'' VNone),
     (0xc3838076, Tuple3 (Some ''photo_old2_struct'') ''photo_old2'' VNone),
     (0xe0b0bc2e, Tuple3 (Some ''photo_stripped_size_struct'') ''photo_stripped_size'' VNone),
     (0x87cf7f2f, Tuple3 None ''photos_delete_photos'' VNone),
     (0x91cd32a8, Tuple3 None ''photos_get_user_photos'' VNone),
     (0xb7ee553c, Tuple2 None ''photos_get_user_photos_v_0_1_317''),
     (0x20212ca8, Tuple3 None ''photos_photo'' VNone),
     (0x8dca6aa5, Tuple3 None ''photos_photos'' VNone),
     (0x15051f54, Tuple3 None ''photos_photos_slice'' VNone),
     (0x72d4742c, Tuple3 None ''photos_update_profile_photo'' VNone),
     (0xeef579a0, Tuple2 None ''photos_update_profile_photo_v_0_1_317''),
     (0xf0bb5152, Tuple3 None ''photos_update_profile_photo_v_5_15_0'' VNone),
     (0x89f30f69, Tuple3 None ''photos_upload_profile_photo'' VNone),
     (0xd50f9c88, Tuple2 None ''photos_upload_profile_photo_v_0_1_317''),
     (0x4f32c098, Tuple3 None ''photos_upload_profile_photo_v_5_15_0'' VNone),
     (0x7abe77ec, Tuple2 None ''ping_v_0_1_317''),
     (0x86e18161, Tuple3 (Some ''poll_struct'') ''poll'' VNone),
     (0x6ca9c2e9, Tuple3 (Some ''poll_answer_struct'') ''poll_answer'' VNone),
     (0x3b6ddad2, Tuple3 (Some ''poll_answer_voters_struct'') ''poll_answer_voters'' VNone),
     (0xd5529d06, Tuple3 (Some ''poll_layer111_struct'') ''poll_layer111'' VNone),
     (0xbadcc1a3, Tuple3 (Some ''poll_results_struct'') ''poll_results'' VNone),
     (0x5755785a, Tuple3 (Some ''poll_results_layer108_struct'') ''poll_results_layer108'' VNone),
     (0xc87024a2, Tuple3 (Some ''poll_results_layer111_struct'') ''poll_results_layer111'' VNone),
     (0xaf746786, Tuple3 (Some ''poll_to_delete_struct'') ''poll_to_delete'' VNone),
     (0x347773c5, Tuple2 None ''pong_v_0_1_317''),
     (0x5ce14175, Tuple3 None ''popular_contact'' VNone),
     (0x1e8caaeb, Tuple3 None ''post_address'' VNone),
     (0x42ffd42b, Tuple3 None ''privacy_key_added_by_phone'' VNone),
     (0x500e6dfa, Tuple3 None ''privacy_key_chat_invite'' VNone),
     (0x69ec56a3, Tuple3 None ''privacy_key_forwards'' VNone),
     (0x3d662b7b, Tuple3 None ''privacy_key_phone_call'' VNone),
     (0xd19ae46d, Tuple3 None ''privacy_key_phone_number'' VNone),
     (0x39491cc8, Tuple3 None ''privacy_key_phone_p2p'' VNone),
     (0x96151fed, Tuple3 None ''privacy_key_profile_photo'' VNone),
     (0xbc2eab30, Tuple3 None ''privacy_key_status_timestamp'' VNone),
     (0x65427b82, Tuple3 None ''privacy_value_allow_all'' VNone),
     (0x18be796b, Tuple3 None ''privacy_value_allow_chat_participants'' VNone),
     (0xfffe1bac, Tuple3 None ''privacy_value_allow_contacts'' VNone),
     (0x4d5bbe0c, Tuple3 None ''privacy_value_allow_users'' VNone),
     (0x8b73e763, Tuple3 None ''privacy_value_disallow_all'' VNone),
     (0xacae0690, Tuple3 None ''privacy_value_disallow_chat_participants'' VNone),
     (0xf888fa1a, Tuple3 None ''privacy_value_disallow_contacts'' VNone),
     (0x0c7f49b7, Tuple3 None ''privacy_value_disallow_users'' VNone),
     (0x5bb8e511, Tuple2 None ''proto_message_v_0_1_317''),
     (0x6fb250d1, Tuple3 (Some ''reaction_count_struct'') ''reaction_count'' VNone),
     (0xa384b779, Tuple3 None ''received_notify_message'' VNone),
     (0xa01b22f9, Tuple3 None ''recent_me_url_chat'' VNone),
     (0xeb49081d, Tuple3 None ''recent_me_url_chat_invite'' VNone),
     (0xbc0a57dc, Tuple3 None ''recent_me_url_sticker_set'' VNone),
     (0x46e1d13d, Tuple3 None ''recent_me_url_unknown'' VNone)]"

text \<open>tblob.py, lines 6968 to 7067.\<close>

definition tdss_callbacks_14 :: "(int \<times> blob_tuple) list" where
  "tdss_callbacks_14 = [
     (0x8dbc3336, Tuple3 None ''recent_me_url_user'' VNone),
     (0x48a30254, Tuple3 (Some ''reply_inline_markup_struct'') ''reply_inline_markup'' VNone),
     (0xf4108aa0, Tuple3 (Some ''reply_keyboard_force_reply_struct'') ''reply_keyboard_force_reply'' VNone),
     (0xa03e5b85, Tuple3 (Some ''reply_keyboard_hide_struct'') ''reply_keyboard_hide'' VNone),
     (0x3502758c, Tuple3 (Some ''reply_keyboard_markup_struct'') ''reply_keyboard_markup'' VNone),
     (0xd712e4be, Tuple2 None ''req_dh_params_v_0_1_317''),
     (0x60469778, Tuple2 None ''req_pq_v_0_1_317''),
     (0x05162463, Tuple2 None ''res_pq_v_0_1_317''),
     (0xd072acb4, Tuple3 (Some ''restriction_reason_struct'') ''restriction_reason'' VNone),
     (0xa43ad8b7, Tuple2 None ''rpc_answer_dropped_v_0_1_317''),
     (0xcd78e586, Tuple2 None ''rpc_answer_dropped_running_v_0_1_317''),
     (0x5e2ad36e, Tuple2 None ''rpc_answer_unknown_v_0_1_317''),
     (0x58e4a740, Tuple2 None ''rpc_drop_answer_v_0_1_317''),
     (0x2144ca19, Tuple2 None ''rpc_error_v_0_1_317''),
     (0x7ae432f5, Tuple2 None ''rpc_req_error_v_0_1_317''),
     (0xf35c6d01, Tuple2 None ''rpc_result_v_0_1_317''),
     (0x33f0ea47, Tuple3 None ''secure_credentials_encrypted'' VNone),
     (0x8aeabec3, Tuple3 None ''secure_data'' VNone),
     (0xe0277a62, Tuple3 None ''secure_file'' VNone),
     (0x64199744, Tuple3 None ''secure_file_empty'' VNone),
     (0xbbf2dda0, Tuple3 None ''secure_password_kdf_algo_pbkdf2_hmac_sha512_iter100000'' VNone),
     (0x86471d92, Tuple3 None ''secure_password_kdf_algo_sha512'' VNone),
     (0x004a8537, Tuple3 None ''secure_password_kdf_algo_unknown'' VNone),
     (0x21ec5a5f, Tuple3 None ''secure_plain_email'' VNone),
     (0x7d6099dd, Tuple3 None ''secure_plain_phone'' VNone),
     (0x829d99da, Tuple3 None ''secure_required_type'' VNone),
     (0x027477b4, Tuple3 None ''secure_required_type_one_of'' VNone),
     (0x1527bcac, Tuple3 None ''secure_secret_settings'' VNone),
     (0x187fa0ca, Tuple3 None ''secure_value'' VNone),
     (0x869d758f, Tuple3 None ''secure_value_error'' VNone),
     (0xe8a40bd9, Tuple3 None ''secure_value_error_data'' VNone),
     (0x7a700873, Tuple3 None ''secure_value_error_file'' VNone),
     (0x666220e9, Tuple3 None ''secure_value_error_files'' VNone),
     (0x00be3dfa, Tuple3 None ''secure_value_error_front_side'' VNone),
     (0x868a2aa5, Tuple3 None ''secure_value_error_reverse_side'' VNone),
     (0xe537ced6, Tuple3 None ''secure_value_error_selfie'' VNone),
     (0xa1144770, Tuple3 None ''secure_value_error_translation_file'' VNone),
     (0x34636dd8, Tuple3 None ''secure_value_error_translation_files'' VNone),
     (0xed1ecdb0, Tuple3 None ''secure_value_hash'' VNone),
     (0xcbe31e26, Tuple3 (Some ''secure_value_type_address_struct'') ''secure_value_type_address'' VNone),
     (0x89137c0d, Tuple3 (Some ''secure_value_type_bank_statement_struct'') ''secure_value_type_bank_statement'' VNone),
     (0x06e425c4, Tuple3 (Some ''secure_value_type_driver_license_struct'') ''secure_value_type_driver_license'' VNone),
     (0x8e3ca7ee, Tuple3 (Some ''secure_value_type_email_struct'') ''secure_value_type_email'' VNone),
     (0xa0d0744b, Tuple3 (Some ''secure_value_type_identity_card_struct'') ''secure_value_type_identity_card'' VNone),
     (0x99a48f23, Tuple3 (Some ''secure_value_type_internal_passport_struct'') ''secure_value_type_internal_passport'' VNone),
     (0x3dac6a00, Tuple3 (Some ''secure_value_type_passport_struct'') ''secure_value_type_passport'' VNone),
     (0x99e3806a, Tuple3 (Some ''secure_value_type_passport_registration_struct'') ''secure_value_type_passport_registration'' VNone),
     (0x9d2a81e3, Tuple3 (Some ''secure_value_type_personal_details_struct'') ''secure_value_type_personal_details'' VNone),
     (0xb320aadb, Tuple3 (Some ''secure_value_type_phone_struct'') ''secure_value_type_phone'' VNone),
     (0x8b883488, Tuple3 (Some ''secure_value_type_rental_agreement_struct'') ''secure_value_type_rental_agreement'' VNone),
     (0xea02ec33, Tuple3 (Some ''secure_value_type_temporary_registration_struct'') ''secure_value_type_temporary_registration'' VNone),
     (0xfc36954e, Tuple3 (Some ''secure_value_type_utility_bill_struct'') ''secure_value_type_utility_bill'' VNone),
     (0xfd5ec8f5, Tuple3 (Some ''send_message_cancel_action_struct'') ''send_message_cancel_action'' VNone),
     (0x628cbc6f, Tuple3 (Some ''send_message_choose_contact_action_struct'') ''send_message_choose_contact_action'' VNone),
     (0xdd6a8f48, Tuple3 (Some ''send_message_game_play_action_struct'') ''send_message_game_play_action'' VNone),
     (0x176f8ba1, Tuple3 (Some ''send_message_geo_location_action_struct'') ''send_message_geo_location_action'' VNone),
     (0xd52f73f7, Tuple3 (Some ''send_message_record_audio_action_struct'') ''send_message_record_audio_action'' VNone),
     (0x88f27fbc, Tuple3 (Some ''send_message_record_round_action_struct'') ''send_message_record_round_action'' VNone),
     (0xa187d66f, Tuple3 (Some ''send_message_record_video_action_struct'') ''send_message_record_video_action'' VNone),
     (0x16bf744e, Tuple3 (Some ''send_message_typing_action_struct'') ''send_message_typing_action'' VNone),
     (0xf351d7ab, Tuple3 (Some ''send_message_upload_audio_action_struct'') ''send_message_upload_audio_action'' VNone),
     (0xe6ac8a6f, Tuple3 (Some ''send_message_upload_audio_action_old_struct'') ''send_message_upload_audio_action_old'' VNone),
     (0xaa0cd9e4, Tuple3 (Some ''send_message_upload_document_action_struct'') ''send_message_upload_document_action'' VNone),
     (0x8faee98e, Tuple3 (Some ''send_message_upload_document_action_old_struct'') ''send_message_upload_document_action_old'' VNone),
     (0xd1d34a26, Tuple3 (Some ''send_message_upload_photo_action_struct'') ''send_message_upload_photo_action'' VNone),
     (0x990a3c1a, Tuple3 (Some ''send_message_upload_photo_action_old_struct'') ''send_message_upload_photo_action_old'' VNone),
     (0x243e1c66, Tuple3 (Some ''send_message_upload_round_action_struct'') ''send_message_upload_round_action'' VNone),
     (0xe9763aec, Tuple3 (Some ''send_message_upload_video_action_struct'') ''send_message_upload_video_action'' VNone),
     (0x92042ff7, Tuple3 (Some ''send_message_upload_video_action_old_struct'') ''send_message_upload_video_action_old'' VNone),
     (0xb5890dba, Tuple2 None ''server_dh_inner_data_v_0_1_317''),
     (0x79cb045d, Tuple2 None ''server_dh_params_fail_v_0_1_317''),
     (0xd0e8075c, Tuple2 None ''server_dh_params_ok_v_0_1_317''),
     (0xf5045f1f, Tuple2 None ''set_client_dh_params_v_0_1_317''),
     (0xb6213cdf, Tuple3 None ''shipping_option'' VNone),
     (0xcb43acde, Tuple3 None ''stats_abs_value_and_prev'' VNone),
     (0xbdf78394, Tuple3 None ''stats_broadcast_stats'' VNone),
     (0xb637edaf, Tuple3 None ''stats_date_range_days'' VNone),
     (0xab42441a, Tuple3 None ''stats_get_broadcast_stats'' VNone),
     (0xdcdf8607, Tuple3 None ''stats_get_megagroup_stats'' VNone),
     (0x4a27eb2d, Tuple3 None ''stats_graph_async'' VNone),
     (0xbedc9822, Tuple3 None ''stats_graph_error'' VNone),
     (0x8ea464b6, Tuple3 None ''stats_graph'' VNone),
     (0x6014f412, Tuple3 None ''stats_group_top_admin'' VNone),
     (0x31962a4c, Tuple3 None ''stats_group_top_inviter'' VNone),
     (0x18f3d0f7, Tuple3 None ''stats_group_top_poster'' VNone),
     (0x621d5fa0, Tuple3 None ''stats_load_async_graph'' VNone),
     (0xef7ff916, Tuple3 None ''stats_megagroup_stats'' VNone),
     (0xcbce2fe0, Tuple3 None ''stats_percent_value'' VNone),
     (0x47a971e0, Tuple3 None ''stats_url'' VNone),
     (0x12b299d4, Tuple3 None ''sticker_pack'' VNone),
     (0xeeb46f27, Tuple3 None ''sticker_set'' VNone),
     (0x6410a5d2, Tuple3 None ''sticker_set_covered'' VNone),
     (0x3407e51b, Tuple3 None ''sticker_set_multi_covered'' VNone),
     (0xcd303b41, Tuple3 None ''sticker_set_layer75'' VNone),
     (0x5585a139, Tuple3 None ''sticker_set_layer96'' VNone),
     (0x6a90bcb7, Tuple3 None ''sticker_set_layer97'' VNone),
     (0xa7a43b17, Tuple3 None ''sticker_set_old'' VNone),
     (0xcae1aadf, Tuple3 None ''storage_file_gif'' VNone),
     (0x007efe0e, Tuple3 None ''storage_file_jpeg'' VNone),
     (0x4b09ebbc, Tuple3 None ''storage_file_mov'' VNone)]"

text \<open>tblob.py, lines 7068 to 7167.\<close>

definition tdss_callbacks_15 :: "(int \<times> blob_tuple) list" where
  "tdss_callbacks_15 = [
     (0x528a0677, Tuple3 None ''storage_file_mp3'' VNone),
     (0xb3cea0e4, Tuple3 None ''storage_file_mp4'' VNone),
     (0x40bc6f52, Tuple3 None ''storage_file_partial'' VNone),
     (0xae1e508d, Tuple3 None ''storage_file_pdf'' VNone),
     (0x0a4f63c0, Tuple3 None ''storage_file_png'' VNone),
     (0xaa963b05, Tuple3 None ''storage_file_unknown'' VNone),
     (0x1081464c, Tuple3 None ''storage_file_webp'' VNone),
     (0x35553762, Tuple3 (Some ''text_anchor_struct'') ''text_anchor'' VNone),
     (0x6724abc4, Tuple3 (Some ''text_bold_struct'') ''text_bold'' VNone),
     (0x7e6260d7, Tuple3 (Some ''text_concat_struct'') ''text_concat'' VNone),
     (0xde5a0dd6, Tuple3 (Some ''text_email_struct'') ''text_email'' VNone),
     (0xdc3d824f, Tuple3 (Some ''text_empty_struct'') ''text_empty'' VNone),
     (0x6c3f19b9, Tuple3 (Some ''text_fixed_struct'') ''text_fixed'' VNone),
     (0x081ccf4f, Tuple3 (Some ''text_image_struct'') ''text_image'' VNone),
     (0xd912a59c, Tuple3 (Some ''text_italic_struct'') ''text_italic'' VNone),
     (0x034b8621, Tuple3 (Some ''text_marked_struct'') ''text_marked'' VNone),
     (0x1ccb966a, Tuple3 (Some ''text_phone_struct'') ''text_phone'' VNone),
     (0x744694e0, Tuple3 (Some ''text_plain_struct'') ''text_plain'' VNone),
     (0x9bf8bb95, Tuple3 (Some ''text_strike_struct'') ''text_strike'' VNone),
     (0xed6a8504, Tuple3 (Some ''text_subscript_struct'') ''text_subscript'' VNone),
     (0xc7fb5e01, Tuple3 (Some ''text_superscript_struct'') ''text_superscript'' VNone),
     (0xc12622c4, Tuple3 (Some ''text_underline_struct'') ''text_underline'' VNone),
     (0x3c2884c1, Tuple3 (Some ''text_url_struct'') ''text_url'' VNone),
     (0x028f1114, Tuple3 None ''theme'' VNone),
     (0x483d270c, Tuple3 None ''theme_document_not_modified_layer106'' VNone),
     (0x9c14984a, Tuple3 (Some ''theme_settings_struct'') ''theme_settings'' VNone),
     (0xf7d90ce0, Tuple3 None ''theme_layer106'' VNone),
     (0xedcdc05b, Tuple3 None ''top_peer'' VNone),
     (0x148677e2, Tuple3 None ''top_peer_category_bots_inline'' VNone),
     (0xab661b5b, Tuple3 None ''top_peer_category_bots_p_m'' VNone),
     (0x161d9628, Tuple3 None ''top_peer_category_channels'' VNone),
     (0x0637b7ed, Tuple3 None ''top_peer_category_correspondents'' VNone),
     (0xfbeec0f0, Tuple3 None ''top_peer_category_forward_chats'' VNone),
     (0xa8406ca9, Tuple3 None ''top_peer_category_forward_users'' VNone),
     (0xbd17a14a, Tuple3 None ''top_peer_category_groups'' VNone),
     (0xfb834291, Tuple3 None ''top_peer_category_peers'' VNone),
     (0x1e76a78c, Tuple3 None ''top_peer_category_phone_calls'' VNone),
     (0x6f690963, Tuple2 None ''update_activation_v_0_1_317''),
     (0xb6d45656, Tuple3 None ''update_channel'' VNone),
     (0x70db6837, Tuple3 None ''update_channel_available_messages'' VNone),
     (0x98a12b4b, Tuple3 None ''update_channel_message_views'' VNone),
     (0x65d2b464, Tuple3 None ''update_channel_participant'' VNone),
     (0x98592475, Tuple3 None ''update_channel_pinned_message'' VNone),
     (0x89893b45, Tuple3 None ''update_channel_read_messages_contents'' VNone),
     (0xeb0467fb, Tuple3 None ''update_channel_too_long'' VNone),
     (0x40771900, Tuple3 None ''update_channel_web_page'' VNone),
     (0x54c01850, Tuple3 None ''update_chat_default_banned_rights'' VNone),
     (0xea4b0e5c, Tuple3 None ''update_chat_participant_add'' VNone),
     (0x3a0eeb22, Tuple2 None ''update_chat_participant_add_v_0_1_317''),
     (0xb6901959, Tuple3 None ''update_chat_participant_admin'' VNone),
     (0x6e5f8c22, Tuple3 None ''update_chat_participant_delete'' VNone),
     (0x07761198, Tuple3 None ''update_chat_participants'' VNone),
     (0xe10db349, Tuple3 None ''update_chat_pinned_message'' VNone),
     (0x9a65ea1f, Tuple3 None ''update_chat_user_typing'' VNone),
     (0x3c46cfe6, Tuple2 None ''update_chat_user_typing_v_0_1_317''),
     (0xa229dd06, Tuple3 None ''update_config'' VNone),
     (0x9d2e67c5, Tuple3 None ''update_contact_link'' VNone),
     (0x51a48a9a, Tuple2 None ''update_contact_link_v_0_1_317''),
     (0x2575bbb9, Tuple2 None ''update_contact_registered_v_0_1_317''),
     (0x7084a7be, Tuple3 None ''update_contacts_reset'' VNone),
     (0x8e5e9873, Tuple3 None ''update_dc_options'' VNone),
     (0xc37521c9, Tuple3 None ''update_delete_channel_messages'' VNone),
     (0xa20db0e5, Tuple3 None ''update_delete_messages'' VNone),
     (0xa92bfe26, Tuple2 None ''update_delete_messages_v_0_1_317''),
     (0x90866cee, Tuple3 None ''update_delete_scheduled_messages'' VNone),
     (0x26ffde7d, Tuple3 None ''update_dialog_filter'' VNone),
     (0xa5d72105, Tuple3 None ''update_dialog_filter_order'' VNone),
     (0x3504914f, Tuple3 None ''update_dialog_filters'' VNone),
     (0x6e6fe51c, Tuple3 None ''update_dialog_pinned'' VNone),
     (0x19d27f3c, Tuple3 None ''update_dialog_pinned_v_5_5_0'' VNone),
     (0xe16459c3, Tuple3 None ''update_dialog_unread_mark'' VNone),
     (0xee2bb969, Tuple3 None ''update_draft_message'' VNone),
     (0x1b3f4df7, Tuple3 None ''update_edit_channel_message'' VNone),
     (0xe40370a3, Tuple3 None ''update_edit_message'' VNone),
     (0x1710f156, Tuple3 None ''update_encrypted_chat_typing'' VNone),
     (0x38fe25b7, Tuple3 None ''update_encrypted_messages_read'' VNone),
     (0xb4a2e88d, Tuple3 None ''update_encryption'' VNone),
     (0xe511996d, Tuple3 None ''update_faved_stickers'' VNone),
     (0x19360dc0, Tuple3 None ''update_folder_peers'' VNone),
     (0x871fb939, Tuple3 None ''update_geo_live_viewed'' VNone),
     (0x85fe86ed, Tuple3 None ''update_group_call'' VNone),
     (0x057eaec8, Tuple3 None ''update_group_call_participant'' VNone),
     (0x56022f4d, Tuple3 None ''update_lang_pack'' VNone),
     (0x46560264, Tuple3 None ''update_lang_pack_too_long'' VNone),
     (0x564fe691, Tuple3 None ''update_login_token'' VNone),
     (0x4e90bfd6, Tuple3 None ''update_message_i_d'' VNone),
     (0xaca1657b, Tuple3 None ''update_message_poll'' VNone),
     (0x154798c3, Tuple3 None ''update_message_reactions'' VNone),
     (0x8f06529a, Tuple2 None ''update_new_authorization_v_0_1_317''),
     (0x62ba04d9, Tuple3 None ''update_new_channel_message'' VNone),
     (0x12bcbd9a, Tuple3 None ''update_new_encrypted_message'' VNone),
     (0x5a68e3f7, Tuple2 None ''update_new_geo_chat_message_v_0_1_317''),
     (0x1f2b0afd, Tuple3 None ''update_new_message'' VNone),
     (0x013abdb3, Tuple2 None ''update_new_message_v_0_1_317''),
     (0x39a51dfb, Tuple3 None ''update_new_scheduled_message'' VNone),
     (0x688a30aa, Tuple3 None ''update_new_sticker_set'' VNone),
     (0xbec268ef, Tuple3 None ''update_notify_settings'' VNone),
     (0xb4afcfb0, Tuple3 None ''update_peer_located'' VNone),
     (0x6a7e7366, Tuple3 None ''update_peer_settings'' VNone),
     (0xab0f6b1e, Tuple3 None ''update_phone_call'' VNone)]"

text \<open>tblob.py, lines 7168 to 7267.\<close>

definition tdss_callbacks_16 :: "(int \<times> blob_tuple) list" where
  "tdss_callbacks_16 = [
     (0x2661bf09, Tuple3 None ''update_phone_call_signaling_data'' VNone),
     (0xfa0f3ca2, Tuple3 None ''update_pinned_dialogs'' VNone),
     (0xea4cb65b, Tuple3 None ''update_pinned_dialogs_v_5_5_0'' VNone),
     (0xee3b272a, Tuple3 None ''update_privacy'' VNone),
     (0x330b5424, Tuple3 None ''update_read_channel_inbox'' VNone),
     (0x4214f37f, Tuple3 None ''update_read_channel_inbox_v_5_5_0'' VNone),
     (0x25d6c9c7, Tuple3 None ''update_read_channel_outbox'' VNone),
     (0x571d2742, Tuple3 None ''update_read_featured_stickers'' VNone),
     (0x9c974fdf, Tuple3 None ''update_read_history_inbox'' VNone),
     (0x9961fd5c, Tuple3 None ''update_read_history_inbox_v_5_5_0'' VNone),
     (0x2f2f21bf, Tuple3 None ''update_read_history_outbox'' VNone),
     (0x68c13933, Tuple3 None ''update_read_messages_contents'' VNone),
     (0xc6649e31, Tuple2 None ''update_read_messages_v_0_1_317''),
     (0x9a422c20, Tuple3 None ''update_recent_stickers'' VNone),
     (0xd15de04d, Tuple2 None ''update_restore_messages_v_0_1_317''),
     (0x9375341e, Tuple3 None ''update_saved_gifs'' VNone),
     (0xebe46819, Tuple3 None ''update_service_notification'' VNone),
     (0x78d4dec1, Tuple3 None ''update_short'' VNone),
     (0x16812688, Tuple3 None ''update_short_chat_message'' VNone),
     (0x2b2fbd4e, Tuple2 None ''update_short_chat_message_v_0_1_317''),
     (0x914fbf11, Tuple3 None ''update_short_message'' VNone),
     (0xd3f45784, Tuple2 None ''update_short_message_v_0_1_317''),
     (0x11f1331c, Tuple3 None ''update_short_sent_message'' VNone),
     (0x43ae3dec, Tuple3 None ''update_sticker_sets'' VNone),
     (0x0bb2d201, Tuple3 None ''update_sticker_sets_order'' VNone),
     (0x8216fba3, Tuple3 None ''update_theme'' VNone),
     (0x80ece81a, Tuple3 None ''update_user_blocked'' VNone),
     (0xa7332b73, Tuple3 None ''update_user_name'' VNone),
     (0xda22d9ad, Tuple2 None ''update_user_name_v_0_1_317''),
     (0x12b9417b, Tuple3 None ''update_user_phone'' VNone),
     (0x95313b0c, Tuple3 None ''update_user_photo'' VNone),
     (0x4c43da18, Tuple3 None ''update_user_pinned_message'' VNone),
     (0x1bfbd823, Tuple3 None ''update_user_status'' VNone),
     (0x5c486927, Tuple3 None ''update_user_typing'' VNone),
     (0x6baa8508, Tuple2 None ''update_user_typing_v_0_1_317''),
     (0x7f891213, Tuple3 None ''update_web_page'' VNone),
     (0x74ae4240, Tuple3 None ''updates'' VNone),
     (0x725b04c3, Tuple3 None ''updates_combined'' VNone),
     (0xe317af7e, Tuple3 None ''updates_too_long'' VNone),
     (0x2064674e, Tuple3 None ''updates_channel_difference'' VNone),
     (0x3e11affb, Tuple3 None ''updates_channel_difference_empty'' VNone),
     (0xa4bcc6fe, Tuple3 None ''updates_channel_difference_too_long'' VNone),
     (0x6a9d7b35, Tuple3 None ''updates_channel_difference_too_long_v_5_5_0'' VNone),
     (0x00f49ca0, Tuple3 None ''updates_difference'' VNone),
     (0x5d75a138, Tuple3 None ''updates_difference_empty'' VNone),
     (0xa8fb1981, Tuple3 None ''updates_difference_slice'' VNone),
     (0x4afe8f6d, Tuple3 None ''updates_difference_too_long'' VNone),
     (0x03173d78, Tuple3 None ''updates_get_channel_difference'' VNone),
     (0x25939651, Tuple3 None ''updates_get_difference'' VNone),
     (0x0a041495, Tuple2 None ''updates_get_difference_v_0_1_317''),
     (0xedd4882a, Tuple3 None ''updates_get_state'' VNone),
     (0xa56c2a3e, Tuple3 None ''updates_state'' VNone),
     (0xa99fca4f, Tuple3 None ''upload_cdn_file'' VNone),
     (0xeea8e46e, Tuple3 None ''upload_cdn_file_reupload_needed'' VNone),
     (0x096a18d5, Tuple3 None ''upload_file'' VNone),
     (0xf18cda44, Tuple3 None ''upload_file_cdn_redirect'' VNone),
     (0x2000bcc3, Tuple3 None ''upload_get_cdn_file'' VNone),
     (0x4da54231, Tuple3 None ''upload_get_cdn_file_hashes'' VNone),
     (0xb15a9afc, Tuple3 None ''upload_get_file'' VNone),
     (0xe3a6cfb5, Tuple3 None ''upload_get_file_v_5_6_2'' VNone),
     (0xc7025931, Tuple3 None ''upload_get_file_hashes'' VNone),
     (0x24e6818d, Tuple3 None ''upload_get_web_file'' VNone),
     (0x9b2754a8, Tuple3 None ''upload_reupload_cdn_file'' VNone),
     (0xde7b673d, Tuple3 None ''upload_save_big_file_part'' VNone),
     (0xb304a621, Tuple3 None ''upload_save_file_part'' VNone),
     (0x21e753bc, Tuple3 None ''upload_web_file'' VNone),
     (0x8f8c0e4e, Tuple3 None ''url_auth_result_accepted'' VNone),
     (0xa9d6db1f, Tuple3 None ''url_auth_result_default'' VNone),
     (0x92d33a0e, Tuple3 None ''url_auth_result_request'' VNone),
     (0x938458c1, Tuple3 (Some ''user_struct'') ''user'' VNone),
     (0xf2fb8319, Tuple3 (Some ''user_contact_old_struct'') ''user_contact_old'' VNone),
     (0xcab35e18, Tuple3 (Some ''user_contact_old2_struct'') ''user_contact_old2'' VNone),
     (0xb29ad7cc, Tuple3 (Some ''user_deleted_old_struct'') ''user_deleted_old'' VNone),
     (0xd6016d7a, Tuple3 (Some ''user_deleted_old2_struct'') ''user_deleted_old2'' VNone),
     (0x200250ba, Tuple3 (Some ''user_empty_struct'') ''user_empty'' VNone),
     (0x5214c89d, Tuple3 (Some ''user_foreign_old_struct'') ''user_foreign_old'' VNone),
     (0x075cf7a8, Tuple3 (Some ''user_foreign_old2_struct'') ''user_foreign_old2'' VNone),
     (0xedf17c12, Tuple3 (Some ''user_full_struct'') ''user_full'' VNone),
     (0x745559cc, Tuple3 (Some ''user_full_layer101_struct'') ''user_full_layer101'' VNone),
     (0x8ea4a881, Tuple3 (Some ''user_full_layer98_struct'') ''user_full_layer98'' VNone),
     (0x771095da, Tuple2 None ''user_full_v_0_1_317''),
     (0x2e13f4c3, Tuple3 (Some ''user_layer104_struct'') ''user_layer104'' VNone),
     (0xd10d979a, Tuple3 (Some ''user_layer65_struct'') ''user_layer65'' VNone),
     (0x69d3ab26, Tuple3 (Some ''user_profile_photo_struct'') ''user_profile_photo'' VNone),
     (0x4f11bae1, Tuple3 (Some ''user_profile_photo_empty_struct'') ''user_profile_photo_empty'' VNone),
     (0xd559d8c8, Tuple3 (Some ''user_profile_photo_layer97_struct'') ''user_profile_photo_layer97'' VNone),
     (0xecd75d8c, Tuple3 (Some ''user_profile_photo_layer115_struct'') ''user_profile_photo_layer115'' VNone),
     (0x990d1493, Tuple3 (Some ''user_profile_photo_old_struct'') ''user_profile_photo_old'' VNone),
     (0x22e8ceb0, Tuple3 (Some ''user_request_old_struct'') ''user_request_old'' VNone),
     (0xd9ccc4ef, Tuple3 (Some ''user_request_old2_struct'') ''user_request_old2'' VNone),
     (0x720535ec, Tuple3 (Some ''user_self_old_struct'') ''user_self_old'' VNone),
     (0x7007b451, Tuple3 (Some ''user_self_old2_struct'') ''user_self_old2'' VNone),
     (0x1c60e608, Tuple3 (Some ''user_self_old3_struct'') ''user_self_old3'' VNone),
     (0x09d05049, Tuple3 (Some ''user_status_empty_struct'') ''user_status_empty'' VNone),
     (0x77ebc742, Tuple3 (Some ''user_status_last_month_struct'') ''user_status_last_month'' VNone),
     (0x07bf09fc, Tuple3 (Some ''user_status_last_week_struct'') ''user_status_last_week'' VNone),
     (0x008c703f, Tuple3 (Some ''user_status_offline_struct'') ''user_status_offline'' VNone),
     (0xedb93949, Tuple3 (Some ''user_status_online_struct'') ''user_status_online'' VNone),
     (0xe26f42f1, Tuple3 (Some ''user_status_recently_struct'') ''user_status_recently'' VNone),
     (0x22e49072, Tuple3 (Some ''user_old_struct'') ''user_old'' VNone)]"

text \<open>tblob.py, lines 7268 to 7304.\<close>

definition tdss_callbacks_17 :: "(int \<times> blob_tuple) list" where
  "tdss_callbacks_17 = [
     (0xca30a5b1, Tuple3 None ''users_get_full_user'' VNone),
     (0x0d91a548, Tuple3 None ''users_get_users'' VNone),
     (0xc10658a8, Tuple3 (Some ''video_empty_layer45_struct'') ''video_empty_layer45'' VNone),
     (0x55555553, Tuple3 (Some ''video_encrypted_struct'') ''video_encrypted'' VNone),
     (0xf72887d3, Tuple3 (Some ''video_layer45_struct'') ''video_layer45'' VNone),
     (0x5a04a49f, Tuple3 (Some ''video_old_struct'') ''video_old'' VNone),
     (0x388fa391, Tuple3 (Some ''video_old2_struct'') ''video_old2'' VNone),
     (0xee9f4a4d, Tuple3 (Some ''video_old3_struct'') ''video_old3'' VNone),
     (0xe831c556, Tuple3 (Some ''video_size_struct'') ''video_size'' VNone),
     (0x435bb987, Tuple3 (Some ''video_size_layer115_struct'') ''video_size_layer115'' VNone),
     (0xa437c3ed, Tuple3 (Some ''wall_paper_struct'') ''wall_paper'' VNone),
     (0xf04f91ec, Tuple3 (Some ''wall_paper_layer94_struct'') ''wall_paper_layer94'' VNone),
     (0x8af40b25, Tuple3 (Some ''wall_paper_no_file_struct'') ''wall_paper_no_file'' VNone),
     (0x05086cf8, Tuple3 (Some ''wall_paper_settings_struct'') ''wall_paper_settings'' VNone),
     (0xa12f40b8, Tuple3 (Some ''wall_paper_settings_layer106_struct'') ''wall_paper_settings_layer106'' VNone),
     (0x63117f24, Tuple2 None ''wall_paper_solid_v_0_1_317''),
     (0xccb03657, Tuple2 None ''wall_paper_v_0_1_317''),
     (0x0b57f346, Tuple3 None ''wallet_get_key_secret_salt'' VNone),
     (0x764386d7, Tuple3 None ''wallet_lite_response'' VNone),
     (0xdd484d64, Tuple3 None ''wallet_secret_salt'' VNone),
     (0xe2c9d33e, Tuple3 None ''wallet_send_lite_request'' VNone),
     (0xcac943f2, Tuple3 None ''web_authorization'' VNone),
     (0x1c570ed1, Tuple3 (Some ''web_document_struct'') ''web_document'' VNone),
     (0xf9c8bcc6, Tuple3 (Some ''web_document_no_proxy_struct'') ''web_document_no_proxy'' VNone),
     (0xc61acbd8, Tuple3 (Some ''web_document_layer81_struct'') ''web_document_layer81'' VNone),
     (0xe89c45b2, Tuple3 (Some ''web_page_struct'') ''web_page'' VNone),
     (0x54b56617, Tuple3 (Some ''web_page_attribute_theme_struct'') ''web_page_attribute_theme'' VNone),
     (0xeb1477e8, Tuple3 (Some ''web_page_empty_struct'') ''web_page_empty'' VNone),
     (0x5f07b4bc, Tuple3 (Some ''web_page_layer104_struct'') ''web_page_layer104'' VNone),
     (0xfa64e172, Tuple3 (Some ''web_page_layer107_struct'') ''web_page_layer107'' VNone),
     (0xca820ed7, Tuple3 (Some ''web_page_layer58_struct'') ''web_page_layer58'' VNone),
     (0x7311ca11, Tuple3 (Some ''web_page_not_modified_struct'') ''web_page_not_modified'' VNone),
     (0x85849473, Tuple3 (Some ''web_page_not_modified_layer110_struct'') ''web_page_not_modified_layer110'' VNone),
     (0xc586da1c, Tuple3 (Some ''web_page_pending_struct'') ''web_page_pending'' VNone),
     (0xd41a5167, Tuple3 (Some ''web_page_url_pending_struct'') ''web_page_url_pending'' VNone),
     (0xa31ea0b5, Tuple3 (Some ''web_page_old_struct'') ''web_page_old'' VNone),
     (0x1cb5c415, Tuple3 None ''_vector'' VNone)]"

definition tdss_callbacks :: "(int \<times> blob_tuple) list" where
  "tdss_callbacks =
     tdss_callbacks_01 @ tdss_callbacks_02 @ tdss_callbacks_03 @ tdss_callbacks_04 @
     tdss_callbacks_05 @ tdss_callbacks_06 @ tdss_callbacks_07 @ tdss_callbacks_08 @
     tdss_callbacks_09 @ tdss_callbacks_10 @ tdss_callbacks_11 @ tdss_callbacks_12 @
     tdss_callbacks_13 @ tdss_callbacks_14 @ tdss_callbacks_15 @ tdss_callbacks_16 @
     tdss_callbacks_17"

section \<open>Record decoders of \<^verbatim>\<open>tblob.py\<close>\<close>

text \<open>
  The decoders that the claims name are translated in full, with every decoder they
  reach.  The rest of the program is a parameter: the several hundred other decoder
  methods of the class, looked up by method name, and the standard library's
  \<^verbatim>\<open>datetime.utcfromtimestamp(epoch).isoformat()\<close>.  A decoder method takes no
  context of its caller, since each returns a \<^verbatim>\<open>Struct\<close>.
\<close>

record env =
  isoformat_utc :: "int \<Rightarrow> string"
  other_struct :: "string \<Rightarrow> construct"

text \<open>
  An instance of the parameter for running the dispatcher on decoders that use nothing
  of it: no other method parses anything, and every date renders as the empty text.
\<close>

definition bare_env :: env where
  "bare_env = \<lparr>isoformat_utc = (\<lambda>epoch. []), other_struct = (\<lambda>m. Pass)\<rparr>"

text \<open>tblob.py, lines 90 to 93.\<close>

definition ttimestamp_date :: "env \<Rightarrow> val \<Rightarrow> val outcome" where
  "ttimestamp_date env this =
     (case py_getattr this ''epoch'' of
        Inl e \<Rightarrow> (Inl e, [])
      | Inr (VInt epoch) \<Rightarrow> (Inr (pystr (isoformat_utc env epoch)), [])
      | Inr _ \<Rightarrow> (Inl TypeError, []))"

definition ttimestamp_struct :: "env \<Rightarrow> construct" where
  "ttimestamp_struct env = Struct [
     named ''epoch'' Int32ul,
     named ''date'' (Computed (ttimestamp_date env))]"

subsection \<open>Encrypted chats (lines 1286 to 1297)\<close>

definition encrypted_chat_requested_struct :: "env \<Rightarrow> construct" where
  "encrypted_chat_requested_struct env = Struct [
     named ''sname'' (Computed (const_value (pystr ''encrypted_chat_requested''))),
     named ''signature'' (Hex (Const 0x62718a82 Int32ul)),
     named ''flags'' (FlagsEnum Int32ul [
       (''has_folder_is'', 1)]),
     named ''folder_id'' (If (this2 ''flags'' ''has_folder_id'') Int32ul),
     named ''id'' Int32ul,
     named ''access_hash'' Int64ul,
     named ''date'' (ttimestamp_struct env),
     named ''admin_id'' Int32ul,
     named ''participant_id'' Int32ul,
     named ''g_a'' tbytes_struct]"

subsection \<open>File locations (lines 1384 to 1432)\<close>

definition file_encrypted_location_struct :: construct where
  "file_encrypted_location_struct = Struct [
     named ''sname'' (Computed (const_value (pystr ''file_encrypted_location''))),
     named ''signature'' (Hex (Const 0x55555554 Int32ul)),
     named ''dc_id'' Int32ul,
     named ''volume_id'' Int64ul,
     named ''local_id'' Int32ul,
     named ''secret'' Int64ul,
     named ''key'' tbytes_struct,
     named ''iv'' tbytes_struct]"

definition file_location_unavailable_struct :: construct where
  "file_location_unavailable_struct = Struct [
     named ''sname'' (Computed (const_value (pystr ''file_location_unavailable''))),
     named ''signature'' (Hex (Const 0x7c596b46 Int32ul)),
     named ''volume_id'' Int64ul,
     named ''local_id'' Int32ul,
     named ''secret'' Int64ul]"

definition file_location_layer82_struct :: construct where
  "file_location_layer82_struct = Struct [
     named ''sname'' (Computed (const_value (pystr ''file_location''))),
     named ''signature'' (Hex (Const 0x53d69076 Int32ul)),
     named ''dc_id'' Int32ul,
     named ''volume_id'' Int64ul,
     named ''local_id'' Int32ul,
     named ''secret'' Int64ul]"

definition file_location_layer97_struct :: construct where
  "file_location_layer97_struct = Struct [
     named ''sname'' (Computed (const_value (pystr ''file_location_layer97''))),
     named ''signature'' (Hex (Const 0x091d11eb Int32ul)),
     named ''dc_id'' Int32ul,
     named ''volume_id'' Int64ul,
     named ''local_id'' Int32ul,
     named ''secret'' Int64ul,
     named ''file_reference'' tbytes_struct]"

definition file_location_to_be_deprecated_struct :: construct where
  "file_location_to_be_deprecated_struct = Struct [
     named ''sname'' (Computed (const_value (pystr ''file_location_to_be_deprecated''))),
     named ''signature'' (Hex (Const 0xbc7fc6cd Int32ul)),
     named ''volume_id'' Int64ul,
     named ''local_id'' Int32ul]"

definition file_location_structures :: "string \<Rightarrow> construct" where
  "file_location_structures name = Struct [
     named ''_signature'' (Peek Int32ul),
     named name (Switch (this1 ''_signature'') [
       (0xbc7fc6cd, LazyBound file_location_to_be_deprecated_struct),
       (0x091d11eb, LazyBound file_location_layer97_struct),
       (0x53d69076, LazyBound file_location_layer82_struct),
       (0x55555554, LazyBound file_encrypted_location_struct),
       (0x7c596b46, LazyBound file_location_unavailable_struct)])]"

subsection \<open>Peers (lines 3659 to 3683)\<close>

definition peer_channel_struct :: construct where
  "peer_channel_struct = Struct [
     named ''sname'' (Computed (const_value (pystr ''peer_channel''))),
     named ''signature'' (Hex (Const 0xbddde532 Int32ul)),
     named ''channel_id'' Int32ul]"

definition peer_chat_struct :: construct where
  "peer_chat_struct = Struct [
     named ''sname'' (Computed (const_value (pystr ''peer_chat''))),
     named ''signature'' (Hex (Const 0xbad0e5bb Int32ul)),
     named ''chat_id'' Int32ul]"

definition peer_user_struct :: construct where
  "peer_user_struct = Struct [
     named ''sname'' (Computed (const_value (pystr ''peer_user''))),
     named ''signature'' (Hex (Const 0x9db1bc6d Int32ul)),
     named ''user_id'' Int32ul]"

definition peer_structures :: "string \<Rightarrow> construct" where
  "peer_structures name = Struct [
     named ''_signature'' (Peek Int32ul),
     named name (Switch (this1 ''_signature'') [
       (0xbddde532, LazyBound peer_channel_struct),
       (0xbad0e5bb, LazyBound peer_chat_struct),
       (0x9db1bc6d, LazyBound peer_user_struct)])]"

subsection \<open>Restriction reasons (lines 4252 to 4258)\<close>

definition restriction_reason_struct :: construct where
  "restriction_reason_struct = Struct [
     named ''sname'' (Computed (const_value (pystr ''restriction_reason''))),
     named ''signature'' (Hex (Const 0xd072acb4 Int32ul)),
     named ''platform'' tstring_struct,
     named ''reason'' tstring_struct,
     named ''text'' tstring_struct]"

subsection \<open>Profile photos (lines 5015 to 5065)\<close>

definition user_profile_photo_empty_struct :: construct where
  "user_profile_photo_empty_struct = Struct [
     named ''sname'' (Computed (const_value (pystr ''user_profile_photo_empty''))),
     named ''signature'' (Hex (Const 0x4f11bae1 Int32ul))]"

definition user_profile_photo_layer97_struct :: construct where
  "user_profile_photo_layer97_struct = Struct [
     named ''sname'' (Computed (const_value (pystr ''user_profile_photo_layer97''))),
     named ''signature'' (Hex (Const 0xd559d8c8 Int32ul)),
     named ''photo_id'' Int64ul,
     named ''photo_small'' (file_location_structures ''photo_small''),
     named ''photo_big'' (file_location_structures ''photo_big'')]"

definition user_profile_photo_old_struct :: construct where
  "user_profile_photo_old_struct = Struct [
     named ''sname'' (Computed (const_value (pystr ''user_profile_photo_old''))),
     named ''signature'' (Hex (Const 0x990d1493 Int32ul)),
     named ''photo_small'' (file_location_structures ''photo_small''),
     named ''photo_big'' (file_location_structures ''photo_big'')]"

definition user_profile_photo_layer115_struct :: construct where
  "user_profile_photo_layer115_struct = Struct [
     named ''sname'' (Computed (const_value (pystr ''user_profile_photo_layer115''))),
     named ''signature'' (Hex (Const 0xecd75d8c Int32ul)),
     named ''photo_id'' Int64ul,
     named ''photo_small'' (file_location_structures ''photo_small''),
     named ''photo_big'' (file_location_structures ''photo_big''),
     named ''dc_id'' Int32ul]"

definition user_profile_photo_struct :: construct where
  "user_profile_photo_struct = Struct [
     named ''sname'' (Computed (const_value (pystr ''user_profile_photo''))),
     named ''signature'' (Hex (Const 0x69d3ab26 Int32ul)),
     named ''flags'' (FlagsEnum Int32ul [(''has_video'', 1)]),
     named ''photo_id'' Int64ul,
     named ''photo_small'' (file_location_structures ''photo_small''),
     named ''photo_big'' (file_location_structures ''photo_big''),
     named ''dc_id'' Int32ul]"

definition user_profile_photo_structures :: "string \<Rightarrow> construct" where
  "user_profile_photo_structures name = Struct [
     named ''_signature'' (Peek Int32ul),
     named name (Switch (this1 ''_signature'') [
       (0x69d3ab26, LazyBound user_profile_photo_struct),
       (0xecd75d8c, LazyBound user_profile_photo_layer115_struct),
       (0xd559d8c8, LazyBound user_profile_photo_layer97_struct),
       (0x4f11bae1, LazyBound user_profile_photo_empty_struct),
       (0x990d1493, LazyBound user_profile_photo_old_struct)])]"

subsection \<open>User status (lines 5069 to 5113)\<close>

definition user_status_recently_struct :: construct where
  "user_status_recently_struct = Struct [
     named ''sname'' (Computed (const_value (pystr ''user_status_recently''))),
     named ''signature'' (Hex (Const 0xe26f42f1 Int32ul))]"

definition user_status_online_struct :: construct where
  "user_status_online_struct = Struct [
     named ''sname'' (Computed (const_value (pystr ''user_status_online''))),
     named ''signature'' (Hex (Const 0xedb93949 Int32ul)),
     named ''expires'' Int32ul]"

definition user_status_offline_struct :: construct where
  "user_status_offline_struct = Struct [
     named ''sname'' (Computed (const_value (pystr ''user_status_offline''))),
     named ''signature'' (Hex (Const 0x008c703f Int32ul)),
     named ''expires'' Int32ul]"

definition user_status_last_week_struct :: construct where
  "user_status_last_week_struct = Struct [
     named ''sname'' (Computed (const_value (pystr ''user_status_last_week''))),
     named ''signature'' (Hex (Const 0x07bf09fc Int32ul))]"

definition user_status_last_month_struct :: construct where
  "user_status_last_month_struct = Struct [
     named ''sname'' (Computed (const_value (pystr ''user_status_last_month''))),
     named ''signature'' (Hex (Const 0x77ebc742 Int32ul))]"

definition user_status_empty_struct :: construct where
  "user_status_empty_struct = Struct [
     named ''sname'' (Computed (const_value (pystr ''user_status_empty''))),
     named ''signature'' (Hex (Const 0x09d05049 Int32ul))]"

definition user_status_structures :: "string \<Rightarrow> construct" where
  "user_status_structures name = Struct [
     named ''_signature'' (Peek Int32ul),
     named name (Switch (this1 ''_signature'') [
       (0xe26f42f1, LazyBound user_status_recently_struct),
       (0xedb93949, LazyBound user_status_online_struct),
       (0x008c703f, LazyBound user_status_offline_struct),
       (0x07bf09fc, LazyBound user_status_last_week_struct),
       (0x09d05049, LazyBound user_status_empty_struct),
       (0x77ebc742, LazyBound user_status_last_month_struct)])]"

subsection \<open>Users (lines 4859 to 4863 and 4946 to 4986)\<close>

definition user_empty_struct :: construct where
  "user_empty_struct = Struct [
     named ''sname'' (Computed (const_value (pystr ''user_empty''))),
     named ''signature'' (Hex (Const 0x200250ba Int32ul)),
     named ''id'' Int32ul]"

definition user_flags :: "(string \<times> int) list" where
  "user_flags = [
     (''has_access_hash'', 1),
     (''has_first_name'', 2),
     (''has_last_name'', 4),
     (''has_username'', 8),
     (''has_phone'', 16),
     (''has_profile_photo'', 32),
     (''has_status'', 64),
     (''is_self'', 1024),
     (''is_contact'', 2048),
     (''is_mutual_contact'', 4096),
     (''is_deleted'', 8192),
     (''is_bot'', 16384),
     (''is_bot_chat_history'', 32768),
     (''is_bot_no_chats'', 65536),
     (''is_min'', 1048576),
     (''is_verified'', 131072),
     (''is_bot_inline_geo'', 2097152),
     (''is_restricted'', 262144),
     (''is_support'', 8388608)]"

definition restrictions_vector :: construct where
  "restrictions_vector = Struct [
     named ''_vector_sig'' (Hex (Const 0x1cb5c415 Int32ul)),
     named ''restrictions_num'' Int32ul,
     named ''restrictions_array'' (Array (this1 ''restrictions_num'') restriction_reason_struct)]"

definition user_struct :: construct where
  "user_struct = Struct [
     named ''sname'' (Computed (const_value (pystr ''user_struct''))),
     named ''signature'' (Hex (Const 0x938458c1 Int32ul)),
     named ''flags'' (FlagsEnum Int32ul user_flags),
     named ''id'' Int32ul,
     named ''access_hash'' (If (this2 ''flags'' ''has_access_hash'') Int64ul),
     named ''first_name'' (If (this2 ''flags'' ''has_first_name'') tstring_struct),
     named ''last_name'' (If (this2 ''flags'' ''has_last_name'') tstring_struct),
     named ''username'' (If (this2 ''flags'' ''has_username'') tstring_struct),
     named ''phone'' (If (this2 ''flags'' ''has_phone'') tstring_struct),
     named ''photo'' (If (this2 ''flags'' ''has_profile_photo'') (user_profile_photo_structures ''photo'')),
     named ''status'' (If (this2 ''flags'' ''has_status'') (user_status_structures ''status'')),
     named ''bot_info_version'' (If (this2 ''flags'' ''is_bot'') Int32ul),
     named ''restrictions'' (If (this2 ''flags'' ''is_restricted'') restrictions_vector)]"

subsection \<open>Messages (lines 1865 to 1900 and 2588 to 2662)\<close>

text \<open>
  The dispatcher of message actions, with the decoders it selects taken from the
  parameter.
\<close>

definition message_action_structures :: "env \<Rightarrow> string \<Rightarrow> construct" where
  "message_action_structures env name = Struct [
     named ''_signature'' (Peek Int32ul),
     named name (Switch (this1 ''_signature'') [
       (0x80e11a7f, LazyBound (other_struct env ''message_action_phone_call_struct'')),
       (0x92a72876, LazyBound (other_struct env ''message_action_game_score_struct'')),
       (0x94bd38ed, LazyBound (other_struct env ''message_action_pin_message_struct'')),
       (0x95d2ac92, LazyBound (other_struct env ''message_action_channel_create_struct'')),
       (0x95e3fbef, LazyBound (other_struct env ''message_action_chat_delete_photo_struct'')),
       (0x9fbab604, LazyBound (other_struct env ''message_action_history_clear_struct'')),
       (0xa6638b9a, LazyBound (other_struct env ''message_action_chat_create_struct'')),
       (0xabe9affe, LazyBound (other_struct env ''message_action_bot_allowed_struct'')),
       (0xb055eaee, LazyBound (other_struct env ''message_action_channel_migrate_from_struct'')),
       (0xb2ae9b0c, LazyBound (other_struct env ''message_action_chat_delete_user_struct'')),
       (0xb5a1ce5a, LazyBound (other_struct env ''message_action_chat_edit_title_struct'')),
       (0xb6aef7b0, LazyBound (other_struct env ''message_action_empty_struct'')),
       (0xd95c6154, LazyBound (other_struct env ''message_action_secure_values_sent_struct'')),
       (0xf3f25f76, LazyBound (other_struct env ''message_action_contact_sign_up_struct'')),
       (0xf89cf5e8, LazyBound (other_struct env ''message_action_chat_joined_by_link_struct'')),
       (0xfae69f56, LazyBound (other_struct env ''message_action_custom_action_struct'')),
       (0x40699cd0, LazyBound (other_struct env ''message_action_payment_sent_struct'')),
       (0x4792929b, LazyBound (other_struct env ''message_action_screenshot_taken_struct'')),
       (0x488a7337, LazyBound (other_struct env ''message_action_chat_add_user_struct'')),
       (0x51bdb021, LazyBound (other_struct env ''message_action_chat_migrate_to_struct'')),
       (0x55555550, LazyBound (other_struct env ''message_action_user_joined_struct'')),
       (0x55555551, LazyBound (other_struct env ''message_action_user_updated_photo_struct'')),
       (0x55555552, LazyBound (other_struct env ''message_action_ttl_change_struct'')),
       (0x55555557, LazyBound (other_struct env ''message_action_created_broadcast_list_struct'')),
       (0x555555f5, LazyBound (other_struct env ''message_action_login_unknown_location_struct'')),
       (0x555555f7, LazyBound (other_struct env ''message_encrypted_action_struct'')),
       (0x5e3cfc4b, LazyBound (other_struct env ''message_action_chat_add_user_old_struct'')),
       (0x7a0d7f42, LazyBound (other_struct env ''message_action_group_call_struct'')),
       (0x7fcb13a8, LazyBound (other_struct env ''message_action_chat_edit_photo_struct''))])]"

text \<open>
  The constructor of \<^verbatim>\<open>IfThenElse\<close> (construct, \<^verbatim>\<open>core.py\<close>) ends with
  \<^verbatim>\<open>self.flagbuildnone = thensubcon.flagbuildnone and elsesubcon.flagbuildnone\<close>: it
  reads the attribute \<^verbatim>\<open>flagbuildnone\<close> of its second argument and, when that is
  true, of its third.  Every construct has the attribute.  In
  \<^verbatim>\<open>'from_id_adjusted' / this.to_id.user_id\<close> the right operand is an expression,
  so the division builds another expression object (a \<^verbatim>\<open>BinExpr\<close>) and not a named
  construct.  A \<^verbatim>\<open>BinExpr\<close> has neither the attribute \<^verbatim>\<open>flagbuildnone\<close> nor a
  parsing method: reading either raises \<^verbatim>\<open>AttributeError\<close>.
\<close>

datatype subcon_argument = Subcon construct bool | BinExprObject

fun flagbuildnone :: "subcon_argument \<Rightarrow> exc + bool" where
  "flagbuildnone (Subcon sc flag) = Inr flag"
| "flagbuildnone BinExprObject = Inl AttributeError"

fun parsereport :: "subcon_argument \<Rightarrow> construct" where
  "parsereport (Subcon sc flag) ctx d p = sc ctx d p"
| "parsereport BinExprObject ctx d p = (Inl AttributeError, [])"

definition IfThenElse_init :: "expr \<Rightarrow> subcon_argument \<Rightarrow> subcon_argument \<Rightarrow> exc + construct" where
  "IfThenElse_init condfunc thensubcon elsesubcon =
     (case flagbuildnone thensubcon of
        Inl e \<Rightarrow> Inl e
      | Inr flag \<Rightarrow>
          (case (if flag then flagbuildnone elsesubcon else Inr False) of
             Inl e \<Rightarrow> Inl e
           | Inr both \<Rightarrow>
               Inr (IfThenElse condfunc (parsereport thensubcon) (parsereport elsesubcon))))"

text \<open>
  The value of the field \<^verbatim>\<open>from_id_adjusted\<close> in lines 2605 to 2609 and 2637 to
  2641, as Python builds it: the inner \<^verbatim>\<open>IfThenElse\<close>, whose two branches are
  expression objects, is an argument of \<^verbatim>\<open>If\<close> and is built first.
\<close>

definition from_id_adjusted :: "exc + construct" where
  "from_id_adjusted =
     (case IfThenElse_init (BinExpr py_ne (this2 ''to_id'' ''user_id'') (lit (VInt 0)))
             BinExprObject BinExprObject of
        Inl e \<Rightarrow> Inl e
      | Inr thensubcon \<Rightarrow>
          Inr (If (BinExpr py_eq (this1 ''from_id'') (lit (VInt 0))) thensubcon))"

text \<open>
  The two message decoders.  The arguments of \<^verbatim>\<open>Struct\<close> are built from left to
  right; those before \<^verbatim>\<open>from_id_adjusted\<close> build without raising, and an exception
  raised while building it leaves the method: no \<^verbatim>\<open>Struct\<close> is returned.
\<close>

definition message_service_layer48_struct :: "env \<Rightarrow> exc + construct" where
  "message_service_layer48_struct env =
   (case from_id_adjusted of
      Inl e \<Rightarrow> Inl e
    | Inr from_id_adjusted_subcon \<Rightarrow> Inr (Struct [
     named ''sname'' (Computed (const_value (pystr ''message_service_layer48''))),
     named ''signature'' (Hex (Const 0xc06b9607 Int32ul)),
     named ''flags'' (FlagsEnum Int32ul [
       (''unread'', 1),
       (''out'', 2),
       (''mentioned'', 16),
       (''media_unread'', 32),
       (''has_from_id'', 256),
       (''is_via_bot'', 2048),
       (''post'', 16384),
       (''silent'', 8192),
       (''is_grouped_id'', 131072)]),
     named ''id'' Int32ul,
     named ''from_id'' (If (this2 ''flags'' ''has_from_id'') Int32ul),
     named ''to_id'' (peer_structures ''to_id''),
     named ''from_id_adjusted'' from_id_adjusted_subcon,
     named ''date'' (ttimestamp_struct env),
     named ''action'' (message_action_structures env ''action'')]))"

definition message_entities_vector :: "env \<Rightarrow> construct" where
  "message_entities_vector env = Struct [
     named ''_vector_sig'' (Hex (Const 0x1cb5c415 Int32ul)),
     named ''message_entity_num'' Int32ul,
     named ''message_entity_array''
       (Array (this1 ''message_entity_num'') (other_struct env ''message_entity_structures''))]"

definition message_layer68_struct :: "env \<Rightarrow> exc + construct" where
  "message_layer68_struct env =
   (case from_id_adjusted of
      Inl e \<Rightarrow> Inl e
    | Inr from_id_adjusted_subcon \<Rightarrow> Inr (Struct [
     named ''sname'' (Computed (const_value (pystr ''message_layer68''))),
     named ''signature'' (Hex (Const 0xc09be45f Int32ul)),
     named ''flags'' (FlagsEnum Int32ul [
       (''unread'', 1),
       (''out'', 2),
       (''forwarded'', 4),
       (''is_reply_to_msg_id'', 8),
       (''mentioned'', 16),
       (''media_unread'', 32),
       (''has_reply_markup'', 64),
       (''has_entities'', 128),
       (''has_from_id'', 256),
       (''has_media'', 512),
       (''has_views'', 1024),
       (''is_via_bot'', 2048),
       (''post'', 16384),
       (''is_edited'', 32768),
       (''silent'', 8192),
       (''with_my_score'', 1073741824)]),
     named ''id'' Int32ul,
     named ''from_id'' (If (this2 ''flags'' ''has_from_id'') Int32ul),
     named ''to_id'' (peer_structures ''to_id''),
     named ''from_id_adjusted'' from_id_adjusted_subcon,
     named ''fwd_from'' (If (this2 ''flags'' ''forwarded'') (other_struct env ''message_fwd_header_structures'')),
     named ''via_bot_id'' (If (this2 ''flags'' ''is_via_bot'') Int32ul),
     named ''reply_to_msg_id'' (If (this2 ''flags'' ''is_reply_to_msg_id'') Int32ul),
     named ''date'' (ttimestamp_struct env),
     named ''message'' tstring_struct,
     named ''media'' (If (this2 ''flags'' ''has_media'') (other_struct env ''message_media_structures'')),
     named ''_media_ttl'' (Computed (const_value (pystr ''ignored''))),
     named ''_media_caption_legacy'' (Computed (const_value (pystr ''ignored''))),
     named ''reply_markup'' (If (this2 ''flags'' ''has_reply_markup'') (other_struct env ''reply_markup_structures'')),
     named ''entities'' (If (this2 ''flags'' ''has_entities'') (message_entities_vector env)),
     named ''views'' (If (this2 ''flags'' ''has_views'') Int32ul),
     named ''edit_timestamp'' (If (this2 ''flags'' ''is_edited'') Int32ul)]))"

section \<open>The class \<^verbatim>\<open>tblob\<close>: registry instance and dispatcher\<close>

text \<open>
  \<^verbatim>\<open>blob_parser(self).parse(data)\<close> calls the method that the registry entry names
  and parses with the \<^verbatim>\<open>Struct\<close> it returns.  When the call of the method raises,
  the exception leaves the expression before a byte is read and nothing is logged.
\<close>

definition built :: "exc + construct \<Rightarrow> construct" where
  "built made ctx d p = (case made of Inl e \<Rightarrow> (Inl e, []) | Inr sc \<Rightarrow> sc ctx d p)"


definition method_struct :: "env \<Rightarrow> string \<Rightarrow> construct" where
  "method_struct env m =
     (if m = ''encrypted_chat_requested_struct'' then encrypted_chat_requested_struct env
      else if m = ''file_encrypted_location_struct'' then file_encrypted_location_struct
      else if m = ''file_location_to_be_deprecated_struct'' then file_location_to_be_deprecated_struct
      else if m = ''file_location_layer82_struct'' then file_location_layer82_struct
      else if m = ''file_location_layer97_struct'' then file_location_layer97_struct
      else if m = ''file_location_unavailable_struct'' then file_location_unavailable_struct
      else if m = ''message_service_layer48_struct'' then built (message_service_layer48_struct env)
      else if m = ''message_layer68_struct'' then built (message_layer68_struct env)
      else if m = ''peer_channel_struct'' then peer_channel_struct
      else if m = ''peer_chat_struct'' then peer_chat_struct
      else if m = ''peer_user_struct'' then peer_user_struct
      else if m = ''restriction_reason_struct'' then restriction_reason_struct
      else if m = ''user_struct'' then user_struct
      else if m = ''user_empty_struct'' then user_empty_struct
      else if m = ''user_profile_photo_struct'' then user_profile_photo_struct
      else if m = ''user_profile_photo_empty_struct'' then user_profile_photo_empty_struct
      else if m = ''user_profile_photo_layer97_struct'' then user_profile_photo_layer97_struct
      else if m = ''user_profile_photo_layer115_struct'' then user_profile_photo_layer115_struct
      else if m = ''user_profile_photo_old_struct'' then user_profile_photo_old_struct
      else if m = ''user_status_empty_struct'' then user_status_empty_struct
      else if m = ''user_status_last_month_struct'' then user_status_last_month_struct
      else if m = ''user_status_last_week_struct'' then user_status_last_week_struct
      else if m = ''user_status_offline_struct'' then user_status_offline_struct
      else if m = ''user_status_online_struct'' then user_status_online_struct
      else if m = ''user_status_recently_struct'' then user_status_recently_struct
      else other_struct env m)"

text \<open>
  An instance holds the dictionary \<^verbatim>\<open>_callbacks\<close>.  \<^verbatim>\<open>__init__\<close> (lines 97 to
  106) fills it from the items of the class-level table, one assignment each, and logs
  at debug level.  The two \<^verbatim>\<open>setGlobalPrint...\<close> calls only change how a Container
  prints.
\<close>

record tblob =
  callbacks_dict :: "(int \<times> blob_tuple) list"

fun dict_set :: "(int \<times> blob_tuple) list \<Rightarrow> int \<Rightarrow> blob_tuple \<Rightarrow> (int \<times> blob_tuple) list" where
  "dict_set [] k v = [(k, v)]"
| "dict_set ((k', v') # kv) k v =
     (if k' = k then (k, v) # kv else (k', v') # dict_set kv k v)"

fun blob_tuple_name :: "blob_tuple \<Rightarrow> string" where
  "blob_tuple_name (Tuple3 parser name beautify) = name"
| "blob_tuple_name (Tuple2 parser name) = name"

definition init_step :: "int \<times> blob_tuple \<Rightarrow> tblob \<times> log_entry list \<Rightarrow> tblob \<times> log_entry list" where
  "init_step item st =
     (case item of (signature, blob_tuple) \<Rightarrow>
        (case st of (self, logged) \<Rightarrow>
           (self\<lparr>callbacks_dict := dict_set (callbacks_dict self) signature blob_tuple\<rparr>,
            logged @ [Debug_adding_callback signature (blob_tuple_name blob_tuple)])))"

definition init :: "tblob \<times> log_entry list" where
  "init =
     (case fold init_step tdss_callbacks (\<lparr>callbacks_dict = []\<rparr>, [Debug_building_callbacks]) of
        (self, logged) \<Rightarrow> (self, logged @ [Debug_building_callbacks_ended]))"

text \<open>The property \<^verbatim>\<open>callbacks\<close> (lines 110 to 113) asserts that the dictionary is not empty.\<close>

definition callbacks :: "tblob \<Rightarrow> exc + (int \<times> blob_tuple) list" where
  "callbacks self = (if callbacks_dict self \<noteq> [] then Inr (callbacks_dict self) else Inl AssertionError)"

text \<open>\<^verbatim>\<open>len(obj)\<close>.\<close>

fun py_len :: "val \<Rightarrow> exc + nat" where
  "py_len (VStr s) = Inr (length s)"
| "py_len (VBytes b) = Inr (length b)"
| "py_len (VCont kv) = Inr (length kv)"
| "py_len (VList vs) = Inr (length vs)"
| "py_len _ = Inl TypeError"

text \<open>
  Lines 129 to 135 of \<^verbatim>\<open>parse_blob\<close>: the warning about a non-empty
  \<^verbatim>\<open>UNPARSED\<close> field.  \<^verbatim>\<open>getattr(pblob, 'UNPARSED', None)\<close> is \<^verbatim>\<open>None\<close> when
  the record has no such field.
\<close>

definition unparsed_warning :: "val \<Rightarrow> string \<Rightarrow> int \<Rightarrow> exc + log_entry list" where
  "unparsed_warning pblob name signature =
     (let unparsed = (case py_getattr pblob ''UNPARSED'' of Inl e \<Rightarrow> VNone | Inr v \<Rightarrow> v) in
      if py_truth unparsed then
        (case py_len unparsed of
           Inl e \<Rightarrow> Inl e
         | Inr unparsed_len \<Rightarrow>
             if unparsed_len \<noteq> 0
             then Inr [Warning_contains_unparsed_data name signature unparsed_len]
             else Inr [])
      else Inr [])"

text \<open>
  \<^verbatim>\<open>parse_blob\<close> (lines 117 to 153).  The result is the exception raised, or the
  returned \<^verbatim>\<open>pblob\<close> (\<^verbatim>\<open>None\<close> when no record was decoded), with the log records
  emitted.  \<^verbatim>\<open>pblob._io.tell()\<close> is the offset the decoder stopped at.  Unpacking a
  tuple of two components into three names raises \<^verbatim>\<open>ValueError\<close>.
\<close>

definition parse_blob :: "env \<Rightarrow> tblob \<Rightarrow> byte list \<Rightarrow> val outcome" where
  "parse_blob env self data =
     (let signature = from_bytes_little (take 4 data) in
      case callbacks self of
        Inl e \<Rightarrow> (Inl e, [])
      | Inr cb \<Rightarrow>
          (case map_of cb signature of
             None \<Rightarrow> (Inr VNone, [Error_unknown_signature signature])
           | Some (Tuple2 blob_parser name) \<Rightarrow> (Inl ValueError, [])
           | Some (Tuple3 blob_parser name beautify) \<Rightarrow>
               (case blob_parser of
                  None \<Rightarrow> (Inr VNone, [Warning_blob_not_supported name signature])
                | Some m \<Rightarrow>
                    (case parse (method_struct env m) data of
                       (Inl e, logged) \<Rightarrow> (Inl e, logged)
                     | (Inr (pblob, object_len), logged) \<Rightarrow>
                         (case unparsed_warning pblob name signature of
                            Inl e \<Rightarrow> (Inl e, logged)
                          | Inr warned \<Rightarrow>
                              (let data_len = length data in
                               (Inr pblob,
                                logged @ warned @
                                (if data_len \<noteq> object_len
                                 then [Error_not_all_data_parsed name signature data_len object_len
                                         (drop object_len data)]
                                 else []))))))))"

section \<open>Facts about the combinators\<close>

lemmas construct_defs =
  parse_def Struct_def named_def unnamed_def Computed_def const_value_def Peek_def Byte_def
  Int32ul_def Int64ul_def FormatField_def stream_read_def IfThenElse_def If_def BinExpr_def
  this1_def this2_def lit_def py_ge_def py_arith_def py_eq_def py_ne_def py_eq_bool_def
  and_then_def eval_then_def Bytes_def of_expr_def py_mod_def py_add_def py_sub_def
  py_rshift_def py_mul_def Padding_def Pass_def Hex_def Const_def LazyBound_def

lemma take1_drop: "p < length d \<Longrightarrow> take (Suc 0) (drop p d) = [d ! p]"
  by (simp add: take_Suc_conv_app_nth Cons_nth_drop_Suc take_Suc hd_drop_conv_nth)

lemma from_bytes_little_nonneg: "0 \<le> from_bytes_little bs"
  by (induction bs) simp_all

lemma decode_tstring_cases:
  "decode_tstring bs =
     (case utf8_decode bs of
        Some t \<Rightarrow> (Inr (VStr t), [])
      | None \<Rightarrow> (Inr (VBytes bs), [Error_unable_to_decode_string bs]))"
  by (simp add: decode_tstring_def)

subsection \<open>The boolean primitive\<close>

lemma tbool_struct_reads_word:
  assumes "p + 4 \<le> length d"
  shows "tbool_struct ctx d p =
     (Inr (VCont [(''sname'', pystr ''boolean''),
                  (''_signature'', VInt (from_bytes_little (take 4 (drop p d)))),
                  (''value'', pystr (if from_bytes_little (take 4 (drop p d)) = 0x997275b5 then ''true''
                                     else if from_bytes_little (take 4 (drop p d)) = 0xbc799737 then ''false''
                                     else ''ERROR''))],
           p + 4), [])"
  using assms by (simp add: tbool_struct_def construct_defs)

subsection \<open>Length-prefixed strings and byte strings\<close>

text \<open>Short form: the first byte is the length.\<close>

lemma tstring_struct_short:
  fixes L :: nat
  assumes "p < length d" and L: "L = unat (d ! p)" and "L < 254"
    and "p + (1 + L + (4 - (1 + L) mod 4) mod 4) \<le> length d"
    and "decode_tstring (take L (drop (p + 1) d)) = (Inr s, l)"
  shows "tstring_struct ctx d p =
     (Inr (VCont [(''_sname'', pystr ''tstring''), (''_check'', VInt (int L)), (''_pl'', VInt (int L)),
                  (''_len'', VInt (int L)), (''_value'', VBytes (take L (drop (p + 1) d))),
                  (''string'', s)],
           p + (1 + L + (4 - (1 + L) mod 4) mod 4)), l)"
proof -
  have u: "uint (d ! p) = int L" using L by simp
  define k where "k = Suc L mod 4"
  have k4: "k < 4" by (simp add: k_def)
  have km: "(int L + 1) mod 4 = int k" by (simp add: k_def zmod_int add.commute)
  have kn: "(1 + L) mod 4 = k" by (simp add: k_def)
  show ?thesis
  proof (cases "k = 0")
    case True
    show ?thesis using assms(1,3,5) assms(4)[unfolded kn] True
      unfolding kn
      by (simp add: tstring_struct_def construct_defs take1_drop u decode_value_def km)
  next
    case False
    have n: "nat (4 - int k) = 4 - k" by simp
    have m: "(4 - k) mod 4 = 4 - k" using False k4 by simp
    show ?thesis using assms(1,3,5) assms(4)[unfolded kn] False k4
      unfolding kn
      apply (simp add: tstring_struct_def construct_defs take1_drop u decode_value_def km n m)
      apply arith
      done
  qed
qed

lemma tbytes_struct_short:
  fixes L :: nat
  assumes "p < length d" and L: "L = unat (d ! p)" and "L < 254"
    and "p + (1 + L + (4 - (1 + L) mod 4) mod 4) \<le> length d"
  shows "tbytes_struct ctx d p =
     (Inr (VCont [(''_sname'', pystr ''tbytes''), (''_check'', VInt (int L)), (''_pl'', VInt (int L)),
                  (''len'', VInt (int L)), (''bytes'', VBytes (take L (drop (p + 1) d)))],
           p + (1 + L + (4 - (1 + L) mod 4) mod 4)), [])"
proof -
  have u: "uint (d ! p) = int L" using L by simp
  define k where "k = Suc L mod 4"
  have k4: "k < 4" by (simp add: k_def)
  have km: "(int L + 1) mod 4 = int k" by (simp add: k_def zmod_int add.commute)
  have kn: "(1 + L) mod 4 = k" by (simp add: k_def)
  show ?thesis
  proof (cases "k = 0")
    case True
    show ?thesis using assms(1,3) assms(4)[unfolded kn] True
      unfolding kn
      by (simp add: tbytes_struct_def construct_defs take1_drop u km)
  next
    case False
    have n: "nat (4 - int k) = 4 - k" by simp
    have m: "(4 - k) mod 4 = 4 - k" using False k4 by simp
    show ?thesis using assms(1,3) assms(4)[unfolded kn] False k4
      unfolding kn
      apply (simp add: tbytes_struct_def construct_defs take1_drop u km n m)
      apply arith
      done
  qed
qed

text \<open>Long form: the length is the upper three bytes of the first word.\<close>

lemmas struct_step_defs =
  named_def unnamed_def Computed_def const_value_def IfThenElse_def If_def BinExpr_def
  this1_def lit_def py_ge_def py_arith_def and_then_def eval_then_def Bytes_def of_expr_def
  stream_read_def py_mod_def py_add_def py_sub_def py_rshift_def Padding_def Pass_def Hex_def

lemma tstring_struct_long:
  fixes L :: nat
  assumes "p + 4 \<le> length d" and "254 \<le> unat (d ! p)"
    and w: "w = from_bytes_little (take 4 (drop p d))"
    and L: "L = nat (drop_bit 8 w)"
    and "p + (4 + L + (4 - L mod 4) mod 4) \<le> length d"
    and "decode_tstring (take L (drop (p + 4) d)) = (Inr s, l)"
  shows "tstring_struct ctx d p =
     (Inr (VCont [(''_sname'', pystr ''tstring''), (''_check'', VInt (uint (d ! p))), (''_pl'', VInt w),
                  (''_len'', VInt (int L)), (''_value'', VBytes (take L (drop (p + 4) d))),
                  (''string'', s)],
           p + (4 + L + (4 - L mod 4) mod 4)), l)"
proof -
  have p: "p < length d" using assms(1) by simp
  have c: "254 \<le> uint (d ! p)" using assms(2) unfolding uint_nat by linarith
  have "0 \<le> w" using w by (simp add: from_bytes_little_nonneg)
  then have "0 \<le> drop_bit 8 w" by simp
  then have dl: "drop_bit 8 w = int L" using L by simp
  have i32: "Int32ul (VCont obj) d p = (Inr (VInt w, p + 4), [])" for obj
    using assms(1) w by (simp add: Int32ul_def FormatField_def stream_read_def)
  have pk: "Peek Byte (VCont obj) d p = (Inr (VInt (uint (d ! p)), p), [])" for obj
    using p by (simp add: Peek_def Byte_def FormatField_def stream_read_def take1_drop)
  define k where "k = L mod 4"
  have k4: "k < 4" by (simp add: k_def)
  have km: "int L mod 4 = int k" by (simp add: k_def zmod_int)
  have kn: "L mod 4 = k" by (simp add: k_def)
  show ?thesis
  proof (cases "k = 0")
    case True
    show ?thesis using assms(6) assms(5)[unfolded kn] c True
      unfolding kn
      by (simp add: tstring_struct_def Struct_def struct_step_defs i32 pk decode_value_def km dl)
  next
    case False
    have n: "nat (4 - int k) = 4 - k" by simp
    have m: "(4 - k) mod 4 = 4 - k" using False k4 by simp
    show ?thesis using assms(6) assms(5)[unfolded kn] c False k4
      unfolding kn
      apply (simp add: tstring_struct_def Struct_def struct_step_defs i32 pk decode_value_def km dl n m)
      apply arith
      done
  qed
qed

lemma tbytes_struct_long:
  fixes L :: nat
  assumes "p + 4 \<le> length d" and "254 \<le> unat (d ! p)"
    and w: "w = from_bytes_little (take 4 (drop p d))"
    and L: "L = nat (drop_bit 8 w)"
    and "p + (4 + L + (4 - L mod 4) mod 4) \<le> length d"
  shows "tbytes_struct ctx d p =
     (Inr (VCont [(''_sname'', pystr ''tbytes''), (''_check'', VInt (uint (d ! p))), (''_pl'', VInt w),
                  (''len'', VInt (int L)), (''bytes'', VBytes (take L (drop (p + 4) d)))],
           p + (4 + L + (4 - L mod 4) mod 4)), [])"
proof -
  have p: "p < length d" using assms(1) by simp
  have c: "254 \<le> uint (d ! p)" using assms(2) unfolding uint_nat by linarith
  have "0 \<le> w" using w by (simp add: from_bytes_little_nonneg)
  then have "0 \<le> drop_bit 8 w" by simp
  then have dl: "drop_bit 8 w = int L" using L by simp
  have i32: "Int32ul (VCont obj) d p = (Inr (VInt w, p + 4), [])" for obj
    using assms(1) w by (simp add: Int32ul_def FormatField_def stream_read_def)
  have pk: "Peek Byte (VCont obj) d p = (Inr (VInt (uint (d ! p)), p), [])" for obj
    using p by (simp add: Peek_def Byte_def FormatField_def stream_read_def take1_drop)
  define k where "k = L mod 4"
  have k4: "k < 4" by (simp add: k_def)
  have km: "int L mod 4 = int k" by (simp add: k_def zmod_int)
  have kn: "L mod 4 = k" by (simp add: k_def)
  show ?thesis
  proof (cases "k = 0")
    case True
    show ?thesis using assms(5)[unfolded kn] c True
      unfolding kn
      by (simp add: tbytes_struct_def Struct_def struct_step_defs i32 pk km dl)
  next
    case False
    have n: "nat (4 - int k) = 4 - k" by simp
    have m: "(4 - k) mod 4 = 4 - k" using False k4 by simp
    show ?thesis using assms(5)[unfolded kn] c False k4
      unfolding kn
      apply (simp add: tbytes_struct_def Struct_def struct_step_defs i32 pk km dl n m)
      apply arith
      done
  qed
qed

section \<open>Facts about the registry\<close>

lemma map_fst_Nil: "map fst [] = []"
  by simp

lemma map_fst_Cons: "map fst ps = ks \<Longrightarrow> map fst ((k, v) # ps) = k # ks"
  by simp

lemma map_of_Cons_hit: "map_of ((k, v) # ps) k = Some v"
  by simp

lemma map_of_Cons_skip: "l \<noteq> k \<Longrightarrow> map_of ps k = r \<Longrightarrow> map_of ((l, v) # ps) k = r"
  by simp

text \<open>
  A dictionary filled by assignments in list order holds, for each key, the value of
  its last item: lookups go through the reversed list.
\<close>

lemma map_of_rev_absent: "k \<notin> set (map fst kvs) \<Longrightarrow> map_of (rev kvs) k = None"
  by (simp add: map_of_eq_None_iff)

lemma map_of_rev_distinct: "distinct (map fst kvs) \<Longrightarrow> map_of (rev kvs) k = map_of kvs k"
proof (induction kvs)
  case Nil
  then show ?case by simp
next
  case (Cons a kvs)
  obtain aa b where a: "a = (aa, b)" by (cases a)
  from Cons.prems a have na: "aa \<notin> fst ` set kvs" and d: "distinct (map fst kvs)" by simp_all
  have n: "map_of kvs aa = None" using na by (simp add: map_of_eq_None_iff)
  have ih: "map_of (rev kvs) k = map_of kvs k" using Cons.IH d by simp
  show ?case
  proof (cases "k = aa")
    case True
    then show ?thesis using n ih a by (simp add: map_add_def)
  next
    case False
    then show ?thesis using ih a by (simp add: map_add_def split: option.splits)
  qed
qed

lemma rev_lookup_append_None:
  "map_of (rev a) k = None \<Longrightarrow> map_of (rev b) k = None \<Longrightarrow> map_of (rev (a @ b)) k = None"
  by (simp add: map_add_def)

lemma rev_lookup_append_right:
  "map_of (rev b) k = Some v \<Longrightarrow> map_of (rev (a @ b)) k = Some v"
  by (simp add: map_add_def)

lemma rev_lookup_append_left:
  "map_of (rev a) k = Some v \<Longrightarrow> map_of (rev b) k = None \<Longrightarrow> map_of (rev (a @ b)) k = Some v"
  by (simp add: map_add_def)

subsection \<open>The keys of each part of the table\<close>

lemma keys_01:
  "map fst tdss_callbacks_01 = [
     0xb8d0afdf, 0xe7027c94, 0xad2e1cd8, 0x1250abde, 0x63cacf26, 0xc1cbd5b6, 0x70c32edb, 0x2714d86c,
     0x8fdf1920, 0x5f2178c3, 0x8432c21f, 0x418d4e0b, 0xb880bc4b, 0x08fc711d, 0xb288bc7d, 0xb86ba8e1,
     0xe320c158, 0x56da0b3f, 0x9f07c728, 0xeb2b4cf6, 0x65ad71dc, 0x53577479, 0x12b3ad31, 0x548a30f5,
     0x9cd4eaf9, 0xdadbc950, 0x73665bc2, 0x8d9d742b, 0x285946f8, 0x449e0b51, 0xfc8ddbea, 0xaabb1763,
     0xc04cfac2, 0x182e6d6f, 0x7ae43737, 0xfeed5769, 0xad2641f8, 0xc23727c9, 0x9a5c33e5, 0x50a04e45,
     0x68976c6f, 0x554abb6f, 0x446c712c, 0x5cbea590, 0xae189d5f, 0x7a7f2a15, 0xdf77f3bc, 0xdb7e1747,
     0xbb3b9804, 0x2d01b9ef, 0x682d2594, 0x76f36233, 0x899fe31d, 0xf257106c, 0x6c5a5b37, 0x82574ae5,
     0x1b3faa88, 0x7011509f, 0xa5a356f9, 0x811f854f, 0x2442485e, 0xcff43f61, 0x1edaaac2, 0xc9f81ce8,
     0x7f676421, 0xf41eb622, 0xdb64fd34, 0x3076c4bf, 0x65c55b40, 0x38df3532, 0x84be5b93, 0xa59b102f,
     0x78515775, 0xf0888d68, 0x6628562c, 0x5cb367d5, 0x3e0bdd7c, 0x1c3db333, 0xdd853661, 0xecba39db,
     0x4dd3a7f6, 0x702b65a9, 0x1c199183, 0xed56c9fc, 0x586988d8, 0x555555f6, 0xf9e35055, 0x427425e7,
     0xc7ac6496, 0xe894ad4d, 0xcd050916, 0x44747e9a, 0xf6b673a4, 0x1f040578, 0xd18b4d16, 0x6fe51dfb,
     0x811ea28e, 0xe300cc3b, 0x741cd3e3, 0x226ccefb]"
  unfolding tdss_callbacks_01_def by (intro map_fst_Cons map_fst_Nil)

lemma keys_02:
  "map fst tdss_callbacks_02 = [
     0x72a3158c, 0xe5bfffcd, 0xdf969c2d, 0xb1b41517, 0xe3ef9613, 0x95ac5ce4, 0x5717da40, 0x629f1980,
     0x068e9916, 0x390d5c5e, 0x137948a5, 0x4ea56e92, 0xd897bc66, 0x3ef1a9bf, 0x9fab0d1a, 0x03c51564,
     0xa677244f, 0x768d5f4d, 0x771c1d97, 0x5e002502, 0x38faab5f, 0x2215bcbd, 0x3dbb5986, 0x5353e5a7,
     0xab03c6d9, 0xc000bba2, 0xbcd51581, 0x80eee427, 0x1b067634, 0xad01d61d, 0xe04232f3, 0xd246fd47,
     0xa7eff811, 0xedab447b, 0xf568028a, 0x5b11125a, 0xc3a12462, 0xfbd81688, 0xb7b31ea8, 0x6d5f77ee,
     0xbc799737, 0x997275b5, 0xc27ac8c7, 0x98e81d3a, 0xbb2e37ce, 0x09cf585d, 0x17db940b, 0x764cf810,
     0x0a74b15b, 0x18d1cdc2, 0x35edb4d4, 0xb722de65, 0x3a8fd8b8, 0x8a86659c, 0x4366232e, 0x8c7f65e2,
     0x11965f3a, 0xd31a961e, 0x3b5a3e40, 0x55188a2e, 0xa26f881b, 0x0e6b76ae, 0x434bd2af, 0xb82f55c3,
     0xb1c3caa7, 0xe6dfb825, 0x6a4afc38, 0x2df5fc0a, 0x42e047bb, 0x709b2405, 0xe31c34d8, 0x183040d3,
     0xf89777f2, 0xd5676710, 0xe6d83d7e, 0x8f079643, 0x1b7907ae, 0x5f5c95f1, 0x26ae0971, 0x53909779,
     0xe9e82c18, 0xea107ae4, 0x5d7ceba5, 0x58cf4249, 0x289da732, 0x2d85832c, 0x8537784f, 0xf0e6672a,
     0x9e341ddf, 0x97bee562, 0xc3d5512f, 0x95cb5f57, 0x17f45fcf, 0x76af5481, 0xcbb62890, 0x1c87a71a,
     0x03648977, 0x9882e516, 0x10916653, 0x2d895c74]"
  unfolding tdss_callbacks_02_def by (intro map_fst_Cons map_fst_Nil)

lemma keys_03:
  "map fst tdss_callbacks_03 = [
     0xfab31aa3, 0x209b82db, 0xbfb5ad8b, 0x630e61be, 0xcd77d957, 0x94d42ee7, 0x15ebac1d, 0xccbebbaf,
     0x5daa6e23, 0xa82fa898, 0x1c0facaf, 0x222c1886, 0x808d15a4, 0xe3e2e1f9, 0x98192d61, 0x8cc5e69a,
     0x91057fef, 0xa3289a6d, 0xb4608969, 0x1427a5e1, 0xb0d1865b, 0xbb6ae88d, 0xa3b54985, 0xde3f3c79,
     0x0656ac4b, 0x4df30834, 0x4b1b7506, 0xa14dca52, 0x0cb44b1c, 0x450b7115, 0xc88974ac, 0x678e9587,
     0xed8af74d, 0xd0d9b163, 0xf56ee2a8, 0xf0173fe9, 0x10e6bd2c, 0x3d5fb10f, 0xf4893d7f, 0xc0111fe3,
     0xaf369d42, 0x84c1fd4e, 0xd10dd71b, 0xd33c8902, 0x70f893ba, 0x72796912, 0x8f38cd1f, 0x58e63f6d,
     0xf12e57c9, 0x566decd0, 0xc846d22d, 0x33ddf480, 0xf8b036af, 0x8d8d82d7, 0x0a7f6bbb, 0x08736a09,
     0xf5dad378, 0x11e831ee, 0x93d7b347, 0x546dd7a6, 0x123e05e9, 0x199f3a6c, 0x24b524c5, 0xf836aa95,
     0xcc104937, 0xeab5dc38, 0xfe087810, 0x43a0a7e2, 0x40582bb2, 0xea8ca4f9, 0xeabbb94c, 0x1f69b606,
     0xedd49ef0, 0x3514b3de, 0x3bda1bde, 0x5fb224d5, 0x9f120418, 0x9ba2d800, 0x07328bdb, 0xfb0ccc41,
     0x1b7c9db3, 0x2e02a614, 0xedd2a791, 0x22a235da, 0xdfc2f58e, 0x5a686d7c, 0x69df3769, 0xfc2e05bc,
     0x61695cb0, 0xdb74f558, 0xd91cdd54, 0x3631cf4c, 0xf041e250, 0xc8d7493e, 0xe2d6e436, 0xda13538a,
     0x3f460fed, 0xfc900c2b, 0x0fd2bb8a, 0x7841b415]"
  unfolding tdss_callbacks_03_def by (intro map_fst_Cons map_fst_Nil)

lemma keys_04:
  "map fst tdss_callbacks_04 = [
     0xd20b9f3c, 0x475cdbd5, 0x6153276a, 0x37c1011c, 0x6e9c9bc7, 0x7312bc48, 0x6643b654, 0xdebebe83,
     0x302f59f3, 0x330b4067, 0x232d5905, 0xe6ca25f6, 0xf911c994, 0x561bc879, 0xea879f95, 0xd502c2d0,
     0x268f3f59, 0xfeedd3ad, 0x5f4f9247, 0xd3680c61, 0xaa77b873, 0x3de191a1, 0xf831a20f, 0xe8f463d0,
     0x332b49fc, 0x1c138d15, 0x900802a1, 0xeae87e42, 0x6f8b8cb2, 0xb74ba9d2, 0x1013fd9e, 0x8e953744,
     0x096a0e00, 0x59ab389e, 0x84e53737, 0x1bea8ce1, 0xa7801f47, 0x133421f8, 0xb3134d9d, 0x0566000e,
     0xf57c350f, 0xc023849f, 0x22c6aa08, 0xd348bc44, 0xc4a353ee, 0xcd773428, 0xd4982db5, 0x4fe196fe,
     0x2c800be5, 0xda30b32d, 0x77d01c3b, 0xd1cd0a4c, 0x3ace484c, 0xeccea3f5, 0xc240ebd9, 0xd22a1c60,
     0x6c69efee, 0x879537f1, 0x1ae373ac, 0xf93ccba3, 0x7f077ad9, 0x11f812d8, 0x5649dcc5, 0x8514bdda,
     0x70b772a8, 0xb52c939d, 0xde266ef5, 0xe54100bd, 0x7d748d04, 0x18b7a10d, 0x2ec2a43c, 0x91cc4674,
     0xdd05ec6b, 0x6fe1735b, 0xec2e0b9b, 0x65614304, 0x6719e45c, 0xa82fdd63, 0xf3048883, 0x0c4f40be,
     0xf3c9611b, 0x511110b0, 0x8ac1f475, 0xa1733aec, 0xccb27641, 0x1be31789, 0x99a438cf, 0x57e0a9cb,
     0x6080758f, 0x588a0a97, 0x7afe8ae2, 0xb095434b, 0x089f5c4a, 0xfa95b0dd, 0x35480a59, 0xf1fa8d78,
     0x32798a8c, 0x8a0df56f, 0x970c8c0e, 0x524a415d]"
  unfolding tdss_callbacks_04_def by (intro map_fst_Cons map_fst_Nil)

lemma keys_05:
  "map fst tdss_callbacks_05 = [
     0x4cee6ef3, 0xe50511d8, 0x73164160, 0xaa48327d, 0x204d3878, 0x36b091de, 0x1f814f1f, 0xe7512126,
     0xa13dc52f, 0x62d350c9, 0xe22045fc, 0xfb95abcd, 0xa69dae02, 0x3bcbf734, 0x46dc1fb9, 0x2c171f72,
     0x7438f7e8, 0x77744d4a, 0x14f9162c, 0x71bd134c, 0x214a8cdf, 0xe4def5db, 0xe56dbf05, 0xda429411,
     0x514519e2, 0x1e87342b, 0x11b58939, 0x9852f9c6, 0xded218e0, 0x051448e5, 0x15590068, 0x9801d2f7,
     0x6c37c15c, 0x6319d612, 0x3a556302, 0xfb0a5727, 0x994c9882, 0x0ef02ce6, 0x5910cccb, 0x36f8c871,
     0x55555558, 0x55555556, 0x9ba29cc1, 0xf9a39f4f, 0x87232bc7, 0x59534e4c, 0x9efc6326, 0xfd8e711f,
     0x1b0c841a, 0xba4baec5, 0xd5b3b9f9, 0x236df622, 0x5cc761bd, 0xb3fb5361, 0xa575739d, 0xfa56ce36,
     0x13d6dd27, 0xab7ec0a0, 0x62718a82, 0xc878527e, 0xfda9a7b7, 0x3bf703dc, 0x6601d14f, 0x4a70994c,
     0xc21f497e, 0xed18c118, 0x23734b06, 0xc4b9f9bb, 0x5dab1af4, 0x55555554, 0x6242c773, 0xbc7fc6cd,
     0x53d69076, 0x091d11eb, 0x7c596b46, 0xff544e65, 0xe9baa668, 0x1c295881, 0x6847d0ab, 0x162ecc1f,
     0x9c750409, 0x0949d9dc, 0xae500895, 0xbdf9653b, 0x75eaea5a, 0x4505f8e1, 0x60311a9b, 0xd34fa24e,
     0x0296f104, 0x1117dd5f, 0x2049d70c, 0x55b3e8fb, 0x0e092e16, 0x35d81a95, 0x4c8e2273, 0x6722dd6f,
     0xb53f7a68, 0x7f192d8f, 0xe1427e6f, 0x48feb267]"
  unfolding tdss_callbacks_05_def by (intro map_fst_Cons map_fst_Nil)

lemma keys_06:
  "map fst tdss_callbacks_06 = [
     0xd1526db1, 0xbc5863e8, 0xcfcdc44d, 0xb8f0deff, 0x061b0044, 0x08b8a729, 0x17b1578b, 0xb921bd04,
     0xbea2f424, 0x0a8f1624, 0x40732163, 0x7780bcb4, 0x589db397, 0x4f0b39b8, 0x377496f0, 0x419b0df2,
     0x6d0b1604, 0x3072cfa1, 0xee72f79a, 0x1da7158f, 0x8987f311, 0xc812ac7e, 0x6a4ee832, 0x66afa166,
     0x077fa99f, 0x66b91b70, 0x9010ef6f, 0x98914110, 0x522d5a7d, 0xc4f9186b, 0x3fedc75f, 0x4d392343,
     0xa4a95186, 0x1fb33026, 0xc661ad08, 0xc0977421, 0x3d7758e1, 0x3dc0f114, 0x9cdf08cd, 0xd360e72c,
     0x2ca51fd1, 0x038a08d3, 0x1e251c95, 0x18cb9f78, 0xc45a6536, 0xa098d6af, 0xbfb9f457, 0x98f6ac75,
     0x8c39793f, 0xe09e1fb8, 0x2bf7ee23, 0x0e0310d7, 0x6f02f748, 0xec22cfcd, 0x17c6b5f6, 0x8c05f1c9,
     0x780a0310, 0x28ecf961, 0xe3309f7f, 0x01eb3758, 0xf3ae2eed, 0x58fffcd0, 0x9299359f, 0xd0028438,
     0x69796de9, 0x3c20629f, 0x1d1b1245, 0x770656a8, 0x77d440ff, 0xd95adc84, 0x74dc404d, 0x890c3d89,
     0xafeb712e, 0xee8c1e86, 0x2a286531, 0x8953ad37, 0xb2e1bf08, 0x1ca48f57, 0xc642724e, 0x927c55b4,
     0x94254732, 0x9880f658, 0xd27ff082, 0xfcaafeb7, 0x2c38b8cf, 0x64600527, 0x1abfb575, 0x72f0eaae,
     0xbad07584, 0x4e45abe9, 0x196683d9, 0x18798952, 0xf141b5e1, 0x5a17b5e5, 0x2dc173c8, 0x1837c364,
     0xf5235d55, 0x64bd0306, 0xf52ff27f, 0xfa4f0bb5]"
  unfolding tdss_callbacks_06_def by (intro map_fst_Cons map_fst_Nil)

lemma keys_07:
  "map fst tdss_callbacks_07 = [
     0xdfdaabe1, 0x14637196, 0xfbd2c296, 0x032c3e77, 0xc331e80a, 0x74d456fa, 0xf3b7acc9, 0xe4c123d6,
     0xd8aa840f, 0xd02e7fd4, 0x89938781, 0xf8ab7dfb, 0xa6e45987, 0xe66fbf7b, 0x23ab23d2, 0xfb52dc99,
     0xd184e841, 0x9664f57f, 0xd33f43f3, 0xce4e82fd, 0xf9c44144, 0x4843b0fd, 0xb3ba0635, 0xe5bbfe1a,
     0x8f2ab2ec, 0x0f94e5f1, 0xabe9ca25, 0x06b3765b, 0x61a6d436, 0x5b38c6c1, 0x34e794bd, 0x1e287d04,
     0x2dc53a7d, 0x3e46de5d, 0xe628a145, 0x4847d92a, 0xc13d1c11, 0x7f023ae6, 0x208e68c9, 0x3a20ecb8,
     0xe062db83, 0x9eddf188, 0x57e2f66c, 0xe7026d0d, 0xffc86587, 0x3751b49e, 0xc1f8e69a, 0x80c99768,
     0x56e9f0e4, 0xd95e73bb, 0x9609a51c, 0xb549da53, 0x7a7c17a4, 0x7ef0dd87, 0x9fc00e65, 0x50f5c392,
     0xa429b886, 0xb1db7c7e, 0x4a95e84e, 0x4d8ddec8, 0xb8bc5b0c, 0x193b4417, 0x3417d728, 0xca05d50e,
     0xc10eb2cf, 0x20adaef8, 0x9c95f7bb, 0x179be863, 0x1023dbe8, 0x7f3b18ea, 0x9b447325, 0xe86a2c74,
     0xf03064d8, 0x9c3d198e, 0x46a2ce98, 0x27d69997, 0x7da07ec9, 0x7b8e7de6, 0x17bae2e6, 0x1e36fded,
     0xf392b7f4, 0x3bb3b94a, 0xd9915325, 0xade6b004, 0x1cd7bf0d, 0x40181ffe, 0xfb95c6c4, 0xd1219bdd,
     0xbdfb0426, 0xa4dd4c08, 0xfabadc5f, 0x0352dafa, 0xdb9e70d2, 0x5719bacc, 0x4f96cb18, 0x184b35ce,
     0x4c81c1ba, 0x0d09e07b, 0x131cc67f, 0xd66b66c9]"
  unfolding tdss_callbacks_07_def by (intro map_fst_Cons map_fst_Nil)

lemma keys_08:
  "map fst tdss_callbacks_08 = [
     0xd82363af, 0x0ba52007, 0x90110467, 0xadf44ee3, 0x9b89f93a, 0xdbd4feed, 0xe1746d0a, 0x2e59d922,
     0x58dbcab8, 0x1e22c78d, 0x5367e5be, 0xcbc7ee28, 0x3334b0f0, 0xdb21d0a7, 0x1cc6e91f, 0x028703c8,
     0xe67f520e, 0xffb62b95, 0x9de7a269, 0x861cc8a0, 0x0dbaeae9, 0x0438865b, 0x4a992157, 0x3c5693e9,
     0xbd507cd1, 0xf5890df1, 0xd8292816, 0x86e94f65, 0xb98886cf, 0x655e74ff, 0x2d117597, 0xf7c1b13f,
     0xee579652, 0x5508ec75, 0x3d0364ec, 0xe630b979, 0x8427bbac, 0x72091c80, 0x9bed434d, 0x9f2221c9,
     0xc239d686, 0xc30aa358, 0xcb9f372d, 0xa6b88fdf, 0xf7444763, 0xc7345e6a, 0x3f6d7b68, 0x2be0dfa4,
     0x99c1d49d, 0xc0de1bd9, 0xb71e767a, 0xa2fa4880, 0xafd93fbb, 0x683a5e46, 0x50f41ccf, 0xfc796b3f,
     0xb16a6c29, 0xbbc7515d, 0x77608b83, 0x0568a748, 0x258aff05, 0x10b78d29, 0xcb296bf8, 0xf385c1f6,
     0xeeca5ce3, 0xcad181f6, 0x2979eeb2, 0x6c47ac9f, 0xcd984aa5, 0x9ab5c58e, 0x6a596502, 0x800fd57d,
     0x2e1ee318, 0xaed6dbb2, 0x452c0e65, 0xabe9affe, 0x95d2ac92, 0xb055eaee, 0x488a7337, 0x5e3cfc4b,
     0xa6638b9a, 0xb2ae9b0c, 0x95e3fbef, 0x7fcb13a8, 0xb5a1ce5a, 0xf89cf5e8, 0x51bdb021, 0xf3f25f76,
     0x55555557, 0xfae69f56, 0xb6aef7b0, 0x92a72876, 0x0c7d53de, 0x6f038ebc, 0x7a0d7f42, 0x9fbab604,
     0x555555f5, 0x40699cd0, 0x80e11a7f, 0x94bd38ed]"
  unfolding tdss_callbacks_08_def by (intro map_fst_Cons map_fst_Nil)

lemma keys_09:
  "map fst tdss_callbacks_09 = [
     0x4792929b, 0xd95c6154, 0x55555552, 0x55555550, 0x55555551, 0x83e5de54, 0x555555f7, 0x761e6af4,
     0x020df5d0, 0xbd610bc9, 0x6cef8ac7, 0x4c4e743f, 0x28a20571, 0x64e475c2, 0x6f635b0d, 0x826f8b60,
     0xfa04579d, 0x352dca58, 0x9b69e34b, 0x73924be0, 0xbf0693d4, 0x76a6d327, 0x9c4e7e8b, 0xbb92ba95,
     0x6ed02538, 0x05f46804, 0xa367e716, 0x353a686b, 0xec338270, 0xc786ddcb, 0xfadff4ac, 0x559ebe6d,
     0xad4fc9bd, 0xc6b68300, 0xcbf24940, 0x5e7d2f39, 0x3f7ee58b, 0x638fe46b, 0x9cb070d7, 0xf3e02ea8,
     0x7c4414d3, 0x2fda2204, 0x3ded6320, 0xfdb19008, 0x56e0d474, 0x7c3c2609, 0x84551347, 0x695150d7,
     0x3d8ce53d, 0xb5223b0f, 0xc8c45a2a, 0x4bd6e798, 0x9f84f49e, 0x29632a36, 0x2ec0533f, 0x7912b71f,
     0x5bcf1675, 0xa2d24290, 0xa32dd600, 0x0ae30253, 0xb87a24d1, 0xe3ae6108, 0x9e19a1f6, 0xc06b9607,
     0x9f8d60bb, 0x1d86f70e, 0xd267dcbc, 0xa28e5559, 0x36377430, 0x0e8fe0de, 0x44f9b43d, 0x1c9b1027,
     0x9789dac4, 0xc992e15c, 0xc09be45f, 0x90dddc11, 0x22eb6aba, 0x567699b3, 0xa7ab1991, 0xc3060325,
     0xf07814c8, 0x2bebfa86, 0x5ba66c13, 0x555555fa, 0x555555f9, 0x555555f8, 0x3dbc0415, 0xf729ea98,
     0xf9a0aa09, 0x2ee9ee9e, 0xb45c69d1, 0xb7de36f2, 0x84d19185, 0xedfd405f, 0xe86602c3, 0x4fcba9c8,
     0x36585ea4, 0x947ca848, 0xccd3563d, 0x99262e37]"
  unfolding tdss_callbacks_09_def by (intro map_fst_Cons map_fst_Nil)

lemma keys_10:
  "map fst tdss_callbacks_10 = [
     0x40e9002a, 0xe5d7d19c, 0x64ff9fd5, 0x8150cbd8, 0x9cd81144, 0x3eadb1bb, 0x7e58ee9c, 0x8999602d,
     0x09cb126e, 0x419d9aee, 0xe0611f16, 0xc3c5cd23, 0x1c015b09, 0xf4f8fb61, 0xe58e95d2, 0x59ae2b16,
     0x14f2dd0a, 0x2c221edd, 0xc0e24635, 0x15ba6c40, 0xf0e3e596, 0x71e094f3, 0xedd923c5, 0xdef60797,
     0xa9e69f2e, 0xa5866b41, 0xca4c79d8, 0xd881821d, 0xdc452855, 0xb4bc68b5, 0x48f71778, 0xd116f31e,
     0x0df7534c, 0xb9ffc55b, 0xf37f2f16, 0x9e8fa6d3, 0xb6abc341, 0xc6dc0c66, 0xf89d88e5, 0x04ede3cf,
     0x33963bf9, 0x03f3f4f2, 0xd9fee60e, 0x514cd10f, 0x708e0195, 0x450a1c0a, 0x5108d648, 0x0d54b65d,
     0xeba80ff0, 0x6a3f8d65, 0x1c9618b1, 0x57f17692, 0xcc5b67cc, 0x810a9fec, 0x3c6aa187, 0x0d0a48c4,
     0x26cf8950, 0xf19ed96d, 0x22e24e22, 0xa0ee3b73, 0xb098aee6, 0xeccf1df6, 0x338e2464, 0x35a0e062,
     0x1508b6af, 0x4e9963b2, 0xd5b10c26, 0x21ce0b0e, 0x2dacca4f, 0x3b831c66, 0xe822649d, 0xafa92846,
     0x92a1df2f, 0x514e999d, 0x0f635e1b, 0x65b8c79f, 0xfda68d36, 0x15b1376a, 0x4222fa74, 0x8bba90e6,
     0xc4c8a55d, 0x5fe7025b, 0x6e2be050, 0xe470bcfd, 0x3672e09c, 0xd6b94df2, 0xe254d64e, 0x73bb643b,
     0xb86e380e, 0xbbc45b09, 0x5ea192c9, 0x83bf3d52, 0xe2c2685b, 0xbdbb0464, 0x732eef00, 0x812c2ae6,
     0x2619a90e, 0x043d4f2c, 0xa29cd42c, 0x46578472]"
  unfolding tdss_callbacks_10_def by (intro map_fst_Cons map_fst_Nil)

lemma keys_11:
  "map fst tdss_callbacks_11 = [
     0x32ca8f91, 0x8b68b0cc, 0x4facb138, 0xa8f1709b, 0x9a3bfd99, 0x6c50051c, 0xa927fec5, 0xc78fe460,
     0xc286d98f, 0x26b5dde6, 0x3f4e0648, 0xff90c417, 0x8c718e87, 0x74535f21, 0xc8edce1e, 0x0b446ae3,
     0xa6c47aaa, 0x15a3b8e3, 0x3371c354, 0x7f4b690a, 0x5b118126, 0x0e306d3a, 0xb04f2510, 0x0f0189d3,
     0x36a73f77, 0x05a954c0, 0x28abcb68, 0x55a5bb66, 0x22f3afb3, 0x0b17f890, 0x3b1adf37, 0x5b51d63f,
     0x78337739, 0xbd82b658, 0x4b0c8c0f, 0xcf1592db, 0xf64daf43, 0xe33f5613, 0x395f9d7e, 0xbc39e14b,
     0x327a30cb, 0x392718f8, 0x2e0709a5, 0xe8025ca2, 0x8614ef68, 0xe844ebff, 0x07e9f2ab, 0xbf9a776b,
     0xbf7225a4, 0x9e3cacb0, 0xc2b7d08b, 0xbf73f4da, 0x41bb0972, 0xa9776773, 0x9a901b66, 0xcacacaca,
     0x32d439a4, 0x220815b0, 0xb16e06fe, 0x3491eba9, 0xa3c85d76, 0xb8d1262b, 0x520c3870, 0x4cde0aab,
     0xfa88427a, 0x2095512f, 0x25690ce4, 0xbd38850a, 0xc97df020, 0x10ea6184, 0xd1f4d35c, 0xe9db4a3f,
     0x9493ff32, 0x560f8935, 0xd58f130a, 0x791451ed, 0x8ef8ecc0, 0x15ad9f64, 0xa3825e50, 0x719839e9,
     0xe6df7378, 0xd07ae726, 0xa9af2881, 0x969478bb, 0x3e74f5c6, 0xb60a24a6, 0x35e410a8, 0x38641628,
     0xe4599bbd, 0xf1749a22, 0xa731e257, 0xb5052fea, 0xf96e55de, 0x1ad4a04a, 0xc563c1e4, 0xd2aaf7ec,
     0x5057c497, 0x519bc2b1, 0x0823f649, 0x73f1f8dc]"
  unfolding tdss_callbacks_11_def by (intro map_fst_Cons map_fst_Nil)

lemma keys_12:
  "map fst tdss_callbacks_12 = [
     0xe06046b2, 0x276d3ec6, 0x809db6df, 0x7d861a08, 0x62d6b459, 0x8cc0d131, 0x04deb57d, 0xda69fb52,
     0x8e1a1775, 0x9ec20908, 0xd612e8ef, 0xc007cec3, 0x9fd40bd8, 0xb4c83b4c, 0x56730bcc, 0x83c95aec,
     0x98657f0d, 0xce0d37b0, 0x804361ea, 0x31b81a7f, 0xbaafe5e0, 0x3d5b64f2, 0x263d7c26, 0xef1751b5,
     0x65a0fa4d, 0x08b31c4f, 0x39f23300, 0x76768bed, 0xdb20b188, 0xa8718dc5, 0xf259a80b, 0x292c7be9,
     0xd935d8fb, 0xcde200d1, 0x48870999, 0xbfd064ec, 0x1e148390, 0xe4e88011, 0x3a58c7f4, 0xa44f3ef6,
     0x9a8ae1e1, 0x467a0766, 0x1759c560, 0xe9c69982, 0xc070d93e, 0x4f4456d3, 0x16115a96, 0x031f9590,
     0x130c8963, 0xf12bb6e1, 0x8ffa9a1f, 0xbf4dea82, 0x70abc3fd, 0x13567e8a, 0x7c8fe7b6, 0xd9d71866,
     0x6f747657, 0xd7a19d69, 0x556ec7aa, 0xae891bec, 0x25e073fc, 0xb92fb6cd, 0x98dd8936, 0x5e068047,
     0x8dee6c44, 0x8e3f9ebe, 0xb390dc08, 0x34566b6a, 0xe0c0c5e5, 0x3a912d4a, 0xd45ab096, 0x909c3f94,
     0xcdc27a1f, 0x3e24e573, 0xd83d70c1, 0x2e79d779, 0x99f09745, 0xa092a980, 0x227d824b, 0x3f56aea3,
     0x500911e1, 0x4e5f810d, 0xd8411139, 0x6b56b921, 0xfb8fe43c, 0x2b8879b3, 0x770a8e74, 0xd1451883,
     0xbddde532, 0xbad0e5bb, 0xca461b5d, 0x6d1ded88, 0xadd53cb3, 0xaf509d20, 0x70a68512, 0x8d5e11ee,
     0x9acda4c0, 0xf8ec284b, 0x733f2961, 0x818426cd]"
  unfolding tdss_callbacks_12_def by (intro map_fst_Cons map_fst_Nil)

lemma keys_13:
  "map fst tdss_callbacks_13 = [
     0x9db1bc6d, 0x8742ae7f, 0xe6f9ddf3, 0x997c454a, 0x6d003d3f, 0xafe2b839, 0xfaf7e8c9, 0xe095c1a0,
     0x57adc690, 0x85e42301, 0x50ca4de1, 0x5366c915, 0xfc878fc8, 0xa2bb35cb, 0x87eabb53, 0x83761ce4,
     0x1b8f4ad1, 0xffe6ab67, 0x9d4c17c0, 0x3bd2b4a0, 0x2efe1722, 0x8504e5b6, 0xb2cbc1c0, 0x78d413a6,
     0x7a777135, 0x46659be4, 0x8adb4f79, 0x55451fa9, 0x0c7cb017, 0x6737ffb7, 0xcc92a6dc, 0x09db32d7,
     0x60e98e5f, 0xec82e140, 0x17d54f61, 0x42ff96ed, 0x5b95b3d4, 0x277add7e, 0x59ead627, 0x1c536a34,
     0x98e3cdba, 0xfb197a65, 0xe9a734fa, 0x2331b22d, 0xd07504a5, 0x77bfb61b, 0x0e17e23c, 0xcded42fe,
     0x9288dd29, 0x9c477dd8, 0x22b56751, 0xc3838076, 0xe0b0bc2e, 0x87cf7f2f, 0x91cd32a8, 0xb7ee553c,
     0x20212ca8, 0x8dca6aa5, 0x15051f54, 0x72d4742c, 0xeef579a0, 0xf0bb5152, 0x89f30f69, 0xd50f9c88,
     0x4f32c098, 0x7abe77ec, 0x86e18161, 0x6ca9c2e9, 0x3b6ddad2, 0xd5529d06, 0xbadcc1a3, 0x5755785a,
     0xc87024a2, 0xaf746786, 0x347773c5, 0x5ce14175, 0x1e8caaeb, 0x42ffd42b, 0x500e6dfa, 0x69ec56a3,
     0x3d662b7b, 0xd19ae46d, 0x39491cc8, 0x96151fed, 0xbc2eab30, 0x65427b82, 0x18be796b, 0xfffe1bac,
     0x4d5bbe0c, 0x8b73e763, 0xacae0690, 0xf888fa1a, 0x0c7f49b7, 0x5bb8e511, 0x6fb250d1, 0xa384b779,
     0xa01b22f9, 0xeb49081d, 0xbc0a57dc, 0x46e1d13d]"
  unfolding tdss_callbacks_13_def by (intro map_fst_Cons map_fst_Nil)

lemma keys_14:
  "map fst tdss_callbacks_14 = [
     0x8dbc3336, 0x48a30254, 0xf4108aa0, 0xa03e5b85, 0x3502758c, 0xd712e4be, 0x60469778, 0x05162463,
     0xd072acb4, 0xa43ad8b7, 0xcd78e586, 0x5e2ad36e, 0x58e4a740, 0x2144ca19, 0x7ae432f5, 0xf35c6d01,
     0x33f0ea47, 0x8aeabec3, 0xe0277a62, 0x64199744, 0xbbf2dda0, 0x86471d92, 0x004a8537, 0x21ec5a5f,
     0x7d6099dd, 0x829d99da, 0x027477b4, 0x1527bcac, 0x187fa0ca, 0x869d758f, 0xe8a40bd9, 0x7a700873,
     0x666220e9, 0x00be3dfa, 0x868a2aa5, 0xe537ced6, 0xa1144770, 0x34636dd8, 0xed1ecdb0, 0xcbe31e26,
     0x89137c0d, 0x06e425c4, 0x8e3ca7ee, 0xa0d0744b, 0x99a48f23, 0x3dac6a00, 0x99e3806a, 0x9d2a81e3,
     0xb320aadb, 0x8b883488, 0xea02ec33, 0xfc36954e, 0xfd5ec8f5, 0x628cbc6f, 0xdd6a8f48, 0x176f8ba1,
     0xd52f73f7, 0x88f27fbc, 0xa187d66f, 0x16bf744e, 0xf351d7ab, 0xe6ac8a6f, 0xaa0cd9e4, 0x8faee98e,
     0xd1d34a26, 0x990a3c1a, 0x243e1c66, 0xe9763aec, 0x92042ff7, 0xb5890dba, 0x79cb045d, 0xd0e8075c,
     0xf5045f1f, 0xb6213cdf, 0xcb43acde, 0xbdf78394, 0xb637edaf, 0xab42441a, 0xdcdf8607, 0x4a27eb2d,
     0xbedc9822, 0x8ea464b6, 0x6014f412, 0x31962a4c, 0x18f3d0f7, 0x621d5fa0, 0xef7ff916, 0xcbce2fe0,
     0x47a971e0, 0x12b299d4, 0xeeb46f27, 0x6410a5d2, 0x3407e51b, 0xcd303b41, 0x5585a139, 0x6a90bcb7,
     0xa7a43b17, 0xcae1aadf, 0x007efe0e, 0x4b09ebbc]"
  unfolding tdss_callbacks_14_def by (intro map_fst_Cons map_fst_Nil)

lemma keys_15:
  "map fst tdss_callbacks_15 = [
     0x528a0677, 0xb3cea0e4, 0x40bc6f52, 0xae1e508d, 0x0a4f63c0, 0xaa963b05, 0x1081464c, 0x35553762,
     0x6724abc4, 0x7e6260d7, 0xde5a0dd6, 0xdc3d824f, 0x6c3f19b9, 0x081ccf4f, 0xd912a59c, 0x034b8621,
     0x1ccb966a, 0x744694e0, 0x9bf8bb95, 0xed6a8504, 0xc7fb5e01, 0xc12622c4, 0x3c2884c1, 0x028f1114,
     0x483d270c, 0x9c14984a, 0xf7d90ce0, 0xedcdc05b, 0x148677e2, 0xab661b5b, 0x161d9628, 0x0637b7ed,
     0xfbeec0f0, 0xa8406ca9, 0xbd17a14a, 0xfb834291, 0x1e76a78c, 0x6f690963, 0xb6d45656, 0x70db6837,
     0x98a12b4b, 0x65d2b464, 0x98592475, 0x89893b45, 0xeb0467fb, 0x40771900, 0x54c01850, 0xea4b0e5c,
     0x3a0eeb22, 0xb6901959, 0x6e5f8c22, 0x07761198, 0xe10db349, 0x9a65ea1f, 0x3c46cfe6, 0xa229dd06,
     0x9d2e67c5, 0x51a48a9a, 0x2575bbb9, 0x7084a7be, 0x8e5e9873, 0xc37521c9, 0xa20db0e5, 0xa92bfe26,
     0x90866cee, 0x26ffde7d, 0xa5d72105, 0x3504914f, 0x6e6fe51c, 0x19d27f3c, 0xe16459c3, 0xee2bb969,
     0x1b3f4df7, 0xe40370a3, 0x1710f156, 0x38fe25b7, 0xb4a2e88d, 0xe511996d, 0x19360dc0, 0x871fb939,
     0x85fe86ed, 0x057eaec8, 0x56022f4d, 0x46560264, 0x564fe691, 0x4e90bfd6, 0xaca1657b, 0x154798c3,
     0x8f06529a, 0x62ba04d9, 0x12bcbd9a, 0x5a68e3f7, 0x1f2b0afd, 0x013abdb3, 0x39a51dfb, 0x688a30aa,
     0xbec268ef, 0xb4afcfb0, 0x6a7e7366, 0xab0f6b1e]"
  unfolding tdss_callbacks_15_def by (intro map_fst_Cons map_fst_Nil)

lemma keys_16:
  "map fst tdss_callbacks_16 = [
     0x2661bf09, 0xfa0f3ca2, 0xea4cb65b, 0xee3b272a, 0x330b5424, 0x4214f37f, 0x25d6c9c7, 0x571d2742,
     0x9c974fdf, 0x9961fd5c, 0x2f2f21bf, 0x68c13933, 0xc6649e31, 0x9a422c20, 0xd15de04d, 0x9375341e,
     0xebe46819, 0x78d4dec1, 0x16812688, 0x2b2fbd4e, 0x914fbf11, 0xd3f45784, 0x11f1331c, 0x43ae3dec,
     0x0bb2d201, 0x8216fba3, 0x80ece81a, 0xa7332b73, 0xda22d9ad, 0x12b9417b, 0x95313b0c, 0x4c43da18,
     0x1bfbd823, 0x5c486927, 0x6baa8508, 0x7f891213, 0x74ae4240, 0x725b04c3, 0xe317af7e, 0x2064674e,
     0x3e11affb, 0xa4bcc6fe, 0x6a9d7b35, 0x00f49ca0, 0x5d75a138, 0xa8fb1981, 0x4afe8f6d, 0x03173d78,
     0x25939651, 0x0a041495, 0xedd4882a, 0xa56c2a3e, 0xa99fca4f, 0xeea8e46e, 0x096a18d5, 0xf18cda44,
     0x2000bcc3, 0x4da54231, 0xb15a9afc, 0xe3a6cfb5, 0xc7025931, 0x24e6818d, 0x9b2754a8, 0xde7b673d,
     0xb304a621, 0x21e753bc, 0x8f8c0e4e, 0xa9d6db1f, 0x92d33a0e, 0x938458c1, 0xf2fb8319, 0xcab35e18,
     0xb29ad7cc, 0xd6016d7a, 0x200250ba, 0x5214c89d, 0x075cf7a8, 0xedf17c12, 0x745559cc, 0x8ea4a881,
     0x771095da, 0x2e13f4c3, 0xd10d979a, 0x69d3ab26, 0x4f11bae1, 0xd559d8c8, 0xecd75d8c, 0x990d1493,
     0x22e8ceb0, 0xd9ccc4ef, 0x720535ec, 0x7007b451, 0x1c60e608, 0x09d05049, 0x77ebc742, 0x07bf09fc,
     0x008c703f, 0xedb93949, 0xe26f42f1, 0x22e49072]"
  unfolding tdss_callbacks_16_def by (intro map_fst_Cons map_fst_Nil)

lemma keys_17:
  "map fst tdss_callbacks_17 = [
     0xca30a5b1, 0x0d91a548, 0xc10658a8, 0x55555553, 0xf72887d3, 0x5a04a49f, 0x388fa391, 0xee9f4a4d,
     0xe831c556, 0x435bb987, 0xa437c3ed, 0xf04f91ec, 0x8af40b25, 0x05086cf8, 0xa12f40b8, 0x63117f24,
     0xccb03657, 0x0b57f346, 0x764386d7, 0xdd484d64, 0xe2c9d33e, 0xcac943f2, 0x1c570ed1, 0xf9c8bcc6,
     0xc61acbd8, 0xe89c45b2, 0x54b56617, 0xeb1477e8, 0x5f07b4bc, 0xfa64e172, 0xca820ed7, 0x7311ca11,
     0x85849473, 0xc586da1c, 0xd41a5167, 0xa31ea0b5, 0x1cb5c415]"
  unfolding tdss_callbacks_17_def by (intro map_fst_Cons map_fst_Nil)

subsection \<open>Lookups\<close>

lemma distinct_keys_04: "distinct (map fst tdss_callbacks_04)"
  by (simp add: keys_04)

lemma distinct_keys_05: "distinct (map fst tdss_callbacks_05)"
  by (simp add: keys_05)

lemma distinct_keys_09: "distinct (map fst tdss_callbacks_09)"
  by (simp add: keys_09)

lemma distinct_keys_13: "distinct (map fst tdss_callbacks_13)"
  by (simp add: keys_13)

lemma distinct_keys_17: "distinct (map fst tdss_callbacks_17)"
  by (simp add: keys_17)


lemma registry_0x1cb5c415:
  "map_of (rev tdss_callbacks) 0x1cb5c415 = Some (Tuple3 None ''_vector'' VNone)"
proof -
  have c01: "map_of (rev tdss_callbacks_01) 0x1cb5c415 = None"
    by (rule map_of_rev_absent) (simp add: keys_01)
  have c02: "map_of (rev tdss_callbacks_02) 0x1cb5c415 = None"
    by (rule map_of_rev_absent) (simp add: keys_02)
  have c03: "map_of (rev tdss_callbacks_03) 0x1cb5c415 = None"
    by (rule map_of_rev_absent) (simp add: keys_03)
  have c04: "map_of (rev tdss_callbacks_04) 0x1cb5c415 = None"
    by (rule map_of_rev_absent) (simp add: keys_04)
  have c05: "map_of (rev tdss_callbacks_05) 0x1cb5c415 = None"
    by (rule map_of_rev_absent) (simp add: keys_05)
  have c06: "map_of (rev tdss_callbacks_06) 0x1cb5c415 = None"
    by (rule map_of_rev_absent) (simp add: keys_06)
  have c07: "map_of (rev tdss_callbacks_07) 0x1cb5c415 = None"
    by (rule map_of_rev_absent) (simp add: keys_07)
  have c08: "map_of (rev tdss_callbacks_08) 0x1cb5c415 = None"
    by (rule map_of_rev_absent) (simp add: keys_08)
  have c09: "map_of (rev tdss_callbacks_09) 0x1cb5c415 = None"
    by (rule map_of_rev_absent) (simp add: keys_09)
  have c10: "map_of (rev tdss_callbacks_10) 0x1cb5c415 = None"
    by (rule map_of_rev_absent) (simp add: keys_10)
  have c11: "map_of (rev tdss_callbacks_11) 0x1cb5c415 = None"
    by (rule map_of_rev_absent) (simp add: keys_11)
  have c12: "map_of (rev tdss_callbacks_12) 0x1cb5c415 = None"
    by (rule map_of_rev_absent) (simp add: keys_12)
  have c13: "map_of (rev tdss_callbacks_13) 0x1cb5c415 = None"
    by (rule map_of_rev_absent) (simp add: keys_13)
  have c14: "map_of (rev tdss_callbacks_14) 0x1cb5c415 = None"
    by (rule map_of_rev_absent) (simp add: keys_14)
  have c15: "map_of (rev tdss_callbacks_15) 0x1cb5c415 = None"
    by (rule map_of_rev_absent) (simp add: keys_15)
  have c16: "map_of (rev tdss_callbacks_16) 0x1cb5c415 = None"
    by (rule map_of_rev_absent) (simp add: keys_16)
  have "map_of tdss_callbacks_17 0x1cb5c415 = Some (Tuple3 None ''_vector'' VNone)"
    unfolding tdss_callbacks_17_def by ((rule map_of_Cons_hit) | (rule map_of_Cons_skip, simp))+
  then have c17: "map_of (rev tdss_callbacks_17) 0x1cb5c415 = Some (Tuple3 None ''_vector'' VNone)"
    by (simp only: map_of_rev_distinct [OF distinct_keys_17])
  show ?thesis
    unfolding tdss_callbacks_def
    by (intro rev_lookup_append_None rev_lookup_append_right rev_lookup_append_left
          c01 c02 c03 c04 c05 c06 c07 c08 c09 c10 c11 c12 c13 c14 c15 c16 c17)
qed

lemma registry_0x9db1bc6d:
  "map_of (rev tdss_callbacks) 0x9db1bc6d = Some (Tuple3 (Some ''peer_user_struct'') ''peer_user'' VNone)"
proof -
  have c01: "map_of (rev tdss_callbacks_01) 0x9db1bc6d = None"
    by (rule map_of_rev_absent) (simp add: keys_01)
  have c02: "map_of (rev tdss_callbacks_02) 0x9db1bc6d = None"
    by (rule map_of_rev_absent) (simp add: keys_02)
  have c03: "map_of (rev tdss_callbacks_03) 0x9db1bc6d = None"
    by (rule map_of_rev_absent) (simp add: keys_03)
  have c04: "map_of (rev tdss_callbacks_04) 0x9db1bc6d = None"
    by (rule map_of_rev_absent) (simp add: keys_04)
  have c05: "map_of (rev tdss_callbacks_05) 0x9db1bc6d = None"
    by (rule map_of_rev_absent) (simp add: keys_05)
  have c06: "map_of (rev tdss_callbacks_06) 0x9db1bc6d = None"
    by (rule map_of_rev_absent) (simp add: keys_06)
  have c07: "map_of (rev tdss_callbacks_07) 0x9db1bc6d = None"
    by (rule map_of_rev_absent) (simp add: keys_07)
  have c08: "map_of (rev tdss_callbacks_08) 0x9db1bc6d = None"
    by (rule map_of_rev_absent) (simp add: keys_08)
  have c09: "map_of (rev tdss_callbacks_09) 0x9db1bc6d = None"
    by (rule map_of_rev_absent) (simp add: keys_09)
  have c10: "map_of (rev tdss_callbacks_10) 0x9db1bc6d = None"
    by (rule map_of_rev_absent) (simp add: keys_10)
  have c11: "map_of (rev tdss_callbacks_11) 0x9db1bc6d = None"
    by (rule map_of_rev_absent) (simp add: keys_11)
  have c12: "map_of (rev tdss_callbacks_12) 0x9db1bc6d = None"
    by (rule map_of_rev_absent) (simp add: keys_12)
  have "map_of tdss_callbacks_13 0x9db1bc6d = Some (Tuple3 (Some ''peer_user_struct'') ''peer_user'' VNone)"
    unfolding tdss_callbacks_13_def by ((rule map_of_Cons_hit) | (rule map_of_Cons_skip, simp))+
  then have c13: "map_of (rev tdss_callbacks_13) 0x9db1bc6d = Some (Tuple3 (Some ''peer_user_struct'') ''peer_user'' VNone)"
    by (simp only: map_of_rev_distinct [OF distinct_keys_13])
  have c14: "map_of (rev tdss_callbacks_14) 0x9db1bc6d = None"
    by (rule map_of_rev_absent) (simp add: keys_14)
  have c15: "map_of (rev tdss_callbacks_15) 0x9db1bc6d = None"
    by (rule map_of_rev_absent) (simp add: keys_15)
  have c16: "map_of (rev tdss_callbacks_16) 0x9db1bc6d = None"
    by (rule map_of_rev_absent) (simp add: keys_16)
  have c17: "map_of (rev tdss_callbacks_17) 0x9db1bc6d = None"
    by (rule map_of_rev_absent) (simp add: keys_17)
  show ?thesis
    unfolding tdss_callbacks_def
    by (intro rev_lookup_append_None rev_lookup_append_right rev_lookup_append_left
          c01 c02 c03 c04 c05 c06 c07 c08 c09 c10 c11 c12 c13 c14 c15 c16 c17)
qed

lemma registry_0x6643b654:
  "map_of (rev tdss_callbacks) 0x6643b654 = Some (Tuple2 None ''client_dh_inner_data_v_0_1_317'')"
proof -
  have c01: "map_of (rev tdss_callbacks_01) 0x6643b654 = None"
    by (rule map_of_rev_absent) (simp add: keys_01)
  have c02: "map_of (rev tdss_callbacks_02) 0x6643b654 = None"
    by (rule map_of_rev_absent) (simp add: keys_02)
  have c03: "map_of (rev tdss_callbacks_03) 0x6643b654 = None"
    by (rule map_of_rev_absent) (simp add: keys_03)
  have "map_of tdss_callbacks_04 0x6643b654 = Some (Tuple2 None ''client_dh_inner_data_v_0_1_317'')"
    unfolding tdss_callbacks_04_def by ((rule map_of_Cons_hit) | (rule map_of_Cons_skip, simp))+
  then have c04: "map_of (rev tdss_callbacks_04) 0x6643b654 = Some (Tuple2 None ''client_dh_inner_data_v_0_1_317'')"
    by (simp only: map_of_rev_distinct [OF distinct_keys_04])
  have c05: "map_of (rev tdss_callbacks_05) 0x6643b654 = None"
    by (rule map_of_rev_absent) (simp add: keys_05)
  have c06: "map_of (rev tdss_callbacks_06) 0x6643b654 = None"
    by (rule map_of_rev_absent) (simp add: keys_06)
  have c07: "map_of (rev tdss_callbacks_07) 0x6643b654 = None"
    by (rule map_of_rev_absent) (simp add: keys_07)
  have c08: "map_of (rev tdss_callbacks_08) 0x6643b654 = None"
    by (rule map_of_rev_absent) (simp add: keys_08)
  have c09: "map_of (rev tdss_callbacks_09) 0x6643b654 = None"
    by (rule map_of_rev_absent) (simp add: keys_09)
  have c10: "map_of (rev tdss_callbacks_10) 0x6643b654 = None"
    by (rule map_of_rev_absent) (simp add: keys_10)
  have c11: "map_of (rev tdss_callbacks_11) 0x6643b654 = None"
    by (rule map_of_rev_absent) (simp add: keys_11)
  have c12: "map_of (rev tdss_callbacks_12) 0x6643b654 = None"
    by (rule map_of_rev_absent) (simp add: keys_12)
  have c13: "map_of (rev tdss_callbacks_13) 0x6643b654 = None"
    by (rule map_of_rev_absent) (simp add: keys_13)
  have c14: "map_of (rev tdss_callbacks_14) 0x6643b654 = None"
    by (rule map_of_rev_absent) (simp add: keys_14)
  have c15: "map_of (rev tdss_callbacks_15) 0x6643b654 = None"
    by (rule map_of_rev_absent) (simp add: keys_15)
  have c16: "map_of (rev tdss_callbacks_16) 0x6643b654 = None"
    by (rule map_of_rev_absent) (simp add: keys_16)
  have c17: "map_of (rev tdss_callbacks_17) 0x6643b654 = None"
    by (rule map_of_rev_absent) (simp add: keys_17)
  show ?thesis
    unfolding tdss_callbacks_def
    by (intro rev_lookup_append_None rev_lookup_append_right rev_lookup_append_left
          c01 c02 c03 c04 c05 c06 c07 c08 c09 c10 c11 c12 c13 c14 c15 c16 c17)
qed

lemma registry_0x475cdbd5:
  "map_of (rev tdss_callbacks) 0x475cdbd5 = Some (Tuple2 (Some ''chat_photo_layer115_struct'') ''chat_photo_layer115'')"
proof -
  have c01: "map_of (rev tdss_callbacks_01) 0x475cdbd5 = None"
    by (rule map_of_rev_absent) (simp add: keys_01)
  have c02: "map_of (rev tdss_callbacks_02) 0x475cdbd5 = None"
    by (rule map_of_rev_absent) (simp add: keys_02)
  have c03: "map_of (rev tdss_callbacks_03) 0x475cdbd5 = None"
    by (rule map_of_rev_absent) (simp add: keys_03)
  have "map_of tdss_callbacks_04 0x475cdbd5 = Some (Tuple2 (Some ''chat_photo_layer115_struct'') ''chat_photo_layer115'')"
    unfolding tdss_callbacks_04_def by ((rule map_of_Cons_hit) | (rule map_of_Cons_skip, simp))+
  then have c04: "map_of (rev tdss_callbacks_04) 0x475cdbd5 = Some (Tuple2 (Some ''chat_photo_layer115_struct'') ''chat_photo_layer115'')"
    by (simp only: map_of_rev_distinct [OF distinct_keys_04])
  have c05: "map_of (rev tdss_callbacks_05) 0x475cdbd5 = None"
    by (rule map_of_rev_absent) (simp add: keys_05)
  have c06: "map_of (rev tdss_callbacks_06) 0x475cdbd5 = None"
    by (rule map_of_rev_absent) (simp add: keys_06)
  have c07: "map_of (rev tdss_callbacks_07) 0x475cdbd5 = None"
    by (rule map_of_rev_absent) (simp add: keys_07)
  have c08: "map_of (rev tdss_callbacks_08) 0x475cdbd5 = None"
    by (rule map_of_rev_absent) (simp add: keys_08)
  have c09: "map_of (rev tdss_callbacks_09) 0x475cdbd5 = None"
    by (rule map_of_rev_absent) (simp add: keys_09)
  have c10: "map_of (rev tdss_callbacks_10) 0x475cdbd5 = None"
    by (rule map_of_rev_absent) (simp add: keys_10)
  have c11: "map_of (rev tdss_callbacks_11) 0x475cdbd5 = None"
    by (rule map_of_rev_absent) (simp add: keys_11)
  have c12: "map_of (rev tdss_callbacks_12) 0x475cdbd5 = None"
    by (rule map_of_rev_absent) (simp add: keys_12)
  have c13: "map_of (rev tdss_callbacks_13) 0x475cdbd5 = None"
    by (rule map_of_rev_absent) (simp add: keys_13)
  have c14: "map_of (rev tdss_callbacks_14) 0x475cdbd5 = None"
    by (rule map_of_rev_absent) (simp add: keys_14)
  have c15: "map_of (rev tdss_callbacks_15) 0x475cdbd5 = None"
    by (rule map_of_rev_absent) (simp add: keys_15)
  have c16: "map_of (rev tdss_callbacks_16) 0x475cdbd5 = None"
    by (rule map_of_rev_absent) (simp add: keys_16)
  have c17: "map_of (rev tdss_callbacks_17) 0x475cdbd5 = None"
    by (rule map_of_rev_absent) (simp add: keys_17)
  show ?thesis
    unfolding tdss_callbacks_def
    by (intro rev_lookup_append_None rev_lookup_append_right rev_lookup_append_left
          c01 c02 c03 c04 c05 c06 c07 c08 c09 c10 c11 c12 c13 c14 c15 c16 c17)
qed

lemma registry_0x62718a82:
  "map_of (rev tdss_callbacks) 0x62718a82 = Some (Tuple3 (Some ''encrypted_chat_requested_struct'') ''encrypted_chat_requested'' VNone)"
proof -
  have c01: "map_of (rev tdss_callbacks_01) 0x62718a82 = None"
    by (rule map_of_rev_absent) (simp add: keys_01)
  have c02: "map_of (rev tdss_callbacks_02) 0x62718a82 = None"
    by (rule map_of_rev_absent) (simp add: keys_02)
  have c03: "map_of (rev tdss_callbacks_03) 0x62718a82 = None"
    by (rule map_of_rev_absent) (simp add: keys_03)
  have c04: "map_of (rev tdss_callbacks_04) 0x62718a82 = None"
    by (rule map_of_rev_absent) (simp add: keys_04)
  have "map_of tdss_callbacks_05 0x62718a82 = Some (Tuple3 (Some ''encrypted_chat_requested_struct'') ''encrypted_chat_requested'' VNone)"
    unfolding tdss_callbacks_05_def by ((rule map_of_Cons_hit) | (rule map_of_Cons_skip, simp))+
  then have c05: "map_of (rev tdss_callbacks_05) 0x62718a82 = Some (Tuple3 (Some ''encrypted_chat_requested_struct'') ''encrypted_chat_requested'' VNone)"
    by (simp only: map_of_rev_distinct [OF distinct_keys_05])
  have c06: "map_of (rev tdss_callbacks_06) 0x62718a82 = None"
    by (rule map_of_rev_absent) (simp add: keys_06)
  have c07: "map_of (rev tdss_callbacks_07) 0x62718a82 = None"
    by (rule map_of_rev_absent) (simp add: keys_07)
  have c08: "map_of (rev tdss_callbacks_08) 0x62718a82 = None"
    by (rule map_of_rev_absent) (simp add: keys_08)
  have c09: "map_of (rev tdss_callbacks_09) 0x62718a82 = None"
    by (rule map_of_rev_absent) (simp add: keys_09)
  have c10: "map_of (rev tdss_callbacks_10) 0x62718a82 = None"
    by (rule map_of_rev_absent) (simp add: keys_10)
  have c11: "map_of (rev tdss_callbacks_11) 0x62718a82 = None"
    by (rule map_of_rev_absent) (simp add: keys_11)
  have c12: "map_of (rev tdss_callbacks_12) 0x62718a82 = None"
    by (rule map_of_rev_absent) (simp add: keys_12)
  have c13: "map_of (rev tdss_callbacks_13) 0x62718a82 = None"
    by (rule map_of_rev_absent) (simp add: keys_13)
  have c14: "map_of (rev tdss_callbacks_14) 0x62718a82 = None"
    by (rule map_of_rev_absent) (simp add: keys_14)
  have c15: "map_of (rev tdss_callbacks_15) 0x62718a82 = None"
    by (rule map_of_rev_absent) (simp add: keys_15)
  have c16: "map_of (rev tdss_callbacks_16) 0x62718a82 = None"
    by (rule map_of_rev_absent) (simp add: keys_16)
  have c17: "map_of (rev tdss_callbacks_17) 0x62718a82 = None"
    by (rule map_of_rev_absent) (simp add: keys_17)
  show ?thesis
    unfolding tdss_callbacks_def
    by (intro rev_lookup_append_None rev_lookup_append_right rev_lookup_append_left
          c01 c02 c03 c04 c05 c06 c07 c08 c09 c10 c11 c12 c13 c14 c15 c16 c17)
qed

lemma registry_0xc06b9607:
  "map_of (rev tdss_callbacks) 0xc06b9607 = Some (Tuple3 (Some ''message_service_layer48_struct'') ''message_service_layer48'' VNone)"
proof -
  have c01: "map_of (rev tdss_callbacks_01) 0xc06b9607 = None"
    by (rule map_of_rev_absent) (simp add: keys_01)
  have c02: "map_of (rev tdss_callbacks_02) 0xc06b9607 = None"
    by (rule map_of_rev_absent) (simp add: keys_02)
  have c03: "map_of (rev tdss_callbacks_03) 0xc06b9607 = None"
    by (rule map_of_rev_absent) (simp add: keys_03)
  have c04: "map_of (rev tdss_callbacks_04) 0xc06b9607 = None"
    by (rule map_of_rev_absent) (simp add: keys_04)
  have c05: "map_of (rev tdss_callbacks_05) 0xc06b9607 = None"
    by (rule map_of_rev_absent) (simp add: keys_05)
  have c06: "map_of (rev tdss_callbacks_06) 0xc06b9607 = None"
    by (rule map_of_rev_absent) (simp add: keys_06)
  have c07: "map_of (rev tdss_callbacks_07) 0xc06b9607 = None"
    by (rule map_of_rev_absent) (simp add: keys_07)
  have c08: "map_of (rev tdss_callbacks_08) 0xc06b9607 = None"
    by (rule map_of_rev_absent) (simp add: keys_08)
  have "map_of tdss_callbacks_09 0xc06b9607 = Some (Tuple3 (Some ''message_service_layer48_struct'') ''message_service_layer48'' VNone)"
    unfolding tdss_callbacks_09_def by ((rule map_of_Cons_hit) | (rule map_of_Cons_skip, simp))+
  then have c09: "map_of (rev tdss_callbacks_09) 0xc06b9607 = Some (Tuple3 (Some ''message_service_layer48_struct'') ''message_service_layer48'' VNone)"
    by (simp only: map_of_rev_distinct [OF distinct_keys_09])
  have c10: "map_of (rev tdss_callbacks_10) 0xc06b9607 = None"
    by (rule map_of_rev_absent) (simp add: keys_10)
  have c11: "map_of (rev tdss_callbacks_11) 0xc06b9607 = None"
    by (rule map_of_rev_absent) (simp add: keys_11)
  have c12: "map_of (rev tdss_callbacks_12) 0xc06b9607 = None"
    by (rule map_of_rev_absent) (simp add: keys_12)
  have c13: "map_of (rev tdss_callbacks_13) 0xc06b9607 = None"
    by (rule map_of_rev_absent) (simp add: keys_13)
  have c14: "map_of (rev tdss_callbacks_14) 0xc06b9607 = None"
    by (rule map_of_rev_absent) (simp add: keys_14)
  have c15: "map_of (rev tdss_callbacks_15) 0xc06b9607 = None"
    by (rule map_of_rev_absent) (simp add: keys_15)
  have c16: "map_of (rev tdss_callbacks_16) 0xc06b9607 = None"
    by (rule map_of_rev_absent) (simp add: keys_16)
  have c17: "map_of (rev tdss_callbacks_17) 0xc06b9607 = None"
    by (rule map_of_rev_absent) (simp add: keys_17)
  show ?thesis
    unfolding tdss_callbacks_def
    by (intro rev_lookup_append_None rev_lookup_append_right rev_lookup_append_left
          c01 c02 c03 c04 c05 c06 c07 c08 c09 c10 c11 c12 c13 c14 c15 c16 c17)
qed

lemma registry_0xc09be45f:
  "map_of (rev tdss_callbacks) 0xc09be45f = Some (Tuple3 (Some ''message_layer68_struct'') ''message_layer68'' VNone)"
proof -
  have c01: "map_of (rev tdss_callbacks_01) 0xc09be45f = None"
    by (rule map_of_rev_absent) (simp add: keys_01)
  have c02: "map_of (rev tdss_callbacks_02) 0xc09be45f = None"
    by (rule map_of_rev_absent) (simp add: keys_02)
  have c03: "map_of (rev tdss_callbacks_03) 0xc09be45f = None"
    by (rule map_of_rev_absent) (simp add: keys_03)
  have c04: "map_of (rev tdss_callbacks_04) 0xc09be45f = None"
    by (rule map_of_rev_absent) (simp add: keys_04)
  have c05: "map_of (rev tdss_callbacks_05) 0xc09be45f = None"
    by (rule map_of_rev_absent) (simp add: keys_05)
  have c06: "map_of (rev tdss_callbacks_06) 0xc09be45f = None"
    by (rule map_of_rev_absent) (simp add: keys_06)
  have c07: "map_of (rev tdss_callbacks_07) 0xc09be45f = None"
    by (rule map_of_rev_absent) (simp add: keys_07)
  have c08: "map_of (rev tdss_callbacks_08) 0xc09be45f = None"
    by (rule map_of_rev_absent) (simp add: keys_08)
  have "map_of tdss_callbacks_09 0xc09be45f = Some (Tuple3 (Some ''message_layer68_struct'') ''message_layer68'' VNone)"
    unfolding tdss_callbacks_09_def by ((rule map_of_Cons_hit) | (rule map_of_Cons_skip, simp))+
  then have c09: "map_of (rev tdss_callbacks_09) 0xc09be45f = Some (Tuple3 (Some ''message_layer68_struct'') ''message_layer68'' VNone)"
    by (simp only: map_of_rev_distinct [OF distinct_keys_09])
  have c10: "map_of (rev tdss_callbacks_10) 0xc09be45f = None"
    by (rule map_of_rev_absent) (simp add: keys_10)
  have c11: "map_of (rev tdss_callbacks_11) 0xc09be45f = None"
    by (rule map_of_rev_absent) (simp add: keys_11)
  have c12: "map_of (rev tdss_callbacks_12) 0xc09be45f = None"
    by (rule map_of_rev_absent) (simp add: keys_12)
  have c13: "map_of (rev tdss_callbacks_13) 0xc09be45f = None"
    by (rule map_of_rev_absent) (simp add: keys_13)
  have c14: "map_of (rev tdss_callbacks_14) 0xc09be45f = None"
    by (rule map_of_rev_absent) (simp add: keys_14)
  have c15: "map_of (rev tdss_callbacks_15) 0xc09be45f = None"
    by (rule map_of_rev_absent) (simp add: keys_15)
  have c16: "map_of (rev tdss_callbacks_16) 0xc09be45f = None"
    by (rule map_of_rev_absent) (simp add: keys_16)
  have c17: "map_of (rev tdss_callbacks_17) 0xc09be45f = None"
    by (rule map_of_rev_absent) (simp add: keys_17)
  show ?thesis
    unfolding tdss_callbacks_def
    by (intro rev_lookup_append_None rev_lookup_append_right rev_lookup_append_left
          c01 c02 c03 c04 c05 c06 c07 c08 c09 c10 c11 c12 c13 c14 c15 c16 c17)
qed

subsection \<open>The instance built by \<^verbatim>\<open>__init__\<close>\<close>

lemma map_of_dict_set: "map_of (dict_set d k v) = (map_of d)(k \<mapsto> v)"
  by (induction d) (auto simp: fun_eq_iff)

lemma dict_set_not_Nil: "dict_set d k v \<noteq> []"
  by (cases d) (auto split: if_splits)

lemma fold_init_step_lookup:
  "map_of (callbacks_dict (fst (fold init_step kvs st))) =
     map_of (callbacks_dict (fst st)) ++ map_of (rev kvs)"
proof (induction kvs arbitrary: st)
  case Nil
  then show ?case by simp
next
  case (Cons a kvs)
  obtain k v where a: "a = (k, v)" by (cases a)
  obtain self logged where st: "st = (self, logged)" by (cases st)
  have s: "map_of (callbacks_dict (fst (init_step a st))) = (map_of (callbacks_dict self))(k \<mapsto> v)"
    by (simp add: a st init_step_def map_of_dict_set)
  have "map_of (callbacks_dict (fst (fold init_step (a # kvs) st))) =
        (map_of (callbacks_dict self))(k \<mapsto> v) ++ map_of (rev kvs)"
    by (simp only: fold_Cons comp_apply Cons.IH [of "init_step a st"] s)
  also have "\<dots> = map_of (callbacks_dict self) ++ map_of (rev (a # kvs))"
    by (rule ext) (simp add: a map_add_def split: option.splits)
  finally show ?case by (simp add: st)
qed

lemma fold_init_step_not_Nil:
  "kvs \<noteq> [] \<or> callbacks_dict (fst st) \<noteq> [] \<Longrightarrow> callbacks_dict (fst (fold init_step kvs st)) \<noteq> []"
proof (induction kvs arbitrary: st)
  case Nil
  then show ?case by simp
next
  case (Cons a kvs)
  have "callbacks_dict (fst (init_step a st)) \<noteq> []"
    by (cases a; cases st) (simp add: init_step_def dict_set_not_Nil)
  then show ?case by (simp add: Cons.IH)
qed

lemma init_lookup: "map_of (callbacks_dict (fst init)) = map_of (rev tdss_callbacks)"
proof -
  have "fst init = fst (fold init_step tdss_callbacks (\<lparr>callbacks_dict = []\<rparr>, [Debug_building_callbacks]))"
    by (simp add: init_def split: prod.splits)
  then show ?thesis by (simp add: fold_init_step_lookup)
qed

lemma tdss_callbacks_not_Nil: "tdss_callbacks \<noteq> []"
proof -
  have "tdss_callbacks_01 \<noteq> []"
    unfolding tdss_callbacks_01_def by (rule list.distinct(2))
  then show ?thesis unfolding tdss_callbacks_def by simp
qed

lemma init_not_Nil: "callbacks_dict (fst init) \<noteq> []"
proof -
  have "fst init = fst (fold init_step tdss_callbacks (\<lparr>callbacks_dict = []\<rparr>, [Debug_building_callbacks]))"
    by (simp add: init_def split: prod.splits)
  then show ?thesis
    using fold_init_step_not_Nil [of tdss_callbacks "(\<lparr>callbacks_dict = []\<rparr>, [Debug_building_callbacks])"]
      tdss_callbacks_not_Nil
    by simp
qed

lemma callbacks_init: "callbacks (fst init) = Inr (callbacks_dict (fst init))"
  by (simp add: callbacks_def init_not_Nil)

section \<open>Facts about the dispatcher\<close>

text \<open>\<^verbatim>\<open>parse_blob\<close> on an instance built by \<^verbatim>\<open>__init__\<close>, by registry entry.\<close>

lemma parse_blob_init:
  "parse_blob env (fst init) data =
     (case map_of (rev tdss_callbacks) (from_bytes_little (take 4 data)) of
        None \<Rightarrow> (Inr VNone, [Error_unknown_signature (from_bytes_little (take 4 data))])
      | Some (Tuple2 blob_parser name) \<Rightarrow> (Inl ValueError, [])
      | Some (Tuple3 blob_parser name beautify) \<Rightarrow>
          (case blob_parser of
             None \<Rightarrow> (Inr VNone, [Warning_blob_not_supported name (from_bytes_little (take 4 data))])
           | Some m \<Rightarrow>
               (case parse (method_struct env m) data of
                  (Inl e, logged) \<Rightarrow> (Inl e, logged)
                | (Inr (pblob, object_len), logged) \<Rightarrow>
                    (case unparsed_warning pblob name (from_bytes_little (take 4 data)) of
                       Inl e \<Rightarrow> (Inl e, logged)
                     | Inr warned \<Rightarrow>
                         (Inr pblob,
                          logged @ warned @
                          (if length data \<noteq> object_len
                           then [Error_not_all_data_parsed name (from_bytes_little (take 4 data))
                                   (length data) object_len (drop object_len data)]
                           else []))))))"
  by (simp add: parse_blob_def callbacks_init init_lookup Let_def
        split: option.splits blob_tuple.splits prod.splits sum.splits)


lemma parse_blob_no_decoder:
  assumes "map_of (rev tdss_callbacks) (from_bytes_little (take 4 data)) = Some (Tuple3 None name beautify)"
  shows "parse_blob env (fst init) data =
           (Inr VNone, [Warning_blob_not_supported name (from_bytes_little (take 4 data))])"
  by (simp add: parse_blob_init assms)

lemma parse_blob_pair:
  assumes "map_of (rev tdss_callbacks) (from_bytes_little (take 4 data)) = Some (Tuple2 blob_parser name)"
  shows "parse_blob env (fst init) data = (Inl ValueError, [])"
  by (simp add: parse_blob_init assms)

lemma parse_blob_decoder_raises:
  assumes "map_of (rev tdss_callbacks) (from_bytes_little (take 4 data)) = Some (Tuple3 (Some m) name beautify)"
    and "parse (method_struct env m) data = (Inl e, logged)"
  shows "parse_blob env (fst init) data = (Inl e, logged)"
  by (simp add: parse_blob_init assms)

lemma unparsed_warning_no_field:
  assumes "py_getattr pblob ''UNPARSED'' = Inl AttributeError"
  shows "unparsed_warning pblob name signature = Inr []"
  by (simp add: unparsed_warning_def assms)

lemma parse_blob_record:
  assumes "map_of (rev tdss_callbacks) (from_bytes_little (take 4 data)) = Some (Tuple3 (Some m) name beautify)"
    and "parse (method_struct env m) data = (Inr (pblob, object_len), logged)"
    and "py_getattr pblob ''UNPARSED'' = Inl AttributeError"
  shows "parse_blob env (fst init) data =
           (Inr pblob,
            logged @ (if length data \<noteq> object_len
                      then [Error_not_all_data_parsed name (from_bytes_little (take 4 data))
                              (length data) object_len (drop object_len data)]
                      else []))"
  by (simp add: parse_blob_init assms unparsed_warning_no_field)

text \<open>The decoder of a peer that is a user, on any buffer.\<close>

lemma peer_user_struct_parse:
  "parse peer_user_struct (0x6d # 0xbc # 0xb1 # 0x9d # rest) =
     (if 4 \<le> length rest
      then (Inr (VCont [(''sname'', pystr ''peer_user''), (''signature'', VInt 0x9db1bc6d),
                        (''user_id'', VInt (from_bytes_little (take 4 rest)))], 8), [])
      else (Inl StreamError, []))"
  by (simp add: peer_user_struct_def construct_defs)

lemma method_peer_user: "method_struct env ''peer_user_struct'' = peer_user_struct"
  by (simp add: method_struct_def)

lemma tag_peer_user: "from_bytes_little (take 4 (0x6d # 0xbc # 0xb1 # 0x9d # rest)) = 0x9db1bc6d"
  by simp

lemma parse_blob_peer_user:
  "parse_blob env (fst init) (0x6d # 0xbc # 0xb1 # 0x9d # rest) =
     (if 4 \<le> length rest
      then (Inr (VCont [(''sname'', pystr ''peer_user''), (''signature'', VInt 0x9db1bc6d),
                        (''user_id'', VInt (from_bytes_little (take 4 rest)))]),
            if length rest \<noteq> 4
            then [Error_not_all_data_parsed ''peer_user'' 0x9db1bc6d (4 + length rest) 8 (drop 4 rest)]
            else [])
      else (Inl StreamError, []))"
proof (cases "4 \<le> length rest")
  case True
  have "parse_blob env (fst init) (0x6d # 0xbc # 0xb1 # 0x9d # rest) =
     (Inr (VCont [(''sname'', pystr ''peer_user''), (''signature'', VInt 0x9db1bc6d),
                        (''user_id'', VInt (from_bytes_little (take 4 rest)))]),
      [] @ (if length (0x6d # 0xbc # 0xb1 # 0x9d # rest) \<noteq> 8
            then [Error_not_all_data_parsed ''peer_user'' (from_bytes_little (take 4 (0x6d # 0xbc # 0xb1 # 0x9d # rest)))
                    (length (0x6d # 0xbc # 0xb1 # 0x9d # rest)) 8 (drop 8 (0x6d # 0xbc # 0xb1 # 0x9d # rest))]
            else []))"
    apply (rule parse_blob_record [where m = "''peer_user_struct''" and beautify = VNone])
      apply (simp only: tag_peer_user registry_0x9db1bc6d)
     apply (simp only: method_peer_user peer_user_struct_parse True if_True)
    apply simp
    done
  then show ?thesis using True by simp
next
  case False
  have "parse_blob env (fst init) (0x6d # 0xbc # 0xb1 # 0x9d # rest) = (Inl StreamError, [])"
    apply (rule parse_blob_decoder_raises [where m = "''peer_user_struct''" and beautify = VNone and name = "''peer_user''"])
     apply (simp only: tag_peer_user registry_0x9db1bc6d)
    apply (simp only: method_peer_user peer_user_struct_parse False if_False)
    done
  then show ?thesis using False by simp
qed

section \<open>Facts about successful \<^verbatim>\<open>Struct\<close> parses\<close>

lemma Struct_fields_named_Inr:
  assumes "Struct_fields (named n sc # rest) obj d p = (Inr (v, q), l)"
  obtains x p' l1 l2 where "sc (VCont obj) d p = (Inr (x, p'), l1)"
    and "Struct_fields rest (container_set obj n x) d p' = (Inr (v, q), l2)"
    and "l = l1 @ l2"
  using assms
  by (auto simp: named_def and_then_def split: prod.splits sum.splits)

lemma Struct_fields_Nil_Inr:
  assumes "Struct_fields [] obj d p = (Inr (v, q), l)"
  shows "v = VCont obj \<and> q = p \<and> l = []"
  using assms by simp

lemma Computed_const: "Computed (const_value c) ctx d p = (Inr (c, p), [])"
  by (simp add: Computed_def const_value_def)

lemma Int32ul_Inr:
  assumes "Int32ul ctx d p = (Inr (x, p'), l)"
  shows "p + 4 \<le> length d \<and> x = VInt (from_bytes_little (take 4 (drop p d))) \<and> p' = p + 4 \<and> l = []"
  using assms by (auto simp: Int32ul_def FormatField_def stream_read_def split: if_splits)

lemma Const_Int32ul_Inr:
  assumes "Hex (Const c Int32ul) ctx d p = (Inr (x, p'), l)"
  shows "p + 4 \<le> length d \<and> from_bytes_little (take 4 (drop p d)) = c \<and> x = VInt c \<and> p' = p + 4 \<and> l = []"
  using assms
  by (auto simp: Hex_def Const_def Int32ul_def FormatField_def stream_read_def and_then_def py_eq_bool_def
           split: if_splits)

lemma FlagsEnum_Int32ul_Inr:
  assumes "FlagsEnum Int32ul flags ctx d p = (Inr (x, p'), l)"
  shows "p + 4 \<le> length d
     \<and> x = VCont ((''_flagsenum'', VBool True) #
                  map (\<lambda>(name, value). (name, VBool (from_bytes_little (take 4 (drop p d)) AND value = value))) flags)
     \<and> p' = p + 4 \<and> l = []"
  using assms
  by (auto simp: FlagsEnum_def Int32ul_def FormatField_def stream_read_def and_then_def split: if_splits)

lemma If_Inr:
  assumes "If cond sc ctx d p = (Inr (x, p'), l)" and "cond ctx = Inr (VBool b)"
  shows "if b then sc ctx d p = (Inr (x, p'), l) else x = VNone \<and> p' = p \<and> l = []"
  using assms by (auto simp: If_def IfThenElse_def eval_then_def Pass_def split: if_splits)

text \<open>A field that the remaining subconstructs do not name keeps its value.\<close>

lemma map_of_container_set_other: "k \<noteq> n \<Longrightarrow> map_of (container_set obj n y) k = map_of obj k"
  by (induction obj) auto

lemma Struct_fields_keeps:
  assumes "Struct_fields fs obj d p = (Inr (v, q), l)"
    and "Some k \<notin> fst ` set fs" and "map_of obj k = Some x"
  shows "py_getitem v k = Inr x"
  using assms
proof (induction fs arbitrary: obj p l)
  case Nil
  then show ?case by auto
next
  case (Cons f fs)
  obtain nm sc where f: "f = (nm, sc)" by (cases f)
  from Cons.prems(1) obtain y p' l1 l2 where
    s: "Struct_fields fs (case nm of None \<Rightarrow> obj | Some n \<Rightarrow> container_set obj n y) d p' = (Inr (v, q), l2)"
    by (auto simp: f and_then_def split: prod.splits sum.splits)
  have "map_of (case nm of None \<Rightarrow> obj | Some n \<Rightarrow> container_set obj n y) k = Some x"
    using Cons.prems(2,3) by (cases nm) (auto simp: f map_of_container_set_other)
  with Cons.IH [OF s] Cons.prems(2) show ?case by simp
qed

text \<open>The constructs that read no context.\<close>

lemma ctx_free:
  "Int32ul ctx d p = Int32ul VNone d p"
  "Int64ul ctx d p = Int64ul VNone d p"
  "tstring_struct ctx d p = tstring_struct VNone d p"
  "user_profile_photo_structures nm ctx d p = user_profile_photo_structures nm VNone d p"
  "user_status_structures nm ctx d p = user_status_structures nm VNone d p"
  "restrictions_vector ctx d p = restrictions_vector VNone d p"
  by (simp_all add: Int32ul_def Int64ul_def FormatField_def tstring_struct_def
        user_profile_photo_structures_def user_status_structures_def restrictions_vector_def Struct_def)

section \<open>Facts about flags and the decoders that fail\<close>

lemma flag_map_of:
  assumes "map_of flags k = Some b"
  shows "map_of (map (\<lambda>(name, value). (name, VBool (n AND value = value))) flags) k
         = Some (VBool (n AND b = b))"
  using assms by (induction flags) (auto split: if_splits)

text \<open>
  \<^verbatim>\<open>encrypted_chat_requested_struct\<close> declares the flag \<^verbatim>\<open>has_folder_is\<close> and
  reads the flag \<^verbatim>\<open>has_folder_id\<close>: once the tag and the flags word are read, the
  lookup of the undeclared name raises \<^verbatim>\<open>KeyError\<close>, whatever the flags word.
\<close>

lemma encrypted_chat_requested_struct_parse:
  "parse (encrypted_chat_requested_struct env) (0x82 # 0x8a # 0x71 # 0x62 # f0 # f1 # f2 # f3 # rest)
     = (Inl KeyError, [])"
  by (simp add: encrypted_chat_requested_struct_def FlagsEnum_def construct_defs)

lemma method_encrypted_chat_requested:
  "method_struct env ''encrypted_chat_requested_struct'' = encrypted_chat_requested_struct env"
  by (simp add: method_struct_def)

lemma tag_encrypted_chat_requested:
  "from_bytes_little (take 4 (0x82 # 0x8a # 0x71 # 0x62 # rest)) = 0x62718a82"
  by simp

text \<open>
  Building the field \<^verbatim>\<open>from_id_adjusted\<close> raises \<^verbatim>\<open>AttributeError\<close>, and so do
  the two methods that build it.
\<close>

lemma from_id_adjusted_raises: "from_id_adjusted = Inl AttributeError"
  by (simp add: from_id_adjusted_def IfThenElse_init_def)

lemma message_service_layer48_struct_raises: "message_service_layer48_struct env = Inl AttributeError"
  by (simp add: message_service_layer48_struct_def from_id_adjusted_raises)

lemma message_layer68_struct_raises: "message_layer68_struct env = Inl AttributeError"
  by (simp add: message_layer68_struct_def from_id_adjusted_raises)

lemma parse_built_Inl: "parse (built (Inl e)) data = (Inl e, [])"
  by (simp add: parse_def built_def)

lemma method_message_service_layer48:
  "method_struct env ''message_service_layer48_struct'' = built (Inl AttributeError)"
  by (simp add: method_struct_def message_service_layer48_struct_raises)

lemma method_message_layer68:
  "method_struct env ''message_layer68_struct'' = built (Inl AttributeError)"
  by (simp add: method_struct_def message_layer68_struct_raises)

lemma tag_message_service_layer48:
  "from_bytes_little (take 4 (0x07 # 0x96 # 0x6b # 0xc0 # rest)) = 0xc06b9607"
  by simp

lemma tag_message_layer68:
  "from_bytes_little (take 4 (0x5f # 0xe4 # 0x9b # 0xc0 # rest)) = 0xc09be45f"
  by simp



section \<open>The claims about the primitive codecs\<close>

text \<open>
  Claim C7.  \<^verbatim>\<open>tbool_struct\<close> reads exactly one 4-byte little-endian word: on a
  buffer holding at least 4 bytes from the offset it returns the offset plus 4, and its
  \<^verbatim>\<open>value\<close> is \<^verbatim>\<open>'true'\<close> when the word is 0x997275b5, \<^verbatim>\<open>'false'\<close> when it
  is 0xbc799737 and the sentinel \<^verbatim>\<open>'ERROR'\<close> for every other word, in which case
  decoding still succeeds.  The 4-byte buffer of 0x997275b5 decodes to \<^verbatim>\<open>'true'\<close> and
  the offset reached is the length of the buffer.
\<close>

theorem tbool_struct_value:
  "(p + 4 \<le> length d \<longrightarrow>
      tbool_struct ctx d p =
        (Inr (VCont [(''sname'', pystr ''boolean''),
                     (''_signature'', VInt (from_bytes_little (take 4 (drop p d)))),
                     (''value'', pystr (if from_bytes_little (take 4 (drop p d)) = 0x997275b5 then ''true''
                                        else if from_bytes_little (take 4 (drop p d)) = 0xbc799737 then ''false''
                                        else ''ERROR''))],
              p + 4), []))
   \<and> parse tbool_struct [0xb5, 0x75, 0x72, 0x99] =
        (Inr (VCont [(''sname'', pystr ''boolean''), (''_signature'', VInt 0x997275b5),
                     (''value'', pystr ''true'')],
              length [0xb5, 0x75, 0x72, 0x99 :: byte]), [])"
proof -
  have "parse tbool_struct [0xb5, 0x75, 0x72, 0x99] =
        (Inr (VCont [(''sname'', pystr ''boolean''), (''_signature'', VInt 0x997275b5),
                     (''value'', pystr ''true'')], 4), [])"
    using tbool_struct_reads_word [of 0 "[0xb5, 0x75, 0x72, 0x99]" "VCont []"]
    by (simp add: parse_def)
  then show ?thesis by (simp add: tbool_struct_reads_word)
qed

text \<open>Claim C7 at two buffers: the word of \<^verbatim>\<open>'false'\<close>, and an unknown word at offset 1.\<close>

theorem tbool_struct_value_witness:
  "(0::nat) + 4 \<le> length [0x37, 0x97, 0x79, 0xbc, 0x01 :: byte] \<and>
   tbool_struct VNone [0x37, 0x97, 0x79, 0xbc, 0x01] 0 =
     (Inr (VCont [(''sname'', pystr ''boolean''), (''_signature'', VInt 0xbc799737),
                  (''value'', pystr ''false'')], 4), []) \<and>
   tbool_struct VNone [0x00, 0x37, 0x97, 0x79, 0xbd] 1 =
     (Inr (VCont [(''sname'', pystr ''boolean''), (''_signature'', VInt 0xbd799737),
                  (''value'', pystr ''ERROR'')], 5), [])"
  using tbool_struct_value [of 0 "[0x37, 0x97, 0x79, 0xbc, 0x01]" VNone]
        tbool_struct_value [of 1 "[0x00, 0x37, 0x97, 0x79, 0xbd]" VNone]
  by simp

text \<open>
  Claim C1.  For \<^verbatim>\<open>tstring_struct\<close> and \<^verbatim>\<open>tbytes_struct\<close>, on a buffer that
  holds the whole value: when the first byte is below 254 it is the payload length
  \<open>L\<close> and the decoder consumes \<open>1 + L + ((4 - (1 + L) mod 4) mod 4)\<close> bytes;
  when it is 254 or more the length is the 4-byte little-endian word shifted right by 8
  and the decoder consumes \<open>4 + L + ((4 - L mod 4) mod 4)\<close> bytes.  The buffer
  \<^verbatim>\<open>05 'hello' 00 00\<close> decodes to the text \<^verbatim>\<open>'hello'\<close> at offset 8.
\<close>

theorem length_prefixed_consumed:
  fixes L :: nat
  shows
  "(p < length d \<and> unat (d ! p) < 254 \<and> L = unat (d ! p)
      \<and> p + (1 + L + (4 - (1 + L) mod 4) mod 4) \<le> length d \<longrightarrow>
     (\<forall>s l. decode_tstring (take L (drop (p + 1) d)) = (Inr s, l) \<longrightarrow>
        tstring_struct ctx d p =
          (Inr (VCont [(''_sname'', pystr ''tstring''), (''_check'', VInt (int L)), (''_pl'', VInt (int L)),
                       (''_len'', VInt (int L)), (''_value'', VBytes (take L (drop (p + 1) d))),
                       (''string'', s)],
                p + (1 + L + (4 - (1 + L) mod 4) mod 4)), l))
     \<and> tbytes_struct ctx d p =
          (Inr (VCont [(''_sname'', pystr ''tbytes''), (''_check'', VInt (int L)), (''_pl'', VInt (int L)),
                       (''len'', VInt (int L)), (''bytes'', VBytes (take L (drop (p + 1) d)))],
                p + (1 + L + (4 - (1 + L) mod 4) mod 4)), []))
   \<and> (p + 4 \<le> length d \<and> 254 \<le> unat (d ! p)
      \<and> L = nat (drop_bit 8 (from_bytes_little (take 4 (drop p d))))
      \<and> p + (4 + L + (4 - L mod 4) mod 4) \<le> length d \<longrightarrow>
     (\<forall>s l. decode_tstring (take L (drop (p + 4) d)) = (Inr s, l) \<longrightarrow>
        tstring_struct ctx d p =
          (Inr (VCont [(''_sname'', pystr ''tstring''), (''_check'', VInt (uint (d ! p))),
                       (''_pl'', VInt (from_bytes_little (take 4 (drop p d)))),
                       (''_len'', VInt (int L)), (''_value'', VBytes (take L (drop (p + 4) d))),
                       (''string'', s)],
                p + (4 + L + (4 - L mod 4) mod 4)), l))
     \<and> tbytes_struct ctx d p =
          (Inr (VCont [(''_sname'', pystr ''tbytes''), (''_check'', VInt (uint (d ! p))),
                       (''_pl'', VInt (from_bytes_little (take 4 (drop p d)))),
                       (''len'', VInt (int L)), (''bytes'', VBytes (take L (drop (p + 4) d)))],
                p + (4 + L + (4 - L mod 4) mod 4)), []))
   \<and> parse tstring_struct [0x05, 0x68, 0x65, 0x6c, 0x6c, 0x6f, 0x00, 0x00] =
       (Inr (VCont [(''_sname'', pystr ''tstring''), (''_check'', VInt 5), (''_pl'', VInt 5),
                    (''_len'', VInt 5), (''_value'', VBytes [0x68, 0x65, 0x6c, 0x6c, 0x6f]),
                    (''string'', pystr ''hello'')], 8), [])"
proof (intro conjI impI allI)
  assume a: "p < length d \<and> unat (d ! p) < 254 \<and> L = unat (d ! p)
      \<and> p + (1 + L + (4 - (1 + L) mod 4) mod 4) \<le> length d"
  show "tbytes_struct ctx d p =
          (Inr (VCont [(''_sname'', pystr ''tbytes''), (''_check'', VInt (int L)), (''_pl'', VInt (int L)),
                       (''len'', VInt (int L)), (''bytes'', VBytes (take L (drop (p + 1) d)))],
                p + (1 + L + (4 - (1 + L) mod 4) mod 4)), [])"
    by (rule tbytes_struct_short) (use a in blast)+
  fix s l assume b: "decode_tstring (take L (drop (p + 1) d)) = (Inr s, l)"
  show "tstring_struct ctx d p =
          (Inr (VCont [(''_sname'', pystr ''tstring''), (''_check'', VInt (int L)), (''_pl'', VInt (int L)),
                       (''_len'', VInt (int L)), (''_value'', VBytes (take L (drop (p + 1) d))),
                       (''string'', s)],
                p + (1 + L + (4 - (1 + L) mod 4) mod 4)), l)"
    by (rule tstring_struct_short) (use a b in blast)+
next
  assume a: "p + 4 \<le> length d \<and> 254 \<le> unat (d ! p)
      \<and> L = nat (drop_bit 8 (from_bytes_little (take 4 (drop p d))))
      \<and> p + (4 + L + (4 - L mod 4) mod 4) \<le> length d"
  show "tbytes_struct ctx d p =
          (Inr (VCont [(''_sname'', pystr ''tbytes''), (''_check'', VInt (uint (d ! p))),
                       (''_pl'', VInt (from_bytes_little (take 4 (drop p d)))),
                       (''len'', VInt (int L)), (''bytes'', VBytes (take L (drop (p + 4) d)))],
                p + (4 + L + (4 - L mod 4) mod 4)), [])"
    by (rule tbytes_struct_long [OF _ _ refl]) (use a in blast)+
  fix s l assume b: "decode_tstring (take L (drop (p + 4) d)) = (Inr s, l)"
  show "tstring_struct ctx d p =
          (Inr (VCont [(''_sname'', pystr ''tstring''), (''_check'', VInt (uint (d ! p))),
                       (''_pl'', VInt (from_bytes_little (take 4 (drop p d)))),
                       (''_len'', VInt (int L)), (''_value'', VBytes (take L (drop (p + 4) d))),
                       (''string'', s)],
                p + (4 + L + (4 - L mod 4) mod 4)), l)"
    by (rule tstring_struct_long [OF _ _ refl]) (use a b in blast)+
next
  have "decode_tstring [0x68, 0x65, 0x6c, 0x6c, 0x6f] = (Inr (pystr ''hello''), [])"
    by (simp add: decode_tstring_def pystr_def)
  then show "parse tstring_struct [0x05, 0x68, 0x65, 0x6c, 0x6c, 0x6f, 0x00, 0x00] =
       (Inr (VCont [(''_sname'', pystr ''tstring''), (''_check'', VInt 5), (''_pl'', VInt 5),
                    (''_len'', VInt 5), (''_value'', VBytes [0x68, 0x65, 0x6c, 0x6c, 0x6f]),
                    (''string'', pystr ''hello'')], 8), [])"
    using tstring_struct_short [of 0 "[0x05, 0x68, 0x65, 0x6c, 0x6c, 0x6f, 0x00, 0x00]" 5
                                   "pystr ''hello''" "[]" "VCont []"]
    by (simp add: parse_def)
qed


text \<open>Claim C1 at a long-form byte string of length 5 and a short-form one at offset 1.\<close>

theorem length_prefixed_consumed_witness:
  "((0::nat) + 4 \<le> length [0xfe, 0x05, 0x00, 0x00, 1, 2, 3, 4, 5, 0, 0, 0 :: byte]
    \<and> 254 \<le> unat ([0xfe, 0x05, 0x00, 0x00, 1, 2, 3, 4, 5, 0, 0, 0 :: byte] ! 0)
    \<and> (5::nat) = nat (drop_bit 8 (from_bytes_little (take 4 (drop 0 [0xfe, 0x05, 0x00, 0x00, 1, 2, 3, 4, 5, 0, 0, 0]))))
    \<and> (0::nat) + (4 + 5 + (4 - 5 mod 4) mod 4) \<le> length [0xfe, 0x05, 0x00, 0x00, 1, 2, 3, 4, 5, 0, 0, 0 :: byte])
   \<and> tbytes_struct VNone [0xfe, 0x05, 0x00, 0x00, 1, 2, 3, 4, 5, 0, 0, 0] 0 =
       (Inr (VCont [(''_sname'', pystr ''tbytes''), (''_check'', VInt 254), (''_pl'', VInt 1534),
                    (''len'', VInt 5), (''bytes'', VBytes [1, 2, 3, 4, 5])], 12), [])
   \<and> ((1::nat) < length [0x00, 0x03, 0x61, 0x62, 0x63 :: byte]
    \<and> unat ([0x00, 0x03, 0x61, 0x62, 0x63 :: byte] ! 1) < 254
    \<and> (3::nat) = unat ([0x00, 0x03, 0x61, 0x62, 0x63 :: byte] ! 1)
    \<and> (1::nat) + (1 + 3 + (4 - (1 + 3) mod 4) mod 4) \<le> length [0x00, 0x03, 0x61, 0x62, 0x63 :: byte])
   \<and> tbytes_struct VNone [0x00, 0x03, 0x61, 0x62, 0x63] 1 =
       (Inr (VCont [(''_sname'', pystr ''tbytes''), (''_check'', VInt 3), (''_pl'', VInt 3),
                    (''len'', VInt 3), (''bytes'', VBytes [0x61, 0x62, 0x63])], 5), [])"
  using length_prefixed_consumed [of 0 "[0xfe, 0x05, 0x00, 0x00, 1, 2, 3, 4, 5, 0, 0, 0]" 5 VNone]
        length_prefixed_consumed [of 1 "[0x00, 0x03, 0x61, 0x62, 0x63]" 3 VNone]
  by (simp add: drop_bit_eq_div)

text \<open>
  Claim C6.  \<^verbatim>\<open>decode_tstring\<close> returns the text of a valid UTF-8 payload; for a
  payload that is not valid UTF-8 it returns the bytes themselves and logs one error,
  and does not raise.  A \<^verbatim>\<open>Struct\<close> that holds a \<^verbatim>\<open>tstring_struct\<close> field with
  such a payload stores the record with the bytes under \<^verbatim>\<open>string\<close> and goes on to
  parse its remaining fields from the offset after the padding.
\<close>

theorem decode_tstring_invalid_utf8:
  fixes L :: nat
  shows
  "(utf8_decode bs = None \<longrightarrow>
      decode_tstring bs = (Inr (VBytes bs), [Error_unable_to_decode_string bs]))
   \<and> (\<forall>t. utf8_decode bs = Some t \<longrightarrow> decode_tstring bs = (Inr (VStr t), []))
   \<and> (p < length d \<and> unat (d ! p) < 254 \<and> L = unat (d ! p)
        \<and> p + (1 + L + (4 - (1 + L) mod 4) mod 4) \<le> length d
        \<and> utf8_decode (take L (drop (p + 1) d)) = None \<longrightarrow>
      Struct_fields (named nm tstring_struct # rest) obj d p =
        (case Struct_fields rest
                (container_set obj nm
                   (VCont [(''_sname'', pystr ''tstring''), (''_check'', VInt (int L)),
                           (''_pl'', VInt (int L)), (''_len'', VInt (int L)),
                           (''_value'', VBytes (take L (drop (p + 1) d))),
                           (''string'', VBytes (take L (drop (p + 1) d)))]))
                d (p + (1 + L + (4 - (1 + L) mod 4) mod 4)) of
           (r, l') \<Rightarrow> (r, Error_unable_to_decode_string (take L (drop (p + 1) d)) # l')))
   \<and> (p + 4 \<le> length d \<and> 254 \<le> unat (d ! p)
        \<and> L = nat (drop_bit 8 (from_bytes_little (take 4 (drop p d))))
        \<and> p + (4 + L + (4 - L mod 4) mod 4) \<le> length d
        \<and> utf8_decode (take L (drop (p + 4) d)) = None \<longrightarrow>
      Struct_fields (named nm tstring_struct # rest) obj d p =
        (case Struct_fields rest
                (container_set obj nm
                   (VCont [(''_sname'', pystr ''tstring''), (''_check'', VInt (uint (d ! p))),
                           (''_pl'', VInt (from_bytes_little (take 4 (drop p d)))),
                           (''_len'', VInt (int L)),
                           (''_value'', VBytes (take L (drop (p + 4) d))),
                           (''string'', VBytes (take L (drop (p + 4) d)))]))
                d (p + (4 + L + (4 - L mod 4) mod 4)) of
           (r, l') \<Rightarrow> (r, Error_unable_to_decode_string (take L (drop (p + 4) d)) # l')))"
proof (intro conjI impI allI)
  show "decode_tstring bs = (Inr (VBytes bs), [Error_unable_to_decode_string bs])"
    if "utf8_decode bs = None"
    using that by (simp add: decode_tstring_def)
  show "decode_tstring bs = (Inr (VStr t), [])" if "utf8_decode bs = Some t" for t
    using that by (simp add: decode_tstring_def)
next
  assume a: "p < length d \<and> unat (d ! p) < 254 \<and> L = unat (d ! p)
        \<and> p + (1 + L + (4 - (1 + L) mod 4) mod 4) \<le> length d
        \<and> utf8_decode (take L (drop (p + 1) d)) = None"
  then have u: "utf8_decode (take L (drop (p + 1) d)) = None" by blast
  have b: "decode_tstring (take L (drop (p + 1) d)) =
      (Inr (VBytes (take L (drop (p + 1) d))), [Error_unable_to_decode_string (take L (drop (p + 1) d))])"
    by (simp only: decode_tstring_cases u option.case)
  have "tstring_struct (VCont obj) d p =
     (Inr (VCont [(''_sname'', pystr ''tstring''), (''_check'', VInt (int L)), (''_pl'', VInt (int L)),
                  (''_len'', VInt (int L)), (''_value'', VBytes (take L (drop (p + 1) d))),
                  (''string'', VBytes (take L (drop (p + 1) d)))],
           p + (1 + L + (4 - (1 + L) mod 4) mod 4)),
      [Error_unable_to_decode_string (take L (drop (p + 1) d))])"
    by (rule tstring_struct_short) (use a b in blast)+
  then show "Struct_fields (named nm tstring_struct # rest) obj d p =
        (case Struct_fields rest
                (container_set obj nm
                   (VCont [(''_sname'', pystr ''tstring''), (''_check'', VInt (int L)),
                           (''_pl'', VInt (int L)), (''_len'', VInt (int L)),
                           (''_value'', VBytes (take L (drop (p + 1) d))),
                           (''string'', VBytes (take L (drop (p + 1) d)))]))
                d (p + (1 + L + (4 - (1 + L) mod 4) mod 4)) of
           (r, l') \<Rightarrow> (r, Error_unable_to_decode_string (take L (drop (p + 1) d)) # l'))"
    by (simp add: named_def and_then_def split: prod.splits)
next
  assume a: "p + 4 \<le> length d \<and> 254 \<le> unat (d ! p)
        \<and> L = nat (drop_bit 8 (from_bytes_little (take 4 (drop p d))))
        \<and> p + (4 + L + (4 - L mod 4) mod 4) \<le> length d
        \<and> utf8_decode (take L (drop (p + 4) d)) = None"
  then have u: "utf8_decode (take L (drop (p + 4) d)) = None" by blast
  have b: "decode_tstring (take L (drop (p + 4) d)) =
      (Inr (VBytes (take L (drop (p + 4) d))), [Error_unable_to_decode_string (take L (drop (p + 4) d))])"
    by (simp only: decode_tstring_cases u option.case)
  have "tstring_struct (VCont obj) d p =
     (Inr (VCont [(''_sname'', pystr ''tstring''), (''_check'', VInt (uint (d ! p))),
                  (''_pl'', VInt (from_bytes_little (take 4 (drop p d)))),
                  (''_len'', VInt (int L)), (''_value'', VBytes (take L (drop (p + 4) d))),
                  (''string'', VBytes (take L (drop (p + 4) d)))],
           p + (4 + L + (4 - L mod 4) mod 4)),
      [Error_unable_to_decode_string (take L (drop (p + 4) d))])"
    by (rule tstring_struct_long [OF _ _ refl]) (use a b in blast)+
  then show "Struct_fields (named nm tstring_struct # rest) obj d p =
        (case Struct_fields rest
                (container_set obj nm
                   (VCont [(''_sname'', pystr ''tstring''), (''_check'', VInt (uint (d ! p))),
                           (''_pl'', VInt (from_bytes_little (take 4 (drop p d)))),
                           (''_len'', VInt (int L)),
                           (''_value'', VBytes (take L (drop (p + 4) d))),
                           (''string'', VBytes (take L (drop (p + 4) d)))]))
                d (p + (4 + L + (4 - L mod 4) mod 4)) of
           (r, l') \<Rightarrow> (r, Error_unable_to_decode_string (take L (drop (p + 4) d)) # l'))"
    by (simp add: named_def and_then_def split: prod.splits)
qed

text \<open>
  Claim C6 at the invalid payload \<^verbatim>\<open>c3 28\<close> followed by a 32-bit field, and at the
  valid payload \<^verbatim>\<open>c3 a9\<close>.
\<close>

theorem decode_tstring_invalid_utf8_witness:
  "utf8_decode [0xc3, 0x28] = None
   \<and> decode_tstring [0xc3, 0x28] = (Inr (VBytes [0xc3, 0x28]), [Error_unable_to_decode_string [0xc3, 0x28]])
   \<and> utf8_decode [0xc3, 0xa9] = Some [233]
   \<and> decode_tstring [0xc3, 0xa9] = (Inr (VStr [233]), [])
   \<and> (0::nat) < length [0x02, 0xc3, 0x28, 0x00, 0x07, 0x00, 0x00, 0x00 :: byte]
   \<and> unat ([0x02, 0xc3, 0x28, 0x00, 0x07, 0x00, 0x00, 0x00 :: byte] ! 0) < 254
   \<and> (0::nat) + (1 + 2 + (4 - (1 + 2) mod 4) mod 4) \<le> length [0x02, 0xc3, 0x28, 0x00, 0x07, 0x00, 0x00, 0x00 :: byte]
   \<and> parse (Struct [named ''a'' tstring_struct, named ''b'' Int32ul])
        [0x02, 0xc3, 0x28, 0x00, 0x07, 0x00, 0x00, 0x00] =
       (Inr (VCont [(''a'', VCont [(''_sname'', pystr ''tstring''), (''_check'', VInt 2), (''_pl'', VInt 2),
                                  (''_len'', VInt 2), (''_value'', VBytes [0xc3, 0x28]),
                                  (''string'', VBytes [0xc3, 0x28])]),
                    (''b'', VInt 7)], 8),
        [Error_unable_to_decode_string [0xc3, 0x28]])"
  using decode_tstring_invalid_utf8 [of "[0xc3, 0x28]" 0 "[0x02, 0xc3, 0x28, 0x00, 0x07, 0x00, 0x00, 0x00]" 2
          "''a''" "[named ''b'' Int32ul]" "[]"]
        decode_tstring_invalid_utf8 [of "[0xc3, 0xa9]" 0 "[]" 0 "''a''" "[]" "[]"]
  by (simp add: continuation_def low6_def parse_def Struct_def named_def Int32ul_def FormatField_def
        stream_read_def and_then_def)

section \<open>The claims about the dispatcher\<close>

text \<open>
  Claim C2, on the code.  The claim says that a buffer whose tag has a registry entry
  without decoder yields no record and a report of the name and the tag.  The entry of
  tag 0x6643b654 is written \<^verbatim>\<open>(None, 'client_dh_inner_data_v_0_1_317')\<close>, with
  two components: on every buffer that starts with this tag \<^verbatim>\<open>parse_blob\<close> raises
  \<^verbatim>\<open>ValueError\<close> when it unpacks the entry, and logs nothing.
\<close>

theorem parse_blob_pair_entry_raises:
  "parse_blob env (fst init) (0x54 # 0xb6 # 0x43 # 0x66 # rest) = (Inl ValueError, [])"
  by (rule parse_blob_pair [where blob_parser = None and name = "''client_dh_inner_data_v_0_1_317''"])
     (simp add: registry_0x6643b654)






text \<open>
  Claim C8 as stated fails: given the vector of two \<^verbatim>\<open>peer_user\<close> encodings,
  \<^verbatim>\<open>parse_blob\<close> returns no record, because the registry lists the vector marker
  0x1cb5c415 as \<^verbatim>\<open>(None, '_vector', None)\<close>.
\<close>

theorem parse_blob_vector_no_record:
  "parse_blob bare_env (fst init)
     [0x15, 0xc4, 0xb5, 0x1c, 2, 0, 0, 0, 0x6d, 0xbc, 0xb1, 0x9d, 7, 0, 0, 0, 0x6d, 0xbc, 0xb1, 0x9d, 9, 0, 0, 0]
   = (Inr VNone, [Warning_blob_not_supported ''_vector'' 0x1cb5c415])"
  by (rule trans [OF parse_blob_no_decoder [where name = "''_vector''" and beautify = VNone]])
     (simp_all add: registry_0x1cb5c415)

text \<open>
  Claim C8, amended.  \<^verbatim>\<open>parse_blob\<close> returns no record for every buffer that starts
  with the vector marker and logs that \<^verbatim>\<open>_vector\<close> is not supported; given one
  \<^verbatim>\<open>peer_user\<close> encoding (the tag 0x9db1bc6d and a 4-byte user id) it returns a
  \<^verbatim>\<open>peer_user\<close> record whose \<^verbatim>\<open>user_id\<close> is the encoded value.
\<close>

theorem parse_blob_vector_and_peer_user:
  "parse_blob env (fst init) (0x15 # 0xc4 # 0xb5 # 0x1c # rest) =
     (Inr VNone, [Warning_blob_not_supported ''_vector'' 0x1cb5c415])
   \<and> parse_blob env (fst init) [0x6d, 0xbc, 0xb1, 0x9d, b0, b1, b2, b3] =
       (Inr (VCont [(''sname'', pystr ''peer_user''), (''signature'', VInt 0x9db1bc6d),
                    (''user_id'', VInt (from_bytes_little [b0, b1, b2, b3]))]), [])"
proof
  show "parse_blob env (fst init) (0x15 # 0xc4 # 0xb5 # 0x1c # rest) =
     (Inr VNone, [Warning_blob_not_supported ''_vector'' 0x1cb5c415])"
    by (rule trans [OF parse_blob_no_decoder [where name = "''_vector''" and beautify = VNone]])
       (simp_all add: registry_0x1cb5c415)
  show "parse_blob env (fst init) [0x6d, 0xbc, 0xb1, 0x9d, b0, b1, b2, b3] =
       (Inr (VCont [(''sname'', pystr ''peer_user''), (''signature'', VInt 0x9db1bc6d),
                    (''user_id'', VInt (from_bytes_little [b0, b1, b2, b3]))]), [])"
    by (simp add: parse_blob_peer_user)
qed

text \<open>Claim C8, amended, at the two elements of the claim's vector, each on its own.\<close>

theorem parse_blob_vector_and_peer_user_witness:
  "parse_blob bare_env (fst init) [0x15, 0xc4, 0xb5, 0x1c, 0, 0, 0, 0] =
     (Inr VNone, [Warning_blob_not_supported ''_vector'' 0x1cb5c415])
   \<and> parse_blob bare_env (fst init) [0x6d, 0xbc, 0xb1, 0x9d, 0x07, 0x00, 0x00, 0x00] =
       (Inr (VCont [(''sname'', pystr ''peer_user''), (''signature'', VInt 0x9db1bc6d),
                    (''user_id'', VInt 7)]), [])
   \<and> parse_blob bare_env (fst init) [0x6d, 0xbc, 0xb1, 0x9d, 0x09, 0x00, 0x00, 0x00] =
       (Inr (VCont [(''sname'', pystr ''peer_user''), (''signature'', VInt 0x9db1bc6d),
                    (''user_id'', VInt 9)]), [])"
  using parse_blob_vector_and_peer_user [of bare_env "[0, 0, 0, 0]" 7 0 0 0]
        parse_blob_vector_and_peer_user [of bare_env "[0, 0, 0, 0]" 9 0 0 0]
  by simp

section \<open>The claims about record decoders\<close>

text \<open>
  Claim C4, on the code.  The claim says that in every flag-gated record shape each
  optional field is read when its flag bit is set and is \<^verbatim>\<open>None\<close> otherwise, for
  every value of the flags word.  \<^verbatim>\<open>encrypted_chat_requested_struct\<close> declares its
  one flag as \<^verbatim>\<open>has_folder_is\<close> and gates the field \<^verbatim>\<open>folder_id\<close> on
  \<^verbatim>\<open>this.flags.has_folder_id\<close>: on every buffer that holds the tag 0x62718a82 and
  a flags word, whatever the word, the decoder raises \<^verbatim>\<open>KeyError\<close> at that field,
  and so does \<^verbatim>\<open>parse_blob\<close>; \<^verbatim>\<open>folder_id\<close> is neither read nor \<^verbatim>\<open>None\<close>, and
  no later field is decoded.
\<close>

theorem encrypted_chat_requested_undeclared_flag:
  "parse (encrypted_chat_requested_struct env)
     (0x82 # 0x8a # 0x71 # 0x62 # f0 # f1 # f2 # f3 # rest) = (Inl KeyError, [])
   \<and> parse_blob env (fst init) (0x82 # 0x8a # 0x71 # 0x62 # f0 # f1 # f2 # f3 # rest)
       = (Inl KeyError, [])"
proof
  show "parse (encrypted_chat_requested_struct env)
     (0x82 # 0x8a # 0x71 # 0x62 # f0 # f1 # f2 # f3 # rest) = (Inl KeyError, [])"
    by (rule encrypted_chat_requested_struct_parse)
  show "parse_blob env (fst init) (0x82 # 0x8a # 0x71 # 0x62 # f0 # f1 # f2 # f3 # rest)
       = (Inl KeyError, [])"
    apply (rule parse_blob_decoder_raises [where m = "''encrypted_chat_requested_struct''"
             and beautify = VNone and name = "''encrypted_chat_requested''"])
     apply (simp only: tag_encrypted_chat_requested registry_0x62718a82)
    apply (simp only: method_encrypted_chat_requested encrypted_chat_requested_struct_parse)
    done
qed

text \<open>
  The decoder \<^verbatim>\<open>user_struct\<close>, where every flag that is read is declared, gates its
  fields as the claim describes.  Whenever it decodes a record, for the flags word \<open>n\<close>
  read after the tag, whatever its value: each optional field, in declaration order, is
  read by its decoder from the offset where the field before it ended exactly when its
  flag bit is set in \<open>n\<close>; when the bit is clear nothing is read, the offset does not
  move and the field is in the record with value \<^verbatim>\<open>None\<close>.  The record holds all
  thirteen fields, and the final offset and the log are those of the last field.  The
  field decoders read no context, so they are stated in the context \<^verbatim>\<open>None\<close>.
\<close>

theorem user_struct_optional_fields:
  assumes "user_struct ctx d p = (Inr (v, q), l)"
  shows "\<exists>n i x1 x2 x3 x4 x5 x6 x7 x8 x9
       o1 o2 o3 o4 o5 o6 o7 o8 o9
       l1 l2 l3 l4 l5 l6 l7 l8 l9.
       n = from_bytes_little (take 4 (drop (p + 4) d))
     \<and> i = from_bytes_little (take 4 (drop (p + 8) d))
     \<and> p + 12 \<le> length d
     \<and> v = VCont [
          (''sname'', pystr ''user_struct''),
          (''signature'', VInt 0x938458c1),
          (''flags'', VCont ((''_flagsenum'', VBool True) #
                 map (\<lambda>(name, value). (name, VBool (n AND value = value))) user_flags)),
          (''id'', VInt i),
          (''access_hash'', x1),
          (''first_name'', x2),
          (''last_name'', x3),
          (''username'', x4),
          (''phone'', x5),
          (''photo'', x6),
          (''status'', x7),
          (''bot_info_version'', x8),
          (''restrictions'', x9)]
     \<and> (if n AND 1 = 1 then Int64ul VNone d (p + 12) = (Inr (x1, o1), l1)
         else x1 = VNone \<and> o1 = (p + 12) \<and> l1 = [])
     \<and> (if n AND 2 = 2 then tstring_struct VNone d o1 = (Inr (x2, o2), l2)
         else x2 = VNone \<and> o2 = o1 \<and> l2 = [])
     \<and> (if n AND 4 = 4 then tstring_struct VNone d o2 = (Inr (x3, o3), l3)
         else x3 = VNone \<and> o3 = o2 \<and> l3 = [])
     \<and> (if n AND 8 = 8 then tstring_struct VNone d o3 = (Inr (x4, o4), l4)
         else x4 = VNone \<and> o4 = o3 \<and> l4 = [])
     \<and> (if n AND 16 = 16 then tstring_struct VNone d o4 = (Inr (x5, o5), l5)
         else x5 = VNone \<and> o5 = o4 \<and> l5 = [])
     \<and> (if n AND 32 = 32 then user_profile_photo_structures ''photo'' VNone d o5 = (Inr (x6, o6), l6)
         else x6 = VNone \<and> o6 = o5 \<and> l6 = [])
     \<and> (if n AND 64 = 64 then user_status_structures ''status'' VNone d o6 = (Inr (x7, o7), l7)
         else x7 = VNone \<and> o7 = o6 \<and> l7 = [])
     \<and> (if n AND 16384 = 16384 then Int32ul VNone d o7 = (Inr (x8, o8), l8)
         else x8 = VNone \<and> o8 = o7 \<and> l8 = [])
     \<and> (if n AND 262144 = 262144 then restrictions_vector VNone d o8 = (Inr (x9, o9), l9)
         else x9 = VNone \<and> o9 = o8 \<and> l9 = [])
     \<and> q = o9
     \<and> l = l1 @ l2 @ l3 @ l4 @ l5 @ l6 @ l7 @ l8 @ l9"
proof -
  define n where "n = from_bytes_little (take 4 (drop (p + 4) d))"
  define i where "i = from_bytes_little (take 4 (drop (p + 8) d))"
  from assms have r0: "Struct_fields
      [named ''sname'' (Computed (const_value (pystr ''user_struct''))),
       named ''signature'' (Hex (Const 0x938458c1 Int32ul)),
       named ''flags'' (FlagsEnum Int32ul user_flags),
       named ''id'' Int32ul,
       named ''access_hash'' (If (this2 ''flags'' ''has_access_hash'') Int64ul),
       named ''first_name'' (If (this2 ''flags'' ''has_first_name'') tstring_struct),
       named ''last_name'' (If (this2 ''flags'' ''has_last_name'') tstring_struct),
       named ''username'' (If (this2 ''flags'' ''has_username'') tstring_struct),
       named ''phone'' (If (this2 ''flags'' ''has_phone'') tstring_struct),
       named ''photo'' (If (this2 ''flags'' ''has_profile_photo'') (user_profile_photo_structures ''photo'')),
       named ''status'' (If (this2 ''flags'' ''has_status'') (user_status_structures ''status'')),
       named ''bot_info_version'' (If (this2 ''flags'' ''is_bot'') Int32ul),
       named ''restrictions'' (If (this2 ''flags'' ''is_restricted'') restrictions_vector)] [] d p = (Inr (v, q), l)"
    unfolding user_struct_def Struct_def .
  from r0 obtain y1 q1 k1 m1 where
    r1: "Struct_fields
      [named ''signature'' (Hex (Const 0x938458c1 Int32ul)),
       named ''flags'' (FlagsEnum Int32ul user_flags),
       named ''id'' Int32ul,
       named ''access_hash'' (If (this2 ''flags'' ''has_access_hash'') Int64ul),
       named ''first_name'' (If (this2 ''flags'' ''has_first_name'') tstring_struct),
       named ''last_name'' (If (this2 ''flags'' ''has_last_name'') tstring_struct),
       named ''username'' (If (this2 ''flags'' ''has_username'') tstring_struct),
       named ''phone'' (If (this2 ''flags'' ''has_phone'') tstring_struct),
       named ''photo'' (If (this2 ''flags'' ''has_profile_photo'') (user_profile_photo_structures ''photo'')),
       named ''status'' (If (this2 ''flags'' ''has_status'') (user_status_structures ''status'')),
       named ''bot_info_version'' (If (this2 ''flags'' ''is_bot'') Int32ul),
       named ''restrictions'' (If (this2 ''flags'' ''is_restricted'') restrictions_vector)] (container_set [] ''sname'' y1) d q1 = (Inr (v, q), m1)"
    and s1: "(Computed (const_value (pystr ''user_struct''))) (VCont []) d p = (Inr (y1, q1), k1)"
    and g1: "l = k1 @ m1"
    by (rule Struct_fields_named_Inr)
  have f1: "y1 = pystr ''user_struct'' \<and> q1 = p \<and> k1 = []"
    using s1 by (simp add: Computed_const)
  define obj1 where "obj1 = [(''sname'', y1)]"
  have c1: "container_set [] ''sname'' y1 = obj1"
    by (simp add: obj1_def)
  from r1 [unfolded c1] obtain y2 q2 k2 m2 where
    r2: "Struct_fields
      [named ''flags'' (FlagsEnum Int32ul user_flags),
       named ''id'' Int32ul,
       named ''access_hash'' (If (this2 ''flags'' ''has_access_hash'') Int64ul),
       named ''first_name'' (If (this2 ''flags'' ''has_first_name'') tstring_struct),
       named ''last_name'' (If (this2 ''flags'' ''has_last_name'') tstring_struct),
       named ''username'' (If (this2 ''flags'' ''has_username'') tstring_struct),
       named ''phone'' (If (this2 ''flags'' ''has_phone'') tstring_struct),
       named ''photo'' (If (this2 ''flags'' ''has_profile_photo'') (user_profile_photo_structures ''photo'')),
       named ''status'' (If (this2 ''flags'' ''has_status'') (user_status_structures ''status'')),
       named ''bot_info_version'' (If (this2 ''flags'' ''is_bot'') Int32ul),
       named ''restrictions'' (If (this2 ''flags'' ''is_restricted'') restrictions_vector)] (container_set obj1 ''signature'' y2) d q2 = (Inr (v, q), m2)"
    and s2: "(Hex (Const 0x938458c1 Int32ul)) (VCont obj1) d q1 = (Inr (y2, q2), k2)"
    and g2: "m1 = k2 @ m2"
    by (rule Struct_fields_named_Inr)
  have f2: "y2 = VInt 0x938458c1 \<and> q2 = p + 4 \<and> k2 = []"
    using Const_Int32ul_Inr [OF s2] f1 by simp
  define obj2 where "obj2 = [(''sname'', y1), (''signature'', y2)]"
  have c2: "container_set obj1 ''signature'' y2 = obj2"
    by (simp add: obj2_def obj1_def)
  from r2 [unfolded c2] obtain y3 q3 k3 m3 where
    r3: "Struct_fields
      [named ''id'' Int32ul,
       named ''access_hash'' (If (this2 ''flags'' ''has_access_hash'') Int64ul),
       named ''first_name'' (If (this2 ''flags'' ''has_first_name'') tstring_struct),
       named ''last_name'' (If (this2 ''flags'' ''has_last_name'') tstring_struct),
       named ''username'' (If (this2 ''flags'' ''has_username'') tstring_struct),
       named ''phone'' (If (this2 ''flags'' ''has_phone'') tstring_struct),
       named ''photo'' (If (this2 ''flags'' ''has_profile_photo'') (user_profile_photo_structures ''photo'')),
       named ''status'' (If (this2 ''flags'' ''has_status'') (user_status_structures ''status'')),
       named ''bot_info_version'' (If (this2 ''flags'' ''is_bot'') Int32ul),
       named ''restrictions'' (If (this2 ''flags'' ''is_restricted'') restrictions_vector)] (container_set obj2 ''flags'' y3) d q3 = (Inr (v, q), m3)"
    and s3: "(FlagsEnum Int32ul user_flags) (VCont obj2) d q2 = (Inr (y3, q3), k3)"
    and g3: "m2 = k3 @ m3"
    by (rule Struct_fields_named_Inr)
  have f3: "y3 = VCont ((''_flagsenum'', VBool True) #
                 map (\<lambda>(name, value). (name, VBool (n AND value = value))) user_flags) \<and> q3 = p + 8 \<and> k3 = []"
    using FlagsEnum_Int32ul_Inr [OF s3] f2 by (simp add: n_def)
  define obj3 where "obj3 = [(''sname'', y1), (''signature'', y2), (''flags'', y3)]"
  have c3: "container_set obj2 ''flags'' y3 = obj3"
    by (simp add: obj3_def obj2_def)
  from r3 [unfolded c3] obtain y4 q4 k4 m4 where
    r4: "Struct_fields
      [named ''access_hash'' (If (this2 ''flags'' ''has_access_hash'') Int64ul),
       named ''first_name'' (If (this2 ''flags'' ''has_first_name'') tstring_struct),
       named ''last_name'' (If (this2 ''flags'' ''has_last_name'') tstring_struct),
       named ''username'' (If (this2 ''flags'' ''has_username'') tstring_struct),
       named ''phone'' (If (this2 ''flags'' ''has_phone'') tstring_struct),
       named ''photo'' (If (this2 ''flags'' ''has_profile_photo'') (user_profile_photo_structures ''photo'')),
       named ''status'' (If (this2 ''flags'' ''has_status'') (user_status_structures ''status'')),
       named ''bot_info_version'' (If (this2 ''flags'' ''is_bot'') Int32ul),
       named ''restrictions'' (If (this2 ''flags'' ''is_restricted'') restrictions_vector)] (container_set obj3 ''id'' y4) d q4 = (Inr (v, q), m4)"
    and s4: "Int32ul (VCont obj3) d q3 = (Inr (y4, q4), k4)"
    and g4: "m3 = k4 @ m4"
    by (rule Struct_fields_named_Inr)
  have f4: "y4 = VInt i \<and> q4 = p + 12 \<and> k4 = [] \<and> p + 12 \<le> length d"
    using Int32ul_Inr [OF s4] f3 by (simp add: i_def)
  define obj4 where "obj4 = [(''sname'', y1), (''signature'', y2), (''flags'', y3), (''id'', y4)]"
  have c4: "container_set obj3 ''id'' y4 = obj4"
    by (simp add: obj4_def obj3_def)
  from r4 [unfolded c4] obtain y5 q5 k5 m5 where
    r5: "Struct_fields
      [named ''first_name'' (If (this2 ''flags'' ''has_first_name'') tstring_struct),
       named ''last_name'' (If (this2 ''flags'' ''has_last_name'') tstring_struct),
       named ''username'' (If (this2 ''flags'' ''has_username'') tstring_struct),
       named ''phone'' (If (this2 ''flags'' ''has_phone'') tstring_struct),
       named ''photo'' (If (this2 ''flags'' ''has_profile_photo'') (user_profile_photo_structures ''photo'')),
       named ''status'' (If (this2 ''flags'' ''has_status'') (user_status_structures ''status'')),
       named ''bot_info_version'' (If (this2 ''flags'' ''is_bot'') Int32ul),
       named ''restrictions'' (If (this2 ''flags'' ''is_restricted'') restrictions_vector)] (container_set obj4 ''access_hash'' y5) d q5 = (Inr (v, q), m5)"
    and s5: "(If (this2 ''flags'' ''has_access_hash'') Int64ul) (VCont obj4) d q4 = (Inr (y5, q5), k5)"
    and g5: "m4 = k5 @ m5"
    by (rule Struct_fields_named_Inr)
  have e5: "this2 ''flags'' ''has_access_hash'' (VCont obj4) = Inr (VBool (n AND 1 = 1))"
    by (simp add: this2_def obj4_def f3 flag_map_of [of user_flags "''has_access_hash''" 1] user_flags_def)
  have f5: "if n AND 1 = 1 then Int64ul VNone d q4 = (Inr (y5, q5), k5)
         else y5 = VNone \<and> q5 = q4 \<and> k5 = []"
    using If_Inr [OF s5 e5] by (simp only: ctx_free [where ctx = "VCont obj4"])
  define obj5 where "obj5 = [(''sname'', y1), (''signature'', y2), (''flags'', y3), (''id'', y4), (''access_hash'', y5)]"
  have c5: "container_set obj4 ''access_hash'' y5 = obj5"
    by (simp add: obj5_def obj4_def)
  from r5 [unfolded c5] obtain y6 q6 k6 m6 where
    r6: "Struct_fields
      [named ''last_name'' (If (this2 ''flags'' ''has_last_name'') tstring_struct),
       named ''username'' (If (this2 ''flags'' ''has_username'') tstring_struct),
       named ''phone'' (If (this2 ''flags'' ''has_phone'') tstring_struct),
       named ''photo'' (If (this2 ''flags'' ''has_profile_photo'') (user_profile_photo_structures ''photo'')),
       named ''status'' (If (this2 ''flags'' ''has_status'') (user_status_structures ''status'')),
       named ''bot_info_version'' (If (this2 ''flags'' ''is_bot'') Int32ul),
       named ''restrictions'' (If (this2 ''flags'' ''is_restricted'') restrictions_vector)] (container_set obj5 ''first_name'' y6) d q6 = (Inr (v, q), m6)"
    and s6: "(If (this2 ''flags'' ''has_first_name'') tstring_struct) (VCont obj5) d q5 = (Inr (y6, q6), k6)"
    and g6: "m5 = k6 @ m6"
    by (rule Struct_fields_named_Inr)
  have e6: "this2 ''flags'' ''has_first_name'' (VCont obj5) = Inr (VBool (n AND 2 = 2))"
    by (simp add: this2_def obj5_def f3 flag_map_of [of user_flags "''has_first_name''" 2] user_flags_def)
  have f6: "if n AND 2 = 2 then tstring_struct VNone d q5 = (Inr (y6, q6), k6)
         else y6 = VNone \<and> q6 = q5 \<and> k6 = []"
    using If_Inr [OF s6 e6] by (simp only: ctx_free [where ctx = "VCont obj5"])
  define obj6 where "obj6 = [(''sname'', y1), (''signature'', y2), (''flags'', y3), (''id'', y4), (''access_hash'', y5), (''first_name'', y6)]"
  have c6: "container_set obj5 ''first_name'' y6 = obj6"
    by (simp add: obj6_def obj5_def)
  from r6 [unfolded c6] obtain y7 q7 k7 m7 where
    r7: "Struct_fields
      [named ''username'' (If (this2 ''flags'' ''has_username'') tstring_struct),
       named ''phone'' (If (this2 ''flags'' ''has_phone'') tstring_struct),
       named ''photo'' (If (this2 ''flags'' ''has_profile_photo'') (user_profile_photo_structures ''photo'')),
       named ''status'' (If (this2 ''flags'' ''has_status'') (user_status_structures ''status'')),
       named ''bot_info_version'' (If (this2 ''flags'' ''is_bot'') Int32ul),
       named ''restrictions'' (If (this2 ''flags'' ''is_restricted'') restrictions_vector)] (container_set obj6 ''last_name'' y7) d q7 = (Inr (v, q), m7)"
    and s7: "(If (this2 ''flags'' ''has_last_name'') tstring_struct) (VCont obj6) d q6 = (Inr (y7, q7), k7)"
    and g7: "m6 = k7 @ m7"
    by (rule Struct_fields_named_Inr)
  have e7: "this2 ''flags'' ''has_last_name'' (VCont obj6) = Inr (VBool (n AND 4 = 4))"
    by (simp add: this2_def obj6_def f3 flag_map_of [of user_flags "''has_last_name''" 4] user_flags_def)
  have f7: "if n AND 4 = 4 then tstring_struct VNone d q6 = (Inr (y7, q7), k7)
         else y7 = VNone \<and> q7 = q6 \<and> k7 = []"
    using If_Inr [OF s7 e7] by (simp only: ctx_free [where ctx = "VCont obj6"])
  define obj7 where "obj7 = [(''sname'', y1), (''signature'', y2), (''flags'', y3), (''id'', y4), (''access_hash'', y5), (''first_name'', y6), (''last_name'', y7)]"
  have c7: "container_set obj6 ''last_name'' y7 = obj7"
    by (simp add: obj7_def obj6_def)
  from r7 [unfolded c7] obtain y8 q8 k8 m8 where
    r8: "Struct_fields
      [named ''phone'' (If (this2 ''flags'' ''has_phone'') tstring_struct),
       named ''photo'' (If (this2 ''flags'' ''has_profile_photo'') (user_profile_photo_structures ''photo'')),
       named ''status'' (If (this2 ''flags'' ''has_status'') (user_status_structures ''status'')),
       named ''bot_info_version'' (If (this2 ''flags'' ''is_bot'') Int32ul),
       named ''restrictions'' (If (this2 ''flags'' ''is_restricted'') restrictions_vector)] (container_set obj7 ''username'' y8) d q8 = (Inr (v, q), m8)"
    and s8: "(If (this2 ''flags'' ''has_username'') tstring_struct) (VCont obj7) d q7 = (Inr (y8, q8), k8)"
    and g8: "m7 = k8 @ m8"
    by (rule Struct_fields_named_Inr)
  have e8: "this2 ''flags'' ''has_username'' (VCont obj7) = Inr (VBool (n AND 8 = 8))"
    by (simp add: this2_def obj7_def f3 flag_map_of [of user_flags "''has_username''" 8] user_flags_def)
  have f8: "if n AND 8 = 8 then tstring_struct VNone d q7 = (Inr (y8, q8), k8)
         else y8 = VNone \<and> q8 = q7 \<and> k8 = []"
    using If_Inr [OF s8 e8] by (simp only: ctx_free [where ctx = "VCont obj7"])
  define obj8 where "obj8 = [(''sname'', y1), (''signature'', y2), (''flags'', y3), (''id'', y4), (''access_hash'', y5), (''first_name'', y6), (''last_name'', y7), (''username'', y8)]"
  have c8: "container_set obj7 ''username'' y8 = obj8"
    by (simp add: obj8_def obj7_def)
  from r8 [unfolded c8] obtain y9 q9 k9 m9 where
    r9: "Struct_fields
      [named ''photo'' (If (this2 ''flags'' ''has_profile_photo'') (user_profile_photo_structures ''photo'')),
       named ''status'' (If (this2 ''flags'' ''has_status'') (user_status_structures ''status'')),
       named ''bot_info_version'' (If (this2 ''flags'' ''is_bot'') Int32ul),
       named ''restrictions'' (If (this2 ''flags'' ''is_restricted'') restrictions_vector)] (container_set obj8 ''phone'' y9) d q9 = (Inr (v, q), m9)"
    and s9: "(If (this2 ''flags'' ''has_phone'') tstring_struct) (VCont obj8) d q8 = (Inr (y9, q9), k9)"
    and g9: "m8 = k9 @ m9"
    by (rule Struct_fields_named_Inr)
  have e9: "this2 ''flags'' ''has_phone'' (VCont obj8) = Inr (VBool (n AND 16 = 16))"
    by (simp add: this2_def obj8_def f3 flag_map_of [of user_flags "''has_phone''" 16] user_flags_def)
  have f9: "if n AND 16 = 16 then tstring_struct VNone d q8 = (Inr (y9, q9), k9)
         else y9 = VNone \<and> q9 = q8 \<and> k9 = []"
    using If_Inr [OF s9 e9] by (simp only: ctx_free [where ctx = "VCont obj8"])
  define obj9 where "obj9 = [(''sname'', y1), (''signature'', y2), (''flags'', y3), (''id'', y4), (''access_hash'', y5), (''first_name'', y6), (''last_name'', y7), (''username'', y8), (''phone'', y9)]"
  have c9: "container_set obj8 ''phone'' y9 = obj9"
    by (simp add: obj9_def obj8_def)
  from r9 [unfolded c9] obtain y10 q10 k10 m10 where
    r10: "Struct_fields
      [named ''status'' (If (this2 ''flags'' ''has_status'') (user_status_structures ''status'')),
       named ''bot_info_version'' (If (this2 ''flags'' ''is_bot'') Int32ul),
       named ''restrictions'' (If (this2 ''flags'' ''is_restricted'') restrictions_vector)] (container_set obj9 ''photo'' y10) d q10 = (Inr (v, q), m10)"
    and s10: "(If (this2 ''flags'' ''has_profile_photo'') (user_profile_photo_structures ''photo'')) (VCont obj9) d q9 = (Inr (y10, q10), k10)"
    and g10: "m9 = k10 @ m10"
    by (rule Struct_fields_named_Inr)
  have e10: "this2 ''flags'' ''has_profile_photo'' (VCont obj9) = Inr (VBool (n AND 32 = 32))"
    by (simp add: this2_def obj9_def f3 flag_map_of [of user_flags "''has_profile_photo''" 32] user_flags_def)
  have f10: "if n AND 32 = 32 then user_profile_photo_structures ''photo'' VNone d q9 = (Inr (y10, q10), k10)
         else y10 = VNone \<and> q10 = q9 \<and> k10 = []"
    using If_Inr [OF s10 e10] by (simp only: ctx_free [where ctx = "VCont obj9"])
  define obj10 where "obj10 = [(''sname'', y1), (''signature'', y2), (''flags'', y3), (''id'', y4), (''access_hash'', y5), (''first_name'', y6), (''last_name'', y7), (''username'', y8), (''phone'', y9), (''photo'', y10)]"
  have c10: "container_set obj9 ''photo'' y10 = obj10"
    by (simp add: obj10_def obj9_def)
  from r10 [unfolded c10] obtain y11 q11 k11 m11 where
    r11: "Struct_fields
      [named ''bot_info_version'' (If (this2 ''flags'' ''is_bot'') Int32ul),
       named ''restrictions'' (If (this2 ''flags'' ''is_restricted'') restrictions_vector)] (container_set obj10 ''status'' y11) d q11 = (Inr (v, q), m11)"
    and s11: "(If (this2 ''flags'' ''has_status'') (user_status_structures ''status'')) (VCont obj10) d q10 = (Inr (y11, q11), k11)"
    and g11: "m10 = k11 @ m11"
    by (rule Struct_fields_named_Inr)
  have e11: "this2 ''flags'' ''has_status'' (VCont obj10) = Inr (VBool (n AND 64 = 64))"
    by (simp add: this2_def obj10_def f3 flag_map_of [of user_flags "''has_status''" 64] user_flags_def)
  have f11: "if n AND 64 = 64 then user_status_structures ''status'' VNone d q10 = (Inr (y11, q11), k11)
         else y11 = VNone \<and> q11 = q10 \<and> k11 = []"
    using If_Inr [OF s11 e11] by (simp only: ctx_free [where ctx = "VCont obj10"])
  define obj11 where "obj11 = [(''sname'', y1), (''signature'', y2), (''flags'', y3), (''id'', y4), (''access_hash'', y5), (''first_name'', y6), (''last_name'', y7), (''username'', y8), (''phone'', y9), (''photo'', y10), (''status'', y11)]"
  have c11: "container_set obj10 ''status'' y11 = obj11"
    by (simp add: obj11_def obj10_def)
  from r11 [unfolded c11] obtain y12 q12 k12 m12 where
    r12: "Struct_fields
      [named ''restrictions'' (If (this2 ''flags'' ''is_restricted'') restrictions_vector)] (container_set obj11 ''bot_info_version'' y12) d q12 = (Inr (v, q), m12)"
    and s12: "(If (this2 ''flags'' ''is_bot'') Int32ul) (VCont obj11) d q11 = (Inr (y12, q12), k12)"
    and g12: "m11 = k12 @ m12"
    by (rule Struct_fields_named_Inr)
  have e12: "this2 ''flags'' ''is_bot'' (VCont obj11) = Inr (VBool (n AND 16384 = 16384))"
    by (simp add: this2_def obj11_def f3 flag_map_of [of user_flags "''is_bot''" 16384] user_flags_def)
  have f12: "if n AND 16384 = 16384 then Int32ul VNone d q11 = (Inr (y12, q12), k12)
         else y12 = VNone \<and> q12 = q11 \<and> k12 = []"
    using If_Inr [OF s12 e12] by (simp only: ctx_free [where ctx = "VCont obj11"])
  define obj12 where "obj12 = [(''sname'', y1), (''signature'', y2), (''flags'', y3), (''id'', y4), (''access_hash'', y5), (''first_name'', y6), (''last_name'', y7), (''username'', y8), (''phone'', y9), (''photo'', y10), (''status'', y11), (''bot_info_version'', y12)]"
  have c12: "container_set obj11 ''bot_info_version'' y12 = obj12"
    by (simp add: obj12_def obj11_def)
  from r12 [unfolded c12] obtain y13 q13 k13 m13 where
    r13: "Struct_fields
      [] (container_set obj12 ''restrictions'' y13) d q13 = (Inr (v, q), m13)"
    and s13: "(If (this2 ''flags'' ''is_restricted'') restrictions_vector) (VCont obj12) d q12 = (Inr (y13, q13), k13)"
    and g13: "m12 = k13 @ m13"
    by (rule Struct_fields_named_Inr)
  have e13: "this2 ''flags'' ''is_restricted'' (VCont obj12) = Inr (VBool (n AND 262144 = 262144))"
    by (simp add: this2_def obj12_def f3 flag_map_of [of user_flags "''is_restricted''" 262144] user_flags_def)
  have f13: "if n AND 262144 = 262144 then restrictions_vector VNone d q12 = (Inr (y13, q13), k13)
         else y13 = VNone \<and> q13 = q12 \<and> k13 = []"
    using If_Inr [OF s13 e13] by (simp only: ctx_free [where ctx = "VCont obj12"])
  define obj13 where "obj13 = [(''sname'', y1), (''signature'', y2), (''flags'', y3), (''id'', y4), (''access_hash'', y5), (''first_name'', y6), (''last_name'', y7), (''username'', y8), (''phone'', y9), (''photo'', y10), (''status'', y11), (''bot_info_version'', y12), (''restrictions'', y13)]"
  have c13: "container_set obj12 ''restrictions'' y13 = obj13"
    by (simp add: obj13_def obj12_def)
  from r13 [unfolded c13] have fin: "v = VCont obj13 \<and> q = q13 \<and> m13 = []"
    by (rule Struct_fields_Nil_Inr)
  have logs: "l = k5 @ k6 @ k7 @ k8 @ k9 @ k10 @ k11 @ k12 @ k13"
    using g1 g2 g3 g4 g5 g6 g7 g8 g9 g10 g11 g12 g13 fin f1 f2 f3 f4 by simp
  have rec: "v = VCont [
          (''sname'', pystr ''user_struct''),
          (''signature'', VInt 0x938458c1),
          (''flags'', VCont ((''_flagsenum'', VBool True) #
                 map (\<lambda>(name, value). (name, VBool (n AND value = value))) user_flags)),
          (''id'', VInt i),
          (''access_hash'', y5),
          (''first_name'', y6),
          (''last_name'', y7),
          (''username'', y8),
          (''phone'', y9),
          (''photo'', y10),
          (''status'', y11),
          (''bot_info_version'', y12),
          (''restrictions'', y13)]"
    using fin f1 f2 f3 f4 by (simp add: obj13_def)
  have "n = from_bytes_little (take 4 (drop (p + 4) d))
     \<and> i = from_bytes_little (take 4 (drop (p + 8) d))
     \<and> p + 12 \<le> length d
     \<and> v = VCont [
          (''sname'', pystr ''user_struct''),
          (''signature'', VInt 0x938458c1),
          (''flags'', VCont ((''_flagsenum'', VBool True) #
                 map (\<lambda>(name, value). (name, VBool (n AND value = value))) user_flags)),
          (''id'', VInt i),
          (''access_hash'', y5),
          (''first_name'', y6),
          (''last_name'', y7),
          (''username'', y8),
          (''phone'', y9),
          (''photo'', y10),
          (''status'', y11),
          (''bot_info_version'', y12),
          (''restrictions'', y13)]
     \<and> (if n AND 1 = 1 then Int64ul VNone d (p + 12) = (Inr (y5, q5), k5)
         else y5 = VNone \<and> q5 = (p + 12) \<and> k5 = [])
     \<and> (if n AND 2 = 2 then tstring_struct VNone d q5 = (Inr (y6, q6), k6)
         else y6 = VNone \<and> q6 = q5 \<and> k6 = [])
     \<and> (if n AND 4 = 4 then tstring_struct VNone d q6 = (Inr (y7, q7), k7)
         else y7 = VNone \<and> q7 = q6 \<and> k7 = [])
     \<and> (if n AND 8 = 8 then tstring_struct VNone d q7 = (Inr (y8, q8), k8)
         else y8 = VNone \<and> q8 = q7 \<and> k8 = [])
     \<and> (if n AND 16 = 16 then tstring_struct VNone d q8 = (Inr (y9, q9), k9)
         else y9 = VNone \<and> q9 = q8 \<and> k9 = [])
     \<and> (if n AND 32 = 32 then user_profile_photo_structures ''photo'' VNone d q9 = (Inr (y10, q10), k10)
         else y10 = VNone \<and> q10 = q9 \<and> k10 = [])
     \<and> (if n AND 64 = 64 then user_status_structures ''status'' VNone d q10 = (Inr (y11, q11), k11)
         else y11 = VNone \<and> q11 = q10 \<and> k11 = [])
     \<and> (if n AND 16384 = 16384 then Int32ul VNone d q11 = (Inr (y12, q12), k12)
         else y12 = VNone \<and> q12 = q11 \<and> k12 = [])
     \<and> (if n AND 262144 = 262144 then restrictions_vector VNone d q12 = (Inr (y13, q13), k13)
         else y13 = VNone \<and> q13 = q12 \<and> k13 = [])
     \<and> q = q13
     \<and> l = k5 @ k6 @ k7 @ k8 @ k9 @ k10 @ k11 @ k12 @ k13"
    using rec logs fin f4 f5 f6 f7 f8 f9 f10 f11 f12 f13
    by (simp only: n_def [symmetric] i_def [symmetric] simp_thms)
  then show ?thesis
    apply -
    apply (intro exI)
    apply assumption
    done
qed

text \<open>
  \<^verbatim>\<open>user_struct\<close> at a user with flags 3: \<^verbatim>\<open>access_hash\<close> and \<^verbatim>\<open>first_name\<close> are on the
  wire, the other seven optional fields are \<^verbatim>\<open>None\<close>.
\<close>

theorem user_struct_optional_fields_witness:
  "user_struct VNone
     [0xc1 :: byte, 0x58, 0x84, 0x93, 0x03, 0x00, 0x00, 0x00, 0x01, 0x00, 0x00, 0x00,
      0x01, 0x02, 0x03, 0x04, 0x05, 0x06, 0x07, 0x08, 0x02, 0x68, 0x69, 0x00] 0 =
     (Inr (VCont [
        (''sname'', pystr ''user_struct''),
        (''signature'', VInt 0x938458c1),
        (''flags'', VCont ((''_flagsenum'', VBool True) #
                 map (\<lambda>(name, value). (name, VBool (3 AND value = value))) user_flags)),
        (''id'', VInt 1),
        (''access_hash'', VInt 0x0807060504030201),
        (''first_name'', VCont [(''_sname'', pystr ''tstring''), (''_check'', VInt 2), (''_pl'', VInt 2),
                               (''_len'', VInt 2), (''_value'', VBytes [0x68, 0x69]),
                               (''string'', pystr ''hi'')]),
        (''last_name'', VNone), (''username'', VNone), (''phone'', VNone), (''photo'', VNone),
        (''status'', VNone), (''bot_info_version'', VNone), (''restrictions'', VNone)], 24), [])
   \<and> (\<exists>n i x1 x2 x3 x4 x5 x6 x7 x8 x9
       o1 o2 o3 o4 o5 o6 o7 o8 o9
       l1 l2 l3 l4 l5 l6 l7 l8 l9.
       n = from_bytes_little (take 4 (drop (0 + 4) [0xc1 :: byte, 0x58, 0x84, 0x93, 0x03, 0x00, 0x00, 0x00, 0x01, 0x00, 0x00, 0x00,
      0x01, 0x02, 0x03, 0x04, 0x05, 0x06, 0x07, 0x08, 0x02, 0x68, 0x69, 0x00]))
     \<and> i = from_bytes_little (take 4 (drop (0 + 8) [0xc1 :: byte, 0x58, 0x84, 0x93, 0x03, 0x00, 0x00, 0x00, 0x01, 0x00, 0x00, 0x00,
      0x01, 0x02, 0x03, 0x04, 0x05, 0x06, 0x07, 0x08, 0x02, 0x68, 0x69, 0x00]))
     \<and> 0 + 12 \<le> length [0xc1 :: byte, 0x58, 0x84, 0x93, 0x03, 0x00, 0x00, 0x00, 0x01, 0x00, 0x00, 0x00,
      0x01, 0x02, 0x03, 0x04, 0x05, 0x06, 0x07, 0x08, 0x02, 0x68, 0x69, 0x00]
     \<and> VCont [
        (''sname'', pystr ''user_struct''),
        (''signature'', VInt 0x938458c1),
        (''flags'', VCont ((''_flagsenum'', VBool True) #
                 map (\<lambda>(name, value). (name, VBool (3 AND value = value))) user_flags)),
        (''id'', VInt 1),
        (''access_hash'', VInt 0x0807060504030201),
        (''first_name'', VCont [(''_sname'', pystr ''tstring''), (''_check'', VInt 2), (''_pl'', VInt 2),
                               (''_len'', VInt 2), (''_value'', VBytes [0x68, 0x69]),
                               (''string'', pystr ''hi'')]),
        (''last_name'', VNone), (''username'', VNone), (''phone'', VNone), (''photo'', VNone),
        (''status'', VNone), (''bot_info_version'', VNone), (''restrictions'', VNone)] = VCont [
          (''sname'', pystr ''user_struct''),
          (''signature'', VInt 0x938458c1),
          (''flags'', VCont ((''_flagsenum'', VBool True) #
                 map (\<lambda>(name, value). (name, VBool (n AND value = value))) user_flags)),
          (''id'', VInt i),
          (''access_hash'', x1),
          (''first_name'', x2),
          (''last_name'', x3),
          (''username'', x4),
          (''phone'', x5),
          (''photo'', x6),
          (''status'', x7),
          (''bot_info_version'', x8),
          (''restrictions'', x9)]
     \<and> (if n AND 1 = 1 then Int64ul VNone [0xc1 :: byte, 0x58, 0x84, 0x93, 0x03, 0x00, 0x00, 0x00, 0x01, 0x00, 0x00, 0x00,
      0x01, 0x02, 0x03, 0x04, 0x05, 0x06, 0x07, 0x08, 0x02, 0x68, 0x69, 0x00] (0 + 12) = (Inr (x1, o1), l1)
         else x1 = VNone \<and> o1 = (0 + 12) \<and> l1 = [])
     \<and> (if n AND 2 = 2 then tstring_struct VNone [0xc1 :: byte, 0x58, 0x84, 0x93, 0x03, 0x00, 0x00, 0x00, 0x01, 0x00, 0x00, 0x00,
      0x01, 0x02, 0x03, 0x04, 0x05, 0x06, 0x07, 0x08, 0x02, 0x68, 0x69, 0x00] o1 = (Inr (x2, o2), l2)
         else x2 = VNone \<and> o2 = o1 \<and> l2 = [])
     \<and> (if n AND 4 = 4 then tstring_struct VNone [0xc1 :: byte, 0x58, 0x84, 0x93, 0x03, 0x00, 0x00, 0x00, 0x01, 0x00, 0x00, 0x00,
      0x01, 0x02, 0x03, 0x04, 0x05, 0x06, 0x07, 0x08, 0x02, 0x68, 0x69, 0x00] o2 = (Inr (x3, o3), l3)
         else x3 = VNone \<and> o3 = o2 \<and> l3 = [])
     \<and> (if n AND 8 = 8 then tstring_struct VNone [0xc1 :: byte, 0x58, 0x84, 0x93, 0x03, 0x00, 0x00, 0x00, 0x01, 0x00, 0x00, 0x00,
      0x01, 0x02, 0x03, 0x04, 0x05, 0x06, 0x07, 0x08, 0x02, 0x68, 0x69, 0x00] o3 = (Inr (x4, o4), l4)
         else x4 = VNone \<and> o4 = o3 \<and> l4 = [])
     \<and> (if n AND 16 = 16 then tstring_struct VNone [0xc1 :: byte, 0x58, 0x84, 0x93, 0x03, 0x00, 0x00, 0x00, 0x01, 0x00, 0x00, 0x00,
      0x01, 0x02, 0x03, 0x04, 0x05, 0x06, 0x07, 0x08, 0x02, 0x68, 0x69, 0x00] o4 = (Inr (x5, o5), l5)
         else x5 = VNone \<and> o5 = o4 \<and> l5 = [])
     \<and> (if n AND 32 = 32 then user_profile_photo_structures ''photo'' VNone [0xc1 :: byte, 0x58, 0x84, 0x93, 0x03, 0x00, 0x00, 0x00, 0x01, 0x00, 0x00, 0x00,
      0x01, 0x02, 0x03, 0x04, 0x05, 0x06, 0x07, 0x08, 0x02, 0x68, 0x69, 0x00] o5 = (Inr (x6, o6), l6)
         else x6 = VNone \<and> o6 = o5 \<and> l6 = [])
     \<and> (if n AND 64 = 64 then user_status_structures ''status'' VNone [0xc1 :: byte, 0x58, 0x84, 0x93, 0x03, 0x00, 0x00, 0x00, 0x01, 0x00, 0x00, 0x00,
      0x01, 0x02, 0x03, 0x04, 0x05, 0x06, 0x07, 0x08, 0x02, 0x68, 0x69, 0x00] o6 = (Inr (x7, o7), l7)
         else x7 = VNone \<and> o7 = o6 \<and> l7 = [])
     \<and> (if n AND 16384 = 16384 then Int32ul VNone [0xc1 :: byte, 0x58, 0x84, 0x93, 0x03, 0x00, 0x00, 0x00, 0x01, 0x00, 0x00, 0x00,
      0x01, 0x02, 0x03, 0x04, 0x05, 0x06, 0x07, 0x08, 0x02, 0x68, 0x69, 0x00] o7 = (Inr (x8, o8), l8)
         else x8 = VNone \<and> o8 = o7 \<and> l8 = [])
     \<and> (if n AND 262144 = 262144 then restrictions_vector VNone [0xc1 :: byte, 0x58, 0x84, 0x93, 0x03, 0x00, 0x00, 0x00, 0x01, 0x00, 0x00, 0x00,
      0x01, 0x02, 0x03, 0x04, 0x05, 0x06, 0x07, 0x08, 0x02, 0x68, 0x69, 0x00] o8 = (Inr (x9, o9), l9)
         else x9 = VNone \<and> o9 = o8 \<and> l9 = [])
     \<and> 24 = o9
     \<and> [] = l1 @ l2 @ l3 @ l4 @ l5 @ l6 @ l7 @ l8 @ l9)"
proof -
  have h: "user_struct VNone
     [0xc1 :: byte, 0x58, 0x84, 0x93, 0x03, 0x00, 0x00, 0x00, 0x01, 0x00, 0x00, 0x00,
      0x01, 0x02, 0x03, 0x04, 0x05, 0x06, 0x07, 0x08, 0x02, 0x68, 0x69, 0x00] 0 =
     (Inr (VCont [
        (''sname'', pystr ''user_struct''),
        (''signature'', VInt 0x938458c1),
        (''flags'', VCont ((''_flagsenum'', VBool True) #
                 map (\<lambda>(name, value). (name, VBool (3 AND value = value))) user_flags)),
        (''id'', VInt 1),
        (''access_hash'', VInt 0x0807060504030201),
        (''first_name'', VCont [(''_sname'', pystr ''tstring''), (''_check'', VInt 2), (''_pl'', VInt 2),
                               (''_len'', VInt 2), (''_value'', VBytes [0x68, 0x69]),
                               (''string'', pystr ''hi'')]),
        (''last_name'', VNone), (''username'', VNone), (''phone'', VNone), (''photo'', VNone),
        (''status'', VNone), (''bot_info_version'', VNone), (''restrictions'', VNone)], 24), [])"
    by (simp add: user_struct_def user_flags_def FlagsEnum_def tstring_struct_def decode_value_def
          decode_tstring_def pystr_def construct_defs)
  show ?thesis
    by (rule conjI [OF h user_struct_optional_fields [OF h]])
qed

text \<open>
  Claim C9, on the code.  The claim says that a message without explicit
  \<^verbatim>\<open>from_id\<close> carries a \<^verbatim>\<open>from_id_adjusted\<close> derived from \<^verbatim>\<open>to_id\<close>, and
  that an explicit nonzero \<^verbatim>\<open>from_id\<close> is returned unchanged.  In both message
  decoders the two branches of the derived field are written
  \<^verbatim>\<open>'from_id_adjusted' / this.to_id.user_id\<close> and
  \<^verbatim>\<open>'from_id_adjusted' / this.to_id.channel_id * -1\<close>, which are expression objects
  and not constructs: the constructor of \<^verbatim>\<open>IfThenElse\<close> raises
  \<^verbatim>\<open>AttributeError\<close> on them.  So the methods \<^verbatim>\<open>message_service_layer48_struct\<close>
  and \<^verbatim>\<open>message_layer68_struct\<close> raise while they build their \<^verbatim>\<open>Struct\<close>, and
  \<^verbatim>\<open>parse_blob\<close> raises \<^verbatim>\<open>AttributeError\<close> on every buffer that carries the tag
  0xc06b9607 or 0xc09be45f, before a byte after the tag is read: no record, no
  \<^verbatim>\<open>from_id\<close> and no \<^verbatim>\<open>from_id_adjusted\<close> is returned.
\<close>

theorem from_id_adjusted_raises_when_built:
  "message_service_layer48_struct env = Inl AttributeError
   \<and> message_layer68_struct env = Inl AttributeError
   \<and> parse_blob env (fst init) (0x07 # 0x96 # 0x6b # 0xc0 # rest) = (Inl AttributeError, [])
   \<and> parse_blob env (fst init) (0x5f # 0xe4 # 0x9b # 0xc0 # rest) = (Inl AttributeError, [])"
proof (intro conjI)
  show "message_service_layer48_struct env = Inl AttributeError"
    by (rule message_service_layer48_struct_raises)
  show "message_layer68_struct env = Inl AttributeError"
    by (rule message_layer68_struct_raises)
  show "parse_blob env (fst init) (0x07 # 0x96 # 0x6b # 0xc0 # rest) = (Inl AttributeError, [])"
    apply (rule parse_blob_decoder_raises [where m = "''message_service_layer48_struct''"
             and beautify = VNone and name = "''message_service_layer48''"])
     apply (simp only: tag_message_service_layer48 registry_0xc06b9607)
    apply (simp only: method_message_service_layer48 parse_built_Inl)
    done
  show "parse_blob env (fst init) (0x5f # 0xe4 # 0x9b # 0xc0 # rest) = (Inl AttributeError, [])"
    apply (rule parse_blob_decoder_raises [where m = "''message_layer68_struct''"
             and beautify = VNone and name = "''message_layer68''"])
     apply (simp only: tag_message_layer68 registry_0xc09be45f)
    apply (simp only: method_message_layer68 parse_built_Inl)
    done
qed

end
